theory Spec2Isabelle
  imports Main "HOL-Library.Word" "HOL-Library.AList"
begin

section \<open>Converge: the collaboration server (server/socket/collaboration-server.ts)\<close>

text \<open>
  The development embeds the class \<open>CollaborationServer\<close> together with the two classes it
  drives, \<open>CRDTDocument\<close> and \<open>DocumentStore\<close> (lib/crdt/document.ts), and the access check
  \<open>checkDocumentAccess\<close> (lib/auth/session.ts).  Every handler of the class is a function from
  the server's state to its state after the handler has run to completion.  What a handler
  sends is appended to the log \<open>emitted\<close>; the rows Prisma reads and writes are the record
  \<open>Database\<close>; the objects the JavaScript shares by reference (the \<open>RoomState\<close> a timer
  closure holds, the \<open>CRDTDocument\<close> both the room and the document store point to) live in
  two stores indexed by address.
\<close>

subsection \<open>Data\<close>

type_synonym socketId = string
type_synonym userId = string
type_synonym documentId = string
type_synonym roomId = string
type_synonym bytes = "8 word list"
type_synonym wire = "int list"
type_synonym time = int

datatype Role = OWNER | EDITOR | VIEWER

record CursorPosition =
  anchor :: int
  head :: int

record SafeUser =
  su_id :: userId
  su_name :: string
  su_email :: string
  su_avatar :: "string option"
  su_color :: string

text \<open>\<open>AuthenticatedSocket\<close>: the middleware sets \<open>userId\<close> and \<open>user\<close> before any handler runs.\<close>

record Socket =
  sock_id :: socketId
  sock_userId :: userId
  sock_user :: SafeUser

record RoomUser =
  ru_id :: userId
  ru_name :: string
  ru_color :: string
  ru_avatar :: "string option"
  ru_role :: Role
  ru_cursor :: "CursorPosition option"
  ru_isOnline :: bool

text \<open>
  \<open>RoomState\<close>.  \<open>users\<close> is a JavaScript \<open>Map\<close>: an association list in insertion order,
  written with \<open>AList.update\<close> (\<open>set\<close>) and \<open>AList.delete\<close> (\<open>delete\<close>).  \<open>document\<close> is the
  address of the room's \<open>CRDTDocument\<close>, \<open>saveTimeout\<close> the handle of the last timer armed.
\<close>

record RoomState =
  documentId :: documentId
  users :: "(userId \<times> RoomUser) list"
  document :: nat
  lastSaveTime :: time
  saveTimeout :: "nat option"

record 'd CRDTDocument =
  doc :: 'd
  crdt_documentId :: documentId
  destroyed :: bool

subsection \<open>Payloads and events\<close>

record JoinRoomPayload =
  jp_documentId :: documentId

record DocumentInfo =
  di_id :: documentId
  di_title :: string
  di_version :: int

record RoomJoinedPayload =
  rj_documentId :: documentId
  rj_document :: DocumentInfo
  rj_state :: wire
  rj_users :: "RoomUser list"
  rj_role :: Role

record UpdateOperationPayload =
  uo_documentId :: documentId
  uo_update :: wire
  uo_clientId :: int
  uo_timestamp :: int

record SyncStatePayload =
  ss_documentId :: documentId
  ss_state :: wire
  ss_version :: int

record CursorUser =
  cu_name :: string
  cu_color :: string

record CursorPresencePayload =
  cp_documentId :: documentId
  cp_userId :: userId
  cp_cursor :: "CursorPosition option"
  cp_user :: CursorUser

record TypingIndicatorPayload =
  ti_documentId :: documentId
  ti_userId :: userId
  ti_isTyping :: bool

text \<open>
  The events of \<open>SocketEvent\<close> the server sends.  \<open>UPDATE_OPERATION\<close> carries the payload and
  the \<open>userId\<close> the server adds; \<open>DOCUMENT_SAVED\<close> the document id and \<open>savedAt\<close>.
\<close>

datatype Event =
    ERROR string
  | ROOM_JOINED RoomJoinedPayload
  | USER_JOINED RoomUser
  | USER_LEFT userId
  | UPDATE_OPERATION UpdateOperationPayload userId
  | SYNC_STATE SyncStatePayload
  | CURSOR_PRESENCE CursorPresencePayload
  | TYPING_INDICATOR TypingIndicatorPayload
  | DOCUMENT_SAVED documentId time

text \<open>
  Where an event goes: \<open>socket.emit\<close> (the socket itself), \<open>socket.to(room).emit\<close> (every
  socket of the Socket.IO room but the sender) and \<open>io.to(room).emit\<close> (every socket of it).
\<close>

datatype Target =
    ToSocket socketId
  | ToOthers roomId socketId
  | ToRoom roomId

subsection \<open>The database rows Prisma reads and writes\<close>

record DocumentRow =
  title :: string
  content :: "bytes option"
  ownerId :: userId
  isPublic :: bool
  version :: int
  updatedAt :: time

record OperationRow =
  op_documentId :: documentId
  op_userId :: userId
  op_data :: bytes
  op_version :: int
  op_createdAt :: time

record SnapshotRow =
  sn_documentId :: documentId
  sn_data :: bytes
  sn_version :: int
  sn_createdAt :: time

record Database =
  documents :: "documentId \<rightharpoonup> DocumentRow"
  collaborators :: "(userId \<times> documentId) \<rightharpoonup> Role"
  operations :: "OperationRow list"
  snapshots :: "SnapshotRow list"

subsection \<open>The CRDT engine\<close>

text \<open>
  Yjs and the two converters of lib/utils are not code of this class: they are a parameter.
  \<open>Y.applyUpdate\<close> mutates the \<open>Y.Doc\<close> it is given and may throw on a malformed update, so
  its result says which of the two happened and what the \<open>Y.Doc\<close> holds afterwards.
\<close>

datatype 'd applied = Ok 'd | Threw 'd

record 'd Engine =
  Y_Doc :: 'd
  Y_applyUpdate :: "'d \<Rightarrow> bytes \<Rightarrow> 'd applied"
  Y_encodeStateAsUpdate :: "'d \<Rightarrow> bytes"
  arrayToUint8Array :: "wire \<Rightarrow> bytes"
  uint8ArrayToArray :: "bytes \<Rightarrow> wire"

subsection \<open>The server's state\<close>

record Timer =
  deadline :: time
  target :: nat

text \<open>
  The three maps of \<open>CollaborationServer\<close>, the map of \<open>DocumentStore\<close>, and what the class
  reaches through its environment: the two object stores with their next free address, the
  membership of the Socket.IO rooms, the database, the pending timers in the order they were
  armed, the events sent so far, and the clock \<open>Date.now()\<close> reads.
\<close>

record 'd Server =
  rooms :: "roomId \<rightharpoonup> nat"
  userSockets :: "userId \<rightharpoonup> socketId list"
  socketToRoom :: "socketId \<rightharpoonup> roomId"
  documentStore :: "documentId \<rightharpoonup> nat"
  roomHeap :: "nat \<Rightarrow> RoomState"
  nextRoom :: nat
  docHeap :: "nat \<Rightarrow> 'd CRDTDocument"
  nextDoc :: nat
  ioRooms :: "roomId \<Rightarrow> socketId set"
  db :: Database
  timers :: "(nat \<times> Timer) list"
  nextTimer :: nat
  emitted :: "(Target \<times> Event) list"
  now :: time

definition SAVE_DEBOUNCE_MS :: int where
  "SAVE_DEBOUNCE_MS = 2000"

definition SNAPSHOT_INTERVAL_MS :: int where
  "SNAPSHOT_INTERVAL_MS = 60000"

definition emit :: "Target \<Rightarrow> Event \<Rightarrow> 'd Server \<Rightarrow> 'd Server" where
  "emit t e s = s\<lparr>emitted := emitted s @ [(t, e)]\<rparr>"

text \<open>
  \<open>this.socketToRoom.get(socket.id)\<close> followed by \<open>if (!roomId) return\<close>: the empty string is
  as falsy as \<open>undefined\<close>.
\<close>

definition roomOf :: "'d Server \<Rightarrow> socketId \<Rightarrow> roomId option" where
  "roomOf s sid =
     (case socketToRoom s sid of
        None \<Rightarrow> None
      | Some roomId \<Rightarrow> if roomId = [] then None else Some roomId)"

subsection \<open>lib/auth/session.ts\<close>

definition checkDocumentAccess :: "Database \<Rightarrow> userId \<Rightarrow> documentId \<Rightarrow> bool \<times> Role option" where
  "checkDocumentAccess d uid did =
     (case documents d did of
        None \<Rightarrow> (False, None)
      | Some row \<Rightarrow>
          if ownerId row = uid then (True, Some OWNER)
          else (case collaborators d (uid, did) of
                  Some r \<Rightarrow> (True, Some r)
                | None \<Rightarrow> if isPublic row then (True, Some VIEWER) else (False, None)))"

subsection \<open>lib/crdt/document.ts\<close>

text \<open>The constructor of \<open>CRDTDocument\<close>; \<open>None\<close> when \<open>Y.applyUpdate\<close> throws in it.\<close>

definition CRDTDocument_new :: "'d Engine \<Rightarrow> documentId \<Rightarrow> bytes option \<Rightarrow> 'd CRDTDocument option" where
  "CRDTDocument_new eng did initialState =
     (case initialState of
        None \<Rightarrow> Some \<lparr>doc = Y_Doc eng, crdt_documentId = did, destroyed = False\<rparr>
      | Some st \<Rightarrow>
          if length st > 0 then
            (case Y_applyUpdate eng (Y_Doc eng) st of
               Ok d \<Rightarrow> Some \<lparr>doc = d, crdt_documentId = did, destroyed = False\<rparr>
             | Threw d \<Rightarrow> None)
          else Some \<lparr>doc = Y_Doc eng, crdt_documentId = did, destroyed = False\<rparr>)"

definition getState :: "'d Engine \<Rightarrow> 'd CRDTDocument \<Rightarrow> bytes" where
  "getState eng c = Y_encodeStateAsUpdate eng (doc c)"

definition getStateArray :: "'d Engine \<Rightarrow> 'd CRDTDocument \<Rightarrow> wire" where
  "getStateArray eng c = uint8ArrayToArray eng (getState eng c)"

text \<open>\<open>CRDTDocument.applyUpdate\<close>: the \<open>Y.Doc\<close> is what the engine leaves, thrown or not.\<close>

definition applyUpdate :: "'d Engine \<Rightarrow> 'd CRDTDocument \<Rightarrow> bytes \<Rightarrow> 'd CRDTDocument applied" where
  "applyUpdate eng c update =
     (case Y_applyUpdate eng (doc c) update of
        Ok d \<Rightarrow> Ok (c\<lparr>doc := d\<rparr>)
      | Threw d \<Rightarrow> Threw (c\<lparr>doc := d\<rparr>))"

text \<open>
  \<open>DocumentStore.getOrCreate\<close>: the address of the document and the state with it stored;
  \<open>None\<close> when the constructor throws, the map then as it was.
\<close>

definition getOrCreate ::
  "'d Engine \<Rightarrow> documentId \<Rightarrow> bytes option \<Rightarrow> 'd Server \<Rightarrow> (nat \<times> 'd Server) option" where
  "getOrCreate eng did initialState s =
     (case documentStore s did of
        Some a \<Rightarrow> Some (a, s)
      | None \<Rightarrow>
          (case CRDTDocument_new eng did initialState of
             None \<Rightarrow> None
           | Some c \<Rightarrow>
               Some (nextDoc s,
                     s\<lparr>docHeap := (docHeap s)(nextDoc s := c),
                       nextDoc := Suc (nextDoc s),
                       documentStore := (documentStore s)(did \<mapsto> nextDoc s)\<rparr>)))"

text \<open>\<open>DocumentStore.remove\<close>.\<close>

definition remove_doc :: "documentId \<Rightarrow> 'd Server \<Rightarrow> 'd Server" where
  "remove_doc did s =
     (case documentStore s did of
        None \<Rightarrow> s
      | Some a \<Rightarrow>
          s\<lparr>docHeap := (docHeap s)(a := (docHeap s a)\<lparr>destroyed := True\<rparr>),
            documentStore := (documentStore s)(did := None)\<rparr>)"

subsection \<open>Timers\<close>

text \<open>
  \<open>setTimeout\<close> arms a timer under a handle no earlier call returned; \<open>clearTimeout\<close> drops
  the timer of that handle if it is still pending.
\<close>

definition setTimeout :: "int \<Rightarrow> nat \<Rightarrow> 'd Server \<Rightarrow> nat \<times> 'd Server" where
  "setTimeout ms ra s =
     (nextTimer s,
      s\<lparr>timers := timers s @ [(nextTimer s, \<lparr>deadline = now s + ms, target = ra\<rparr>)],
        nextTimer := Suc (nextTimer s)\<rparr>)"

definition clearTimeout :: "nat \<Rightarrow> 'd Server \<Rightarrow> 'd Server" where
  "clearTimeout h s = s\<lparr>timers := filter (\<lambda>(i, tm). i \<noteq> h) (timers s)\<rparr>"

subsection \<open>Persistence\<close>

definition getDocumentVersion :: "Database \<Rightarrow> documentId \<Rightarrow> int" where
  "getDocumentVersion d did = (case documents d did of None \<Rightarrow> 0 | Some row \<Rightarrow> version row)"

text \<open>
  \<open>saveDocument\<close>.  \<open>prisma.document.update\<close> throws when the row is gone; the \<open>catch\<close> logs and
  nothing else has happened by then.  Otherwise the row is written, the operation record is
  appended with the version read back, the snapshot is appended when
  \<open>now - roomState.lastSaveTime > SNAPSHOT_INTERVAL_MS\<close>, \<open>lastSaveTime\<close> is set and the room is
  told.
\<close>

definition saveDocument :: "'d Engine \<Rightarrow> nat \<Rightarrow> 'd Server \<Rightarrow> 'd Server" where
  "saveDocument eng ra s =
     (let roomState = roomHeap s ra;
          did = documentId roomState;
          state = getState eng (docHeap s (document roomState));
          now' = now s
      in case documents (db s) did of
           None \<Rightarrow> s
         | Some row \<Rightarrow>
             let db1 = (db s)\<lparr>documents := (documents (db s))(did \<mapsto>
                          row\<lparr>content := Some state, version := version row + 1, updatedAt := now'\<rparr>)\<rparr>;
                 db2 = db1\<lparr>operations := operations db1 @
                          [\<lparr>op_documentId = did, op_userId = ''system'', op_data = state,
                            op_version = getDocumentVersion db1 did, op_createdAt = now'\<rparr>]\<rparr>;
                 db3 = (if now' - lastSaveTime roomState > SNAPSHOT_INTERVAL_MS
                        then db2\<lparr>snapshots := snapshots db2 @
                               [\<lparr>sn_documentId = did, sn_data = state,
                                 sn_version = getDocumentVersion db2 did, sn_createdAt = now'\<rparr>]\<rparr>
                        else db2)
             in emit (ToRoom (''doc:'' @ did)) (DOCUMENT_SAVED did now')
                  (s\<lparr>db := db3,
                     roomHeap := (roomHeap s)(ra := roomState\<lparr>lastSaveTime := now'\<rparr>)\<rparr>))"

text \<open>\<open>scheduleSave\<close>: clear the handle the room holds, arm a new timer, keep its handle.\<close>

definition scheduleSave :: "nat \<Rightarrow> 'd Server \<Rightarrow> 'd Server" where
  "scheduleSave ra s =
     (let s1 = (case saveTimeout (roomHeap s ra) of
                  Some h \<Rightarrow> clearTimeout h s
                | None \<Rightarrow> s);
          (h, s2) = setTimeout SAVE_DEBOUNCE_MS ra s1
      in s2\<lparr>roomHeap := (roomHeap s2)(ra := (roomHeap s2 ra)\<lparr>saveTimeout := Some h\<rparr>)\<rparr>)"

subsection \<open>User socket tracking\<close>

text \<open>The values of \<open>userSockets\<close> are JavaScript \<open>Set\<close>s: lists in insertion order.\<close>

definition trackUserSocket :: "userId \<Rightarrow> socketId \<Rightarrow> 'd Server \<Rightarrow> 'd Server" where
  "trackUserSocket uid sid s =
     (let sockets = (case userSockets s uid of None \<Rightarrow> [] | Some xs \<Rightarrow> xs)
      in s\<lparr>userSockets := (userSockets s)(uid \<mapsto>
              (if sid \<in> set sockets then sockets else sockets @ [sid]))\<rparr>)"

definition untrackUserSocket :: "userId \<Rightarrow> socketId \<Rightarrow> 'd Server \<Rightarrow> 'd Server" where
  "untrackUserSocket uid sid s =
     (case userSockets s uid of
        None \<Rightarrow> s
      | Some sockets \<Rightarrow>
          (let sockets' = removeAll sid sockets
           in if sockets' = [] then s\<lparr>userSockets := (userSockets s)(uid := None)\<rparr>
              else s\<lparr>userSockets := (userSockets s)(uid \<mapsto> sockets')\<rparr>))"

text \<open>The \<open>connection\<close> callback, before it registers the handlers: the socket is tracked.\<close>

definition handleConnection :: "Socket \<Rightarrow> 'd Server \<Rightarrow> 'd Server" where
  "handleConnection socket s = trackUserSocket (sock_userId socket) (sock_id socket) s"

subsection \<open>Room management\<close>

text \<open>
  \<open>handleLeaveRoom\<close>.  \<open>userSocketsInRoom\<close> is the list the handler computes under that
  name: the user's other tracked sockets that are mapped to the room.  \<open>removeFromRoom\<close> is
  the handler up to "Leave the room": the member goes only when that list is empty, and the
  socket leaves the Socket.IO room and the map.  \<open>cleanUpRoom\<close> is the body of "Clean up
  empty rooms": save the document, clear the timer, remove the document and the room.
\<close>

definition userSocketsInRoom :: "'d Server \<Rightarrow> Socket \<Rightarrow> roomId \<Rightarrow> socketId list" where
  "userSocketsInRoom s socket roomId =
     (case userSockets s (sock_userId socket) of
        Some sockets \<Rightarrow>
          filter (\<lambda>sid. socketToRoom s sid = Some roomId \<and> sid \<noteq> sock_id socket) sockets
      | None \<Rightarrow> [])"

definition removeFromRoom :: "Socket \<Rightarrow> roomId \<Rightarrow> nat \<Rightarrow> 'd Server \<Rightarrow> 'd Server" where
  "removeFromRoom socket roomId ra s =
     (let uid = sock_userId socket;
          s1 = (if userSocketsInRoom s socket roomId = [] then
                  emit (ToOthers roomId (sock_id socket)) (USER_LEFT uid)
                    (s\<lparr>roomHeap := (roomHeap s)(ra := (roomHeap s ra)
                          \<lparr>users := AList.delete uid (users (roomHeap s ra))\<rparr>)\<rparr>)
                else s)
      in s1\<lparr>ioRooms := (ioRooms s1)(roomId := ioRooms s1 roomId - {sock_id socket}),
            socketToRoom := (socketToRoom s1)(sock_id socket := None)\<rparr>)"

definition cleanUpRoom :: "'d Engine \<Rightarrow> roomId \<Rightarrow> nat \<Rightarrow> 'd Server \<Rightarrow> 'd Server" where
  "cleanUpRoom eng roomId ra s =
     (let s3 = saveDocument eng ra s;
          s4 = (case saveTimeout (roomHeap s3 ra) of
                  Some h \<Rightarrow> clearTimeout h s3
                | None \<Rightarrow> s3);
          s5 = remove_doc (documentId (roomHeap s4 ra)) s4
      in s5\<lparr>rooms := (rooms s5)(roomId := None)\<rparr>)"

definition handleLeaveRoom :: "'d Engine \<Rightarrow> Socket \<Rightarrow> 'd Server \<Rightarrow> 'd Server" where
  "handleLeaveRoom eng socket s =
     (case roomOf s (sock_id socket) of
        None \<Rightarrow> s
      | Some roomId \<Rightarrow>
     (case rooms s roomId of
        None \<Rightarrow> s
      | Some ra \<Rightarrow>
          (let s2 = removeFromRoom socket roomId ra s
           in if users (roomHeap s2 ra) = [] then cleanUpRoom eng roomId ra s2 else s2)))"

text \<open>
  The end of \<open>handleJoinRoom\<close>, from "Add user to room" on, once \<open>roomState\<close> is the room at
  address \<open>ra\<close>.  \<open>documentInfo!.id\<close> throws on a row that is gone, and the \<open>catch\<close> reports it.
\<close>

definition enterRoom ::
  "'d Engine \<Rightarrow> Socket \<Rightarrow> documentId \<Rightarrow> Role \<Rightarrow> nat \<Rightarrow> 'd Server \<Rightarrow> 'd Server" where
  "enterRoom eng socket did r ra s =
     (let uid = sock_userId socket;
          user = sock_user socket;
          roomId = ''doc:'' @ did;
          roomUser = \<lparr>ru_id = uid, ru_name = su_name user, ru_color = su_color user,
                      ru_avatar = su_avatar user, ru_role = r, ru_cursor = None,
                      ru_isOnline = True\<rparr>;
          s1 = s\<lparr>roomHeap := (roomHeap s)(ra := (roomHeap s ra)
                  \<lparr>users := AList.update uid roomUser (users (roomHeap s ra))\<rparr>)\<rparr>
      in case documents (db s1) did of
           None \<Rightarrow> emit (ToSocket (sock_id socket)) (ERROR ''Failed to join room'') s1
         | Some info \<Rightarrow>
             emit (ToOthers roomId (sock_id socket)) (USER_JOINED roomUser)
               (emit (ToSocket (sock_id socket))
                  (ROOM_JOINED
                     \<lparr>rj_documentId = did,
                      rj_document = \<lparr>di_id = did, di_title = title info, di_version = version info\<rparr>,
                      rj_state = getStateArray eng (docHeap s1 (document (roomHeap s1 ra))),
                      rj_users = map snd (users (roomHeap s1 ra)),
                      rj_role = r\<rparr>)
                  s1))"

text \<open>
  \<open>handleJoinRoom\<close>.  Access is checked first; then the socket leaves the room it is in,
  joins the Socket.IO room and is mapped to it; then the room is looked up or built from
  the stored row.
\<close>

definition handleJoinRoom :: "'d Engine \<Rightarrow> Socket \<Rightarrow> JoinRoomPayload \<Rightarrow> 'd Server \<Rightarrow> 'd Server" where
  "handleJoinRoom eng socket payload s =
     (let did = jp_documentId payload;
          uid = sock_userId socket;
          (hasAccess, role) = checkDocumentAccess (db s) uid did
      in case role of
           None \<Rightarrow> emit (ToSocket (sock_id socket)) (ERROR ''Access denied to this document'') s
         | Some r \<Rightarrow>
             if \<not> hasAccess then
               emit (ToSocket (sock_id socket)) (ERROR ''Access denied to this document'') s
             else
               (let s1 = handleLeaveRoom eng socket s;
                    roomId = ''doc:'' @ did;
                    s2 = s1\<lparr>ioRooms := (ioRooms s1)(roomId := insert (sock_id socket) (ioRooms s1 roomId)),
                            socketToRoom := (socketToRoom s1)(sock_id socket \<mapsto> roomId)\<rparr>
                in case rooms s2 roomId of
                     Some ra \<Rightarrow> enterRoom eng socket did r ra s2
                   | None \<Rightarrow>
                       (case documents (db s2) did of
                          None \<Rightarrow> emit (ToSocket (sock_id socket)) (ERROR ''Document not found'') s2
                        | Some row \<Rightarrow>
                            (case getOrCreate eng did (content row) s2 of
                               None \<Rightarrow>
                                 emit (ToSocket (sock_id socket)) (ERROR ''Failed to join room'') s2
                             | Some (a, s3) \<Rightarrow>
                                 (let ra = nextRoom s3;
                                      s4 = s3\<lparr>roomHeap := (roomHeap s3)(ra :=
                                                \<lparr>documentId = did, users = [], document = a,
                                                 lastSaveTime = now s3, saveTimeout = None\<rparr>),
                                              nextRoom := Suc ra,
                                              rooms := (rooms s3)(roomId \<mapsto> ra)\<rparr>
                                  in enterRoom eng socket did r ra s4)))))"

text \<open>
  What the caller sees of a join that went through: \<open>ROOM_JOINED\<close>, sent to its socket
  among the events of the call.
\<close>

definition isRoomJoinedFor :: "socketId \<Rightarrow> Target \<times> Event \<Rightarrow> bool" where
  "isRoomJoinedFor sid te =
     (case te of
        (ToSocket x, ROOM_JOINED p) \<Rightarrow> x = sid
      | _ \<Rightarrow> False)"

definition joinSucceeded :: "'d Server \<Rightarrow> Socket \<Rightarrow> 'd Server \<Rightarrow> bool" where
  "joinSucceeded s socket s' =
     list_ex (isRoomJoinedFor (sock_id socket)) (drop (length (emitted s)) (emitted s'))"

subsection \<open>CRDT operations\<close>

text \<open>
  \<open>handleUpdateOperation\<close>.  A viewer gets the permission error.  Otherwise the update is
  applied; when that throws the \<open>catch\<close> reports it to the socket, and when it does not the
  update goes to the others and the save is scheduled.
\<close>

definition handleUpdateOperation ::
  "'d Engine \<Rightarrow> Socket \<Rightarrow> UpdateOperationPayload \<Rightarrow> 'd Server \<Rightarrow> 'd Server" where
  "handleUpdateOperation eng socket payload s =
     (case roomOf s (sock_id socket) of
        None \<Rightarrow> s
      | Some roomId \<Rightarrow>
     (case rooms s roomId of
        None \<Rightarrow> s
      | Some ra \<Rightarrow>
          (let roomState = roomHeap s ra;
               uid = sock_userId socket;
               userRole = map_option ru_role (map_of (users roomState) uid)
           in if userRole = Some VIEWER then
                emit (ToSocket (sock_id socket))
                  (ERROR ''You do not have permission to edit this document'') s
              else
                (let update = arrayToUint8Array eng (uo_update payload);
                     a = document roomState
                 in case applyUpdate eng (docHeap s a) update of
                      Threw c \<Rightarrow>
                        emit (ToSocket (sock_id socket)) (ERROR ''Failed to apply update'')
                          (s\<lparr>docHeap := (docHeap s)(a := c)\<rparr>)
                    | Ok c \<Rightarrow>
                        scheduleSave ra
                          (emit (ToOthers roomId (sock_id socket)) (UPDATE_OPERATION payload uid)
                             (s\<lparr>docHeap := (docHeap s)(a := c)\<rparr>))))))"

definition handleRequestSync :: "'d Engine \<Rightarrow> Socket \<Rightarrow> 'd Server \<Rightarrow> 'd Server" where
  "handleRequestSync eng socket s =
     (case roomOf s (sock_id socket) of
        None \<Rightarrow> s
      | Some roomId \<Rightarrow>
     (case rooms s roomId of
        None \<Rightarrow> s
      | Some ra \<Rightarrow>
          (let roomState = roomHeap s ra
           in emit (ToSocket (sock_id socket))
                (SYNC_STATE
                   \<lparr>ss_documentId = documentId roomState,
                    ss_state = getStateArray eng (docHeap s (document roomState)),
                    ss_version = getDocumentVersion (db s) (documentId roomState)\<rparr>)
                s)))"

subsection \<open>Presence\<close>

definition handleCursorPresence :: "Socket \<Rightarrow> CursorPresencePayload \<Rightarrow> 'd Server \<Rightarrow> 'd Server" where
  "handleCursorPresence socket payload s =
     (case roomOf s (sock_id socket) of
        None \<Rightarrow> s
      | Some roomId \<Rightarrow>
     (case rooms s roomId of
        None \<Rightarrow> s
      | Some ra \<Rightarrow>
          (let roomState = roomHeap s ra;
               uid = sock_userId socket;
               s1 = (case map_of (users roomState) uid of
                       Some roomUser \<Rightarrow>
                         s\<lparr>roomHeap := (roomHeap s)(ra := roomState
                              \<lparr>users := AList.update uid (roomUser\<lparr>ru_cursor := cp_cursor payload\<rparr>)
                                         (users roomState)\<rparr>)\<rparr>
                     | None \<Rightarrow> s)
           in emit (ToOthers roomId (sock_id socket))
                (CURSOR_PRESENCE (payload\<lparr>cp_userId := uid\<rparr>)) s1)))"

definition handleTypingIndicator :: "Socket \<Rightarrow> TypingIndicatorPayload \<Rightarrow> 'd Server \<Rightarrow> 'd Server" where
  "handleTypingIndicator socket payload s =
     (case roomOf s (sock_id socket) of
        None \<Rightarrow> s
      | Some roomId \<Rightarrow>
          emit (ToOthers roomId (sock_id socket))
            (TYPING_INDICATOR (payload\<lparr>ti_userId := sock_userId socket\<rparr>)) s)"

subsection \<open>Disconnect\<close>

definition handleDisconnect :: "'d Engine \<Rightarrow> Socket \<Rightarrow> 'd Server \<Rightarrow> 'd Server" where
  "handleDisconnect eng socket s =
     handleLeaveRoom eng socket (untrackUserSocket (sock_userId socket) (sock_id socket) s)"

subsection \<open>The event loop's clock\<close>

text \<open>
  Time passes between handlers.  \<open>advance eng t\<close> moves the clock to \<open>t\<close>: every timer due by
  then leaves the pending ones and its callback, \<open>saveDocument\<close> on the room it closes over,
  runs at its deadline, the earlier deadline first.
\<close>

definition fire :: "'d Engine \<Rightarrow> nat \<times> Timer \<Rightarrow> 'd Server \<Rightarrow> 'd Server" where
  "fire eng e s = saveDocument eng (target (snd e)) (s\<lparr>now := max (now s) (deadline (snd e))\<rparr>)"

definition advance :: "'d Engine \<Rightarrow> time \<Rightarrow> 'd Server \<Rightarrow> 'd Server" where
  "advance eng t s =
     (let due = filter (\<lambda>e. deadline (snd e) \<le> t) (timers s);
          s1 = s\<lparr>timers := filter (\<lambda>e. \<not> deadline (snd e) \<le> t) (timers s)\<rparr>;
          s2 = fold (fire eng) (sort_key (\<lambda>e. deadline (snd e)) due) s1
      in s2\<lparr>now := max (now s2) t\<rparr>)"

subsection \<open>Bursts of updates\<close>

text \<open>
  A burst: each update arrives \<open>dt\<close> after the event before it, the clock advancing in
  between.  \<open>merged\<close> is what the engine makes of a document and a sequence of updates,
  stopping at the first it rejects.  \<open>timersOn\<close> are the pending timers whose room holds a
  given document, \<open>operationsOn\<close> the operation records of a document.
\<close>

fun burst :: "'d Engine \<Rightarrow> (int \<times> Socket \<times> UpdateOperationPayload) list \<Rightarrow> 'd Server \<Rightarrow> 'd Server" where
  "burst eng [] s = s"
| "burst eng ((dt, socket, payload) # us) s =
     burst eng us (handleUpdateOperation eng socket payload (advance eng (now s + dt) s))"

fun merged :: "'d Engine \<Rightarrow> 'd \<Rightarrow> wire list \<Rightarrow> 'd applied" where
  "merged eng d [] = Ok d"
| "merged eng d (u # us) =
     (case Y_applyUpdate eng d (arrayToUint8Array eng u) of
        Ok d' \<Rightarrow> merged eng d' us
      | Threw d' \<Rightarrow> Threw d')"

definition timersOn :: "'d Server \<Rightarrow> documentId \<Rightarrow> (nat \<times> Timer) list" where
  "timersOn s did = filter (\<lambda>e. documentId (roomHeap s (target (snd e))) = did) (timers s)"

definition operationsOn :: "Database \<Rightarrow> documentId \<Rightarrow> OperationRow list" where
  "operationsOn d did = filter (\<lambda>r. op_documentId r = did) (operations d)"

text \<open>
  A room is armed for \<open>t\<close> when the handle it holds is that of the one pending timer on
  its document, and the timer is the room's own, due at \<open>t\<close>.
\<close>

definition armed :: "'d Server \<Rightarrow> nat \<Rightarrow> time \<Rightarrow> bool" where
  "armed s ra t =
     (case saveTimeout (roomHeap s ra) of
        None \<Rightarrow> False
      | Some h \<Rightarrow> timersOn s (documentId (roomHeap s ra)) = [(h, \<lparr>deadline = t, target = ra\<rparr>)])"

subsection \<open>The snapshot rule as the specification words it\<close>

text \<open>
  The specification's rule for snapshots: one is due when more than the interval has
  elapsed since the last snapshot was written.  \<open>lastSnapshotAt\<close> reads the time of a
  document's latest snapshot row, \<open>None\<close> when it has none.
\<close>

definition lastSnapshotAt :: "Database \<Rightarrow> documentId \<Rightarrow> time option" where
  "lastSnapshotAt d did =
     (case map sn_createdAt (filter (\<lambda>r. sn_documentId r = did) (snapshots d)) of
        [] \<Rightarrow> None
      | t # ts \<Rightarrow> Some (fold max ts t))"

definition snapshotDue_spec :: "time \<Rightarrow> time \<Rightarrow> bool" where
  "snapshotDue_spec lastSnapshot t = (t - lastSnapshot > SNAPSHOT_INTERVAL_MS)"

subsection \<open>A server to run\<close>

text \<open>
  An engine small enough to evaluate: a document is the list of the updates merged into it,
  its encoding their concatenation, and an update is malformed when it is empty or holds a
  zero byte.
\<close>

definition demoEngine :: "bytes list Engine" where
  "demoEngine =
     \<lparr>Y_Doc = [],
      Y_applyUpdate = (\<lambda>d u. if u = [] \<or> 0 \<in> set u then Threw d else Ok (d @ [u])),
      Y_encodeStateAsUpdate = concat,
      arrayToUint8Array = map word_of_int,
      uint8ArrayToArray = map uint\<rparr>"

text \<open>
  The same engine, except that a malformed update is rejected late: what precedes its
  first zero byte has been merged by the time the engine throws.
\<close>

definition partialEngine :: "bytes list Engine" where
  "partialEngine =
     demoEngine\<lparr>Y_applyUpdate :=
       (\<lambda>d u. if u = [] then Threw d
              else if 0 \<in> set u then Threw (d @ [takeWhile (\<lambda>b. b \<noteq> 0) u])
              else Ok (d @ [u]))\<rparr>"

definition alice :: SafeUser where
  "alice = \<lparr>su_id = ''u1'', su_name = ''Alice'', su_email = ''alice@example.org'',
            su_avatar = None, su_color = ''red''\<rparr>"

definition bob :: SafeUser where
  "bob = \<lparr>su_id = ''u2'', su_name = ''Bob'', su_email = ''bob@example.org'',
          su_avatar = None, su_color = ''blue''\<rparr>"

definition carol :: SafeUser where
  "carol = \<lparr>su_id = ''u3'', su_name = ''Carol'', su_email = ''carol@example.org'',
            su_avatar = None, su_color = ''green''\<rparr>"

definition aliceTab1 :: Socket where
  "aliceTab1 = \<lparr>sock_id = ''s1'', sock_userId = ''u1'', sock_user = alice\<rparr>"

definition aliceTab2 :: Socket where
  "aliceTab2 = \<lparr>sock_id = ''s2'', sock_userId = ''u1'', sock_user = alice\<rparr>"

definition bobTab :: Socket where
  "bobTab = \<lparr>sock_id = ''s3'', sock_userId = ''u2'', sock_user = bob\<rparr>"

definition carolTab :: Socket where
  "carolTab = \<lparr>sock_id = ''s4'', sock_userId = ''u3'', sock_user = carol\<rparr>"

definition member :: "SafeUser \<Rightarrow> Role \<Rightarrow> RoomUser" where
  "member u r = \<lparr>ru_id = su_id u, ru_name = su_name u, ru_color = su_color u,
                 ru_avatar = su_avatar u, ru_role = r, ru_cursor = None, ru_isOnline = True\<rparr>"

text \<open>
  Document \<open>d1\<close> belongs to Alice, Bob may view it and Carol edit it; document \<open>d2\<close> is
  Carol's, Alice may edit it, and its stored content is one the engine rejects.
\<close>

definition demoDb :: Database where
  "demoDb =
     \<lparr>documents =
        [''d1'' \<mapsto> \<lparr>title = ''Notes'', content = Some [1, 2], ownerId = ''u1'', isPublic = False,
                    version = 3, updatedAt = 1000\<rparr>,
         ''d2'' \<mapsto> \<lparr>title = ''Broken'', content = Some [0], ownerId = ''u3'', isPublic = False,
                    version = 1, updatedAt = 500\<rparr>],
      collaborators = [(''u2'', ''d1'') \<mapsto> VIEWER, (''u3'', ''d1'') \<mapsto> EDITOR,
                       (''u1'', ''d2'') \<mapsto> EDITOR],
      operations = [],
      snapshots = []\<rparr>"

definition noRoom :: RoomState where
  "noRoom = \<lparr>documentId = [], users = [], document = 0, lastSaveTime = 0, saveTimeout = None\<rparr>"

definition noDoc :: "bytes list CRDTDocument" where
  "noDoc = \<lparr>doc = [], crdt_documentId = [], destroyed = False\<rparr>"

text \<open>
  Every socket is connected; the room of \<open>d1\<close> is resident with Alice on two tabs and Bob
  on one, Carol has joined nothing, and a save of the room is pending for time 6000.
\<close>

definition demoServer :: "bytes list Server" where
  "demoServer =
     \<lparr>rooms = [''doc:d1'' \<mapsto> 0],
      userSockets = [''u1'' \<mapsto> [''s1'', ''s2''], ''u2'' \<mapsto> [''s3''], ''u3'' \<mapsto> [''s4'']],
      socketToRoom = [''s1'' \<mapsto> ''doc:d1'', ''s2'' \<mapsto> ''doc:d1'', ''s3'' \<mapsto> ''doc:d1''],
      documentStore = [''d1'' \<mapsto> 0],
      roomHeap = (\<lambda>a. noRoom)(0 :=
        \<lparr>documentId = ''d1'',
         users = [(''u1'', member alice OWNER), (''u2'', member bob VIEWER)],
         document = 0, lastSaveTime = 1000, saveTimeout = Some 0\<rparr>),
      nextRoom = 1,
      docHeap = (\<lambda>a. noDoc)(0 := \<lparr>doc = [[1, 2], [7]], crdt_documentId = ''d1'', destroyed = False\<rparr>),
      nextDoc = 1,
      ioRooms = (\<lambda>r. {})(''doc:d1'' := {''s1'', ''s2'', ''s3''}),
      db = demoDb,
      timers = [(0, \<lparr>deadline = 6000, target = 0\<rparr>)],
      nextTimer = 1,
      emitted = [],
      now = 5000\<rparr>"

text \<open>The same server with Alice alone in the room, on one tab.\<close>

definition soloServer :: "bytes list Server" where
  "soloServer =
     demoServer
       \<lparr>userSockets := [''u1'' \<mapsto> [''s1''], ''u2'' \<mapsto> [''s3''], ''u3'' \<mapsto> [''s4'']],
        socketToRoom := [''s1'' \<mapsto> ''doc:d1''],
        roomHeap := (\<lambda>a. noRoom)(0 :=
          \<lparr>documentId = ''d1'', users = [(''u1'', member alice OWNER)],
           document = 0, lastSaveTime = 1000, saveTimeout = Some 0\<rparr>),
        ioRooms := (\<lambda>r. {})(''doc:d1'' := {''s1''})\<rparr>"

text \<open>Alice alone in the room on one tab, her other tab connected and in no room.\<close>

definition awayServer :: "bytes list Server" where
  "awayServer =
     soloServer\<lparr>userSockets := [''u1'' \<mapsto> [''s1'', ''s2''], ''u2'' \<mapsto> [''s3''], ''u3'' \<mapsto> [''s4'']]\<rparr>"

definition demoUpdate :: UpdateOperationPayload where
  "demoUpdate = \<lparr>uo_documentId = ''d1'', uo_update = [9, 9], uo_clientId = 42, uo_timestamp = 4990\<rparr>"

definition badUpdate :: UpdateOperationPayload where
  "badUpdate = \<lparr>uo_documentId = ''d1'', uo_update = [9, 0], uo_clientId = 42, uo_timestamp = 4990\<rparr>"

definition demoCursor :: CursorPresencePayload where
  "demoCursor = \<lparr>cp_documentId = ''d1'', cp_userId = ''u3'', cp_cursor = None,
                 cp_user = \<lparr>cu_name = ''Carol'', cu_color = ''green''\<rparr>\<rparr>"

definition demoTyping :: TypingIndicatorPayload where
  "demoTyping = \<lparr>ti_documentId = ''d1'', ti_userId = ''u3'', ti_isTyping = True\<rparr>"

text \<open>The sockets connected and nothing joined: no room, no document in memory.\<close>

definition lobbyServer :: "bytes list Server" where
  "lobbyServer =
     \<lparr>rooms = Map.empty,
      userSockets = [''u1'' \<mapsto> [''s1'', ''s2''], ''u2'' \<mapsto> [''s3''], ''u3'' \<mapsto> [''s4'']],
      socketToRoom = Map.empty,
      documentStore = Map.empty,
      roomHeap = (\<lambda>a. noRoom),
      nextRoom = 0,
      docHeap = (\<lambda>a. noDoc),
      nextDoc = 0,
      ioRooms = (\<lambda>r. {}),
      db = demoDb,
      timers = [],
      nextTimer = 0,
      emitted = [],
      now = 5000\<rparr>"

text \<open>The server before anyone has connected.\<close>

definition freshServer :: "bytes list Server" where
  "freshServer = lobbyServer\<lparr>userSockets := Map.empty\<rparr>"

definition joinD1 :: JoinRoomPayload where
  "joinD1 = \<lparr>jp_documentId = ''d1''\<rparr>"

definition joinD2 :: JoinRoomPayload where
  "joinD2 = \<lparr>jp_documentId = ''d2''\<rparr>"

text \<open>
  Three saves of the room of \<open>d1\<close>, at 70000, 120000 and 170000; the room last saved at 1000.
\<close>

definition snapRun1 :: "bytes list Server" where
  "snapRun1 = saveDocument demoEngine 0 (demoServer\<lparr>now := 70000\<rparr>)"

definition snapRun2 :: "bytes list Server" where
  "snapRun2 = saveDocument demoEngine 0 (snapRun1\<lparr>now := 120000\<rparr>)"

definition snapRun3 :: "bytes list Server" where
  "snapRun3 = saveDocument demoEngine 0 (snapRun2\<lparr>now := 170000\<rparr>)"

text \<open>Three updates of Alice's, the second from her other tab, 500 and 1500 apart.\<close>

definition demoUpdate2 :: UpdateOperationPayload where
  "demoUpdate2 = \<lparr>uo_documentId = ''d1'', uo_update = [8], uo_clientId = 43, uo_timestamp = 5490\<rparr>"

definition demoUpdate3 :: UpdateOperationPayload where
  "demoUpdate3 = \<lparr>uo_documentId = ''d1'', uo_update = [5, 6], uo_clientId = 42, uo_timestamp = 6990\<rparr>"

definition demoBurst :: "(int \<times> Socket \<times> UpdateOperationPayload) list" where
  "demoBurst = [(500, aliceTab2, demoUpdate2), (1500, aliceTab1, demoUpdate3)]"

section \<open>Properties\<close>

subsection \<open>Sockets that have joined nothing\<close>

text \<open>
  Claim C10.  For a socket that \<open>socketToRoom\<close> maps to no room, \<open>handleUpdateOperation\<close>,
  \<open>handleRequestSync\<close>, \<open>handleCursorPresence\<close>, \<open>handleTypingIndicator\<close> and
  \<open>handleLeaveRoom\<close> return the state they were given: nothing is emitted, to the caller or
  to anyone, and no room, roster, document, row or timer changes.
\<close>

theorem unjoined_socket_noop:
  assumes "socketToRoom s (sock_id socket) = None"
  shows "handleUpdateOperation eng socket update s = s
       \<and> handleRequestSync eng socket s = s
       \<and> handleCursorPresence socket cursor s = s
       \<and> handleTypingIndicator socket typing s = s
       \<and> handleLeaveRoom eng socket s = s"
  using assms
  by (simp add: handleUpdateOperation_def handleRequestSync_def handleCursorPresence_def
      handleTypingIndicator_def handleLeaveRoom_def roomOf_def)

theorem unjoined_socket_noop_witness:
  "socketToRoom demoServer (sock_id carolTab) = None
   \<and> (handleUpdateOperation demoEngine carolTab demoUpdate demoServer = demoServer
       \<and> handleRequestSync demoEngine carolTab demoServer = demoServer
       \<and> handleCursorPresence carolTab demoCursor demoServer = demoServer
       \<and> handleTypingIndicator carolTab demoTyping demoServer = demoServer
       \<and> handleLeaveRoom demoEngine carolTab demoServer = demoServer)"
proof -
  have h: "socketToRoom demoServer (sock_id carolTab) = None"
    by (simp add: demoServer_def carolTab_def)
  from h unjoined_socket_noop [OF h] show ?thesis by (rule conjI)
qed

subsection \<open>Viewers do not write\<close>

text \<open>
  Claim C1.  When the socket's room is resident and the roster gives the socket's user the
  role \<open>VIEWER\<close>, \<open>handleUpdateOperation\<close> changes one thing only: the permission error is
  appended to what has been sent, addressed to the submitting socket.  The documents, the
  rooms, the database and the timers are those of before, so the authoritative state is
  unchanged, nothing goes to the other members and no save is scheduled.
\<close>

theorem viewer_update_rejected:
  assumes "roomOf s (sock_id socket) = Some roomId"
    and "rooms s roomId = Some ra"
    and "map_of (users (roomHeap s ra)) (sock_userId socket) = Some m"
    and "ru_role m = VIEWER"
  shows "handleUpdateOperation eng socket payload s =
           s\<lparr>emitted := emitted s @
               [(ToSocket (sock_id socket),
                 ERROR ''You do not have permission to edit this document'')]\<rparr>"
  using assms by (simp add: handleUpdateOperation_def emit_def)

theorem viewer_update_rejected_witness:
  "handleUpdateOperation demoEngine bobTab demoUpdate demoServer =
     demoServer\<lparr>emitted := emitted demoServer @
       [(ToSocket (sock_id bobTab), ERROR ''You do not have permission to edit this document'')]\<rparr>"
proof -
  have 1: "roomOf demoServer (sock_id bobTab) = Some ''doc:d1''"
    by (simp add: roomOf_def demoServer_def bobTab_def)
  have 2: "rooms demoServer ''doc:d1'' = Some 0"
    by (simp add: demoServer_def)
  have 3: "map_of (users (roomHeap demoServer 0)) (sock_userId bobTab) = Some (member bob VIEWER)"
    by (simp add: demoServer_def bobTab_def)
  have 4: "ru_role (member bob VIEWER) = VIEWER"
    by (simp add: member_def)
  show ?thesis by (rule viewer_update_rejected [OF 1 2 3 4])
qed

subsection \<open>What saving and the passing of time leave alone\<close>

lemma saveDocument_keeps:
  "docHeap (saveDocument eng ra s) = docHeap s"
  "rooms (saveDocument eng ra s) = rooms s"
  "socketToRoom (saveDocument eng ra s) = socketToRoom s"
  "userSockets (saveDocument eng ra s) = userSockets s"
  "documentStore (saveDocument eng ra s) = documentStore s"
  "ioRooms (saveDocument eng ra s) = ioRooms s"
  "timers (saveDocument eng ra s) = timers s"
  "nextTimer (saveDocument eng ra s) = nextTimer s"
  "nextRoom (saveDocument eng ra s) = nextRoom s"
  "nextDoc (saveDocument eng ra s) = nextDoc s"
  "now (saveDocument eng ra s) = now s"
  by (simp_all add: saveDocument_def Let_def emit_def split: option.split)

lemma saveDocument_room:
  "roomHeap (saveDocument eng ra s) a =
     (if a = ra \<and> documents (db s) (documentId (roomHeap s ra)) \<noteq> None
      then (roomHeap s ra)\<lparr>lastSaveTime := now s\<rparr> else roomHeap s a)"
  by (simp add: saveDocument_def Let_def emit_def split: option.split)

lemma saveDocument_room_fields:
  "documentId (roomHeap (saveDocument eng ra s) a) = documentId (roomHeap s a)"
  "users (roomHeap (saveDocument eng ra s) a) = users (roomHeap s a)"
  "document (roomHeap (saveDocument eng ra s) a) = document (roomHeap s a)"
  "saveTimeout (roomHeap (saveDocument eng ra s) a) = saveTimeout (roomHeap s a)"
  by (simp_all add: saveDocument_room)

lemma fire_keeps:
  "docHeap (fire eng e s) = docHeap s"
  "rooms (fire eng e s) = rooms s"
  "socketToRoom (fire eng e s) = socketToRoom s"
  "documentStore (fire eng e s) = documentStore s"
  "timers (fire eng e s) = timers s"
  "documentId (roomHeap (fire eng e s) a) = documentId (roomHeap s a)"
  "users (roomHeap (fire eng e s) a) = users (roomHeap s a)"
  "document (roomHeap (fire eng e s) a) = document (roomHeap s a)"
  "saveTimeout (roomHeap (fire eng e s) a) = saveTimeout (roomHeap s a)"
  by (simp_all add: fire_def saveDocument_keeps saveDocument_room_fields)

lemma fold_fire_keeps:
  "docHeap (fold (fire eng) es s) = docHeap s"
  "rooms (fold (fire eng) es s) = rooms s"
  "socketToRoom (fold (fire eng) es s) = socketToRoom s"
  "documentStore (fold (fire eng) es s) = documentStore s"
  "timers (fold (fire eng) es s) = timers s"
  "documentId (roomHeap (fold (fire eng) es s) a) = documentId (roomHeap s a)"
  "users (roomHeap (fold (fire eng) es s) a) = users (roomHeap s a)"
  "document (roomHeap (fold (fire eng) es s) a) = document (roomHeap s a)"
  "saveTimeout (roomHeap (fold (fire eng) es s) a) = saveTimeout (roomHeap s a)"
  by (induction es arbitrary: s) (simp_all add: fire_keeps)

lemma advance_keeps:
  "docHeap (advance eng t s) = docHeap s"
  "rooms (advance eng t s) = rooms s"
  "socketToRoom (advance eng t s) = socketToRoom s"
  "documentStore (advance eng t s) = documentStore s"
  "documentId (roomHeap (advance eng t s) a) = documentId (roomHeap s a)"
  "users (roomHeap (advance eng t s) a) = users (roomHeap s a)"
  "document (roomHeap (advance eng t s) a) = document (roomHeap s a)"
  "saveTimeout (roomHeap (advance eng t s) a) = saveTimeout (roomHeap s a)"
  by (simp_all add: advance_def Let_def fold_fire_keeps)

lemma roomOf_cong: "socketToRoom s' = socketToRoom s \<Longrightarrow> roomOf s' sid = roomOf s sid"
  by (simp add: roomOf_def)

lemma roomOf_advance: "roomOf (advance eng t s) sid = roomOf s sid"
  by (rule roomOf_cong) (simp add: advance_keeps)

lemma scheduleSave_keeps:
  "docHeap (scheduleSave ra s) = docHeap s"
  "rooms (scheduleSave ra s) = rooms s"
  "socketToRoom (scheduleSave ra s) = socketToRoom s"
  "db (scheduleSave ra s) = db s"
  "emitted (scheduleSave ra s) = emitted s"
  "documentId (roomHeap (scheduleSave ra s) a) = documentId (roomHeap s a)"
  "users (roomHeap (scheduleSave ra s) a) = users (roomHeap s a)"
  "document (roomHeap (scheduleSave ra s) a) = document (roomHeap s a)"
  by (simp_all add: scheduleSave_def setTimeout_def clearTimeout_def Let_def split: option.split)

subsection \<open>Resynchronisation\<close>

lemma handleRequestSync_resident:
  assumes "roomOf s (sock_id reader) = Some roomId" and "rooms s roomId = Some ra"
  shows "handleRequestSync eng reader s =
           emit (ToSocket (sock_id reader))
             (SYNC_STATE
                \<lparr>ss_documentId = documentId (roomHeap s ra),
                 ss_state = uint8ArrayToArray eng
                   (Y_encodeStateAsUpdate eng (doc (docHeap s (document (roomHeap s ra))))),
                 ss_version = getDocumentVersion (db s) (documentId (roomHeap s ra))\<rparr>) s"
  using assms by (simp add: handleRequestSync_def getStateArray_def getState_def Let_def)

lemma handleUpdateOperation_accepted:
  assumes "roomOf s (sock_id writer) = Some roomId" and "rooms s roomId = Some ra"
    and "map_option ru_role (map_of (users (roomHeap s ra)) (sock_userId writer)) \<noteq> Some VIEWER"
    and "Y_applyUpdate eng (doc (docHeap s (document (roomHeap s ra))))
           (arrayToUint8Array eng (uo_update payload)) = Ok d'"
  shows "handleUpdateOperation eng writer payload s =
           scheduleSave ra
             (emit (ToOthers roomId (sock_id writer)) (UPDATE_OPERATION payload (sock_userId writer))
                (s\<lparr>docHeap := (docHeap s)(document (roomHeap s ra) :=
                      (docHeap s (document (roomHeap s ra)))\<lparr>doc := d'\<rparr>)\<rparr>))"
  using assms by (auto simp add: handleUpdateOperation_def Let_def applyUpdate_def)

text \<open>
  Claim C6.  For a socket mapped to a resident room, \<open>handleRequestSync\<close> sends that socket
  the encoding of the room's document as it is in memory.  In particular, once a member's
  update has been accepted, the sync of any member of the room, whatever timers have fired
  in between, carries the encoding of the document the engine returned for that update,
  while the update itself has written nothing to the database.
\<close>

theorem sync_serves_memory:
  assumes reader: "roomOf s (sock_id reader) = Some roomId"
    and room: "rooms s roomId = Some ra"
  shows "handleRequestSync eng reader s =
           emit (ToSocket (sock_id reader))
             (SYNC_STATE
                \<lparr>ss_documentId = documentId (roomHeap s ra),
                 ss_state = uint8ArrayToArray eng
                   (Y_encodeStateAsUpdate eng (doc (docHeap s (document (roomHeap s ra))))),
                 ss_version = getDocumentVersion (db s) (documentId (roomHeap s ra))\<rparr>) s
       \<and> (roomOf s (sock_id writer) = Some roomId
          \<and> map_option ru_role (map_of (users (roomHeap s ra)) (sock_userId writer)) \<noteq> Some VIEWER
          \<and> Y_applyUpdate eng (doc (docHeap s (document (roomHeap s ra))))
               (arrayToUint8Array eng (uo_update payload)) = Ok d'
          \<longrightarrow> db (handleUpdateOperation eng writer payload s) = db s
            \<and> handleRequestSync eng reader (advance eng t (handleUpdateOperation eng writer payload s)) =
                emit (ToSocket (sock_id reader))
                  (SYNC_STATE
                     \<lparr>ss_documentId = documentId (roomHeap s ra),
                      ss_state = uint8ArrayToArray eng (Y_encodeStateAsUpdate eng d'),
                      ss_version = getDocumentVersion
                        (db (advance eng t (handleUpdateOperation eng writer payload s)))
                        (documentId (roomHeap s ra))\<rparr>)
                  (advance eng t (handleUpdateOperation eng writer payload s)))"
proof (intro conjI impI)
  show "handleRequestSync eng reader s =
           emit (ToSocket (sock_id reader))
             (SYNC_STATE
                \<lparr>ss_documentId = documentId (roomHeap s ra),
                 ss_state = uint8ArrayToArray eng
                   (Y_encodeStateAsUpdate eng (doc (docHeap s (document (roomHeap s ra))))),
                 ss_version = getDocumentVersion (db s) (documentId (roomHeap s ra))\<rparr>) s"
    by (rule handleRequestSync_resident [OF reader room])
next
  assume w: "roomOf s (sock_id writer) = Some roomId
          \<and> map_option ru_role (map_of (users (roomHeap s ra)) (sock_userId writer)) \<noteq> Some VIEWER
          \<and> Y_applyUpdate eng (doc (docHeap s (document (roomHeap s ra))))
               (arrayToUint8Array eng (uo_update payload)) = Ok d'"
  define s1 where "s1 = handleUpdateOperation eng writer payload s"
  define s2 where "s2 = advance eng t s1"
  have s1_eq: "s1 = scheduleSave ra
             (emit (ToOthers roomId (sock_id writer)) (UPDATE_OPERATION payload (sock_userId writer))
                (s\<lparr>docHeap := (docHeap s)(document (roomHeap s ra) :=
                      (docHeap s (document (roomHeap s ra)))\<lparr>doc := d'\<rparr>)\<rparr>))"
    unfolding s1_def using w room by (intro handleUpdateOperation_accepted) simp_all
  show "db (handleUpdateOperation eng writer payload s) = db s"
    unfolding s1_def [symmetric] by (simp add: s1_eq scheduleSave_keeps emit_def)
  have b: "roomOf s2 (sock_id reader) = Some roomId"
  proof -
    have "roomOf s2 (sock_id reader) = roomOf s (sock_id reader)"
      by (rule roomOf_cong) (simp add: s2_def s1_eq advance_keeps scheduleSave_keeps emit_def)
    with reader show ?thesis by simp
  qed
  have c: "rooms s2 roomId = Some ra"
    using room by (simp add: s2_def advance_keeps s1_eq scheduleSave_keeps emit_def)
  have d: "doc (docHeap s2 (document (roomHeap s2 ra))) = d'"
    by (simp add: s2_def advance_keeps s1_eq scheduleSave_keeps emit_def)
  have e: "documentId (roomHeap s2 ra) = documentId (roomHeap s ra)"
    by (simp add: s2_def advance_keeps s1_eq scheduleSave_keeps emit_def)
  show "handleRequestSync eng reader (advance eng t (handleUpdateOperation eng writer payload s)) =
                emit (ToSocket (sock_id reader))
                  (SYNC_STATE
                     \<lparr>ss_documentId = documentId (roomHeap s ra),
                      ss_state = uint8ArrayToArray eng (Y_encodeStateAsUpdate eng d'),
                      ss_version = getDocumentVersion
                        (db (advance eng t (handleUpdateOperation eng writer payload s)))
                        (documentId (roomHeap s ra))\<rparr>)
                  (advance eng t (handleUpdateOperation eng writer payload s))"
    unfolding s1_def [symmetric] s2_def [symmetric]
    using handleRequestSync_resident [OF b c, of eng] by (simp add: d e)
qed

theorem sync_serves_memory_witness:
  "handleRequestSync demoEngine bobTab demoServer =
     emit (ToSocket ''s3'')
       (SYNC_STATE \<lparr>ss_documentId = ''d1'', ss_state = [1, 2, 7], ss_version = 3\<rparr>) demoServer
   \<and> db (handleUpdateOperation demoEngine aliceTab1 demoUpdate demoServer) = db demoServer
   \<and> handleRequestSync demoEngine bobTab
        (advance demoEngine 5500 (handleUpdateOperation demoEngine aliceTab1 demoUpdate demoServer)) =
      emit (ToSocket ''s3'')
        (SYNC_STATE \<lparr>ss_documentId = ''d1'', ss_state = [1, 2, 7, 9, 9],
           ss_version = getDocumentVersion
             (db (advance demoEngine 5500 (handleUpdateOperation demoEngine aliceTab1 demoUpdate demoServer)))
             ''d1''\<rparr>)
        (advance demoEngine 5500 (handleUpdateOperation demoEngine aliceTab1 demoUpdate demoServer))"
proof -
  have 1: "roomOf demoServer (sock_id bobTab) = Some ''doc:d1''"
    by (simp add: roomOf_def demoServer_def bobTab_def)
  have 2: "rooms demoServer ''doc:d1'' = Some 0"
    by (simp add: demoServer_def)
  have 3: "roomOf demoServer (sock_id aliceTab1) = Some ''doc:d1''
          \<and> map_option ru_role (map_of (users (roomHeap demoServer 0)) (sock_userId aliceTab1)) \<noteq> Some VIEWER
          \<and> Y_applyUpdate demoEngine (doc (docHeap demoServer (document (roomHeap demoServer 0))))
               (arrayToUint8Array demoEngine (uo_update demoUpdate)) = Ok [[1, 2], [7], [9, 9]]"
    by (simp add: roomOf_def demoServer_def aliceTab1_def member_def demoEngine_def demoUpdate_def)
  have 4: "documentId (roomHeap demoServer 0) = ''d1''"
    "uint8ArrayToArray demoEngine
       (Y_encodeStateAsUpdate demoEngine (doc (docHeap demoServer (document (roomHeap demoServer 0))))) = [1, 2, 7]"
    "getDocumentVersion (db demoServer) ''d1'' = 3"
    "uint8ArrayToArray demoEngine (Y_encodeStateAsUpdate demoEngine [[1, 2], [7], [9, 9]]) = [1, 2, 7, 9, 9]"
    "sock_id bobTab = ''s3''"
    by (simp_all add: demoServer_def demoEngine_def demoDb_def getDocumentVersion_def bobTab_def)
  show ?thesis
    using sync_serves_memory [OF 1 2, of demoEngine aliceTab1 demoUpdate "[[1, 2], [7], [9, 9]]" 5500] 3
    by (simp only: 4) simp
qed

subsection \<open>Updates the engine rejects\<close>

text \<open>
  Claim C8.  When \<open>Y.applyUpdate\<close> throws on the update of a member who may write, the
  handler sends the error to the submitting socket and does nothing else: no event goes
  to the room, no timer is armed or cleared, no room or row changes.  It does not restore
  the document either: the \<open>catch\<close> only reports, so the room's \<open>Y.Doc\<close> is exactly what the
  engine's failed call left, whether or not that is what it was before the call.
\<close>

theorem failed_apply_stays_local:
  assumes "roomOf s (sock_id socket) = Some roomId"
    and "rooms s roomId = Some ra"
    and "map_option ru_role (map_of (users (roomHeap s ra)) (sock_userId socket)) \<noteq> Some VIEWER"
    and "Y_applyUpdate eng (doc (docHeap s (document (roomHeap s ra))))
           (arrayToUint8Array eng (uo_update payload)) = Threw d'"
  shows "handleUpdateOperation eng socket payload s =
           s\<lparr>docHeap := (docHeap s)(document (roomHeap s ra) :=
                 (docHeap s (document (roomHeap s ra)))\<lparr>doc := d'\<rparr>),
             emitted := emitted s @ [(ToSocket (sock_id socket), ERROR ''Failed to apply update'')]\<rparr>"
  using assms by (auto simp add: handleUpdateOperation_def Let_def applyUpdate_def emit_def)

theorem failed_apply_stays_local_witness:
  "handleUpdateOperation demoEngine aliceTab1 badUpdate demoServer =
     demoServer\<lparr>emitted := emitted demoServer @
       [(ToSocket (sock_id aliceTab1), ERROR ''Failed to apply update'')]\<rparr>
   \<and> handleUpdateOperation partialEngine aliceTab1 badUpdate demoServer =
     demoServer\<lparr>docHeap := (docHeap demoServer)(0 :=
                   (docHeap demoServer 0)\<lparr>doc := [[1, 2], [7], [9]]\<rparr>),
                 emitted := emitted demoServer @
       [(ToSocket (sock_id aliceTab1), ERROR ''Failed to apply update'')]\<rparr>"
proof -
  have 1: "roomOf demoServer (sock_id aliceTab1) = Some ''doc:d1''"
    by (simp add: roomOf_def demoServer_def aliceTab1_def)
  have 2: "rooms demoServer ''doc:d1'' = Some 0"
    by (simp add: demoServer_def)
  have 3: "map_option ru_role (map_of (users (roomHeap demoServer 0)) (sock_userId aliceTab1)) \<noteq> Some VIEWER"
    by (simp add: demoServer_def aliceTab1_def member_def)
  have 4: "Y_applyUpdate demoEngine (doc (docHeap demoServer (document (roomHeap demoServer 0))))
           (arrayToUint8Array demoEngine (uo_update badUpdate)) =
           Threw (doc (docHeap demoServer (document (roomHeap demoServer 0))))"
    by (simp add: demoServer_def demoEngine_def badUpdate_def)
  have 5: "Y_applyUpdate partialEngine (doc (docHeap demoServer (document (roomHeap demoServer 0))))
           (arrayToUint8Array partialEngine (uo_update badUpdate)) = Threw [[1, 2], [7], [9]]"
    by (simp add: demoServer_def partialEngine_def demoEngine_def badUpdate_def)
  have 6: "document (roomHeap demoServer 0) = 0"
    by (simp add: demoServer_def)
  have 7: "(docHeap demoServer)(0 := (docHeap demoServer 0)\<lparr>doc := doc (docHeap demoServer 0)\<rparr>)
           = docHeap demoServer"
    by (simp add: fun_eq_iff)
  from failed_apply_stays_local [OF 1 2 3 4] failed_apply_stays_local [OF 1 2 3 5]
  show ?thesis unfolding 6 7 by simp
qed

text \<open>
  The document is not always what it was.  With an engine that throws at the malformed
  byte after merging what precedes it, Alice's update \<open>[9, 0]\<close> fails, only she is told,
  and the room's document has grown by the byte \<open>9\<close>: the state a later sync request of
  Bob's is served has it.
\<close>

theorem failed_apply_partial_counterexample:
  "Y_applyUpdate partialEngine (doc (docHeap demoServer 0))
      (arrayToUint8Array partialEngine (uo_update badUpdate)) = Threw [[1, 2], [7], [9]]
   \<and> emitted (handleUpdateOperation partialEngine aliceTab1 badUpdate demoServer) =
       [(ToSocket ''s1'', ERROR ''Failed to apply update'')]
   \<and> timers (handleUpdateOperation partialEngine aliceTab1 badUpdate demoServer) = timers demoServer
   \<and> getState partialEngine (docHeap demoServer 0) = [1, 2, 7]
   \<and> getState partialEngine
        (docHeap (handleUpdateOperation partialEngine aliceTab1 badUpdate demoServer) 0) = [1, 2, 7, 9]
   \<and> emitted (handleRequestSync partialEngine bobTab
        (handleUpdateOperation partialEngine aliceTab1 badUpdate demoServer)) =
       [(ToSocket ''s1'', ERROR ''Failed to apply update''),
        (ToSocket ''s3'', SYNC_STATE \<lparr>ss_documentId = ''d1'', ss_state = [1, 2, 7, 9], ss_version = 3\<rparr>)]"
  by (simp add: handleUpdateOperation_def handleRequestSync_def roomOf_def applyUpdate_def
      emit_def getState_def getStateArray_def getDocumentVersion_def Let_def
      partialEngine_def demoEngine_def demoServer_def demoDb_def
      aliceTab1_def bobTab_def badUpdate_def member_def alice_def bob_def)

subsection \<open>Leaving a room\<close>

lemma removeAll_filter_others:
  "filter (\<lambda>x. P x \<and> x \<noteq> y) (removeAll y xs) = filter (\<lambda>x. P x \<and> x \<noteq> y) xs"
  by (induction xs) auto

lemma removeAll_Nil_filter_others:
  "removeAll y xs = [] \<Longrightarrow> filter (\<lambda>x. P x \<and> x \<noteq> y) xs = []"
  by (induction xs) (auto split: if_splits)

lemma userSocketsInRoom_untrack:
  "userSocketsInRoom (untrackUserSocket (sock_userId socket) (sock_id socket) s) socket roomId =
   userSocketsInRoom s socket roomId"
  by (auto simp add: userSocketsInRoom_def untrackUserSocket_def Let_def removeAll_filter_others
      removeAll_Nil_filter_others split: option.split)

lemma untrackUserSocket_keeps:
  "rooms (untrackUserSocket u x s) = rooms s"
  "socketToRoom (untrackUserSocket u x s) = socketToRoom s"
  "documentStore (untrackUserSocket u x s) = documentStore s"
  "roomHeap (untrackUserSocket u x s) = roomHeap s"
  "docHeap (untrackUserSocket u x s) = docHeap s"
  "db (untrackUserSocket u x s) = db s"
  "timers (untrackUserSocket u x s) = timers s"
  "emitted (untrackUserSocket u x s) = emitted s"
  "now (untrackUserSocket u x s) = now s"
  "ioRooms (untrackUserSocket u x s) = ioRooms s"
  by (simp_all add: untrackUserSocket_def Let_def split: option.split)

lemma removeFromRoom_keeps:
  "rooms (removeFromRoom socket roomId ra s) = rooms s"
  "documentStore (removeFromRoom socket roomId ra s) = documentStore s"
  "docHeap (removeFromRoom socket roomId ra s) = docHeap s"
  "db (removeFromRoom socket roomId ra s) = db s"
  "timers (removeFromRoom socket roomId ra s) = timers s"
  "now (removeFromRoom socket roomId ra s) = now s"
  "userSockets (removeFromRoom socket roomId ra s) = userSockets s"
  "socketToRoom (removeFromRoom socket roomId ra s) = (socketToRoom s)(sock_id socket := None)"
  "documentId (roomHeap (removeFromRoom socket roomId ra s) a) = documentId (roomHeap s a)"
  "document (roomHeap (removeFromRoom socket roomId ra s) a) = document (roomHeap s a)"
  "saveTimeout (roomHeap (removeFromRoom socket roomId ra s) a) = saveTimeout (roomHeap s a)"
  "lastSaveTime (roomHeap (removeFromRoom socket roomId ra s) a) = lastSaveTime (roomHeap s a)"
  by (simp_all add: removeFromRoom_def Let_def emit_def)

lemma removeFromRoom_users:
  "users (roomHeap (removeFromRoom socket roomId ra s) ra) =
     (if userSocketsInRoom s socket roomId = []
      then AList.delete (sock_userId socket) (users (roomHeap s ra)) else users (roomHeap s ra))"
  by (simp add: removeFromRoom_def Let_def emit_def)

lemma removeFromRoom_emitted:
  "emitted (removeFromRoom socket roomId ra s) = emitted s @
     (if userSocketsInRoom s socket roomId = []
      then [(ToOthers roomId (sock_id socket), USER_LEFT (sock_userId socket))] else [])"
  by (simp add: removeFromRoom_def Let_def emit_def)

lemma saveDocument_documents:
  "documents (db (saveDocument eng ra s)) =
     (case documents (db s) (documentId (roomHeap s ra)) of
        None \<Rightarrow> documents (db s)
      | Some row \<Rightarrow> (documents (db s))(documentId (roomHeap s ra) \<mapsto>
          row\<lparr>content := Some (getState eng (docHeap s (document (roomHeap s ra)))),
              version := version row + 1, updatedAt := now s\<rparr>))"
  by (simp add: saveDocument_def Let_def emit_def split: option.split)

lemma saveDocument_operations:
  "operations (db (saveDocument eng ra s)) =
     (case documents (db s) (documentId (roomHeap s ra)) of
        None \<Rightarrow> operations (db s)
      | Some row \<Rightarrow> operations (db s) @
          [\<lparr>op_documentId = documentId (roomHeap s ra), op_userId = ''system'',
            op_data = getState eng (docHeap s (document (roomHeap s ra))),
            op_version = version row + 1, op_createdAt = now s\<rparr>])"
  by (simp add: saveDocument_def Let_def emit_def getDocumentVersion_def split: option.split)

lemma saveDocument_emitted:
  "emitted (saveDocument eng ra s) = emitted s @
     (case documents (db s) (documentId (roomHeap s ra)) of
        None \<Rightarrow> []
      | Some row \<Rightarrow> [(ToRoom (''doc:'' @ documentId (roomHeap s ra)),
                      DOCUMENT_SAVED (documentId (roomHeap s ra)) (now s))])"
  by (simp add: saveDocument_def Let_def emit_def split: option.split)

lemma clearTimeout_keeps:
  "rooms (clearTimeout h s) = rooms s"
  "documentStore (clearTimeout h s) = documentStore s"
  "docHeap (clearTimeout h s) = docHeap s"
  "roomHeap (clearTimeout h s) = roomHeap s"
  "db (clearTimeout h s) = db s"
  "emitted (clearTimeout h s) = emitted s"
  "socketToRoom (clearTimeout h s) = socketToRoom s"
  by (simp_all add: clearTimeout_def)

lemma remove_doc_keeps:
  "rooms (remove_doc d s) = rooms s"
  "roomHeap (remove_doc d s) = roomHeap s"
  "db (remove_doc d s) = db s"
  "emitted (remove_doc d s) = emitted s"
  "timers (remove_doc d s) = timers s"
  "socketToRoom (remove_doc d s) = socketToRoom s"
  "documentStore (remove_doc d s) = (documentStore s)(d := None)"
  by (auto simp add: remove_doc_def split: option.split)

lemma cleanUpRoom_facts:
  "rooms (cleanUpRoom eng roomId ra s) = (rooms s)(roomId := None)"
  "documentStore (cleanUpRoom eng roomId ra s) = (documentStore s)(documentId (roomHeap s ra) := None)"
  "timers (cleanUpRoom eng roomId ra s) =
     filter (\<lambda>(i, tm). Some i \<noteq> saveTimeout (roomHeap s ra)) (timers s)"
  "db (cleanUpRoom eng roomId ra s) = db (saveDocument eng ra s)"
  "emitted (cleanUpRoom eng roomId ra s) = emitted (saveDocument eng ra s)"
  "socketToRoom (cleanUpRoom eng roomId ra s) = socketToRoom s"
  "users (roomHeap (cleanUpRoom eng roomId ra s) a) = users (roomHeap s a)"
  by (simp_all add: cleanUpRoom_def Let_def remove_doc_keeps clearTimeout_keeps
      saveDocument_keeps saveDocument_room_fields clearTimeout_def split: option.split)


lemma roomOf_untrack: "roomOf (untrackUserSocket u x s) sid = roomOf s sid"
  by (rule roomOf_cong) (simp add: untrackUserSocket_keeps)

lemma leave_resident:
  assumes joined: "roomOf s (sock_id socket) = Some roomId"
    and resident: "rooms s roomId = Some ra"
  shows "handleLeaveRoom eng socket s =
     (if users (roomHeap (removeFromRoom socket roomId ra s) ra) = []
      then cleanUpRoom eng roomId ra (removeFromRoom socket roomId ra s)
      else removeFromRoom socket roomId ra s)"
  using assms by (simp add: handleLeaveRoom_def Let_def)

lemma leave_facts:
  fixes s :: "'d Server" and ra :: nat and socket :: Socket and roomId :: roomId and eng :: "'d Engine"
  defines "r \<equiv> roomHeap s ra"
  defines "roster \<equiv> (if userSocketsInRoom s socket roomId = []
                       then AList.delete (sock_userId socket) (users (roomHeap s ra))
                       else users (roomHeap s ra))"
  defines "left \<equiv> (if userSocketsInRoom s socket roomId = []
                     then [(ToOthers roomId (sock_id socket), USER_LEFT (sock_userId socket))]
                     else [])"
  assumes joined: "roomOf s (sock_id socket) = Some roomId"
    and resident: "rooms s roomId = Some ra"
    and path: "s' = handleLeaveRoom eng socket s"
  shows "users (roomHeap s' ra) = roster"
    and "socketToRoom s' = (socketToRoom s)(sock_id socket := None)"
    and "roster = [] \<Longrightarrow> rooms s' = (rooms s)(roomId := None)"
    and "roster = [] \<Longrightarrow> documentStore s' = (documentStore s)(documentId r := None)"
    and "roster = [] \<Longrightarrow> timers s' = filter (\<lambda>(i, tm). Some i \<noteq> saveTimeout r) (timers s)"
    and "roster = [] \<Longrightarrow> documents (db s) (documentId r) = None \<Longrightarrow>
           db s' = db s \<and> emitted s' = emitted s @ left"
    and "roster = [] \<Longrightarrow> documents (db s) (documentId r) = Some row \<Longrightarrow>
           documents (db s') = (documents (db s))(documentId r \<mapsto>
             row\<lparr>content := Some (getState eng (docHeap s (document r))),
                 version := version row + 1, updatedAt := now s\<rparr>)
         \<and> operations (db s') = operations (db s) @
             [\<lparr>op_documentId = documentId r, op_userId = ''system'',
               op_data = getState eng (docHeap s (document r)),
               op_version = version row + 1, op_createdAt = now s\<rparr>]
         \<and> emitted s' = emitted s @ left @
             [(ToRoom (''doc:'' @ documentId r), DOCUMENT_SAVED (documentId r) (now s))]"
    and "roster \<noteq> [] \<Longrightarrow>
           rooms s' = rooms s \<and> documentStore s' = documentStore s \<and> timers s' = timers s
         \<and> db s' = db s \<and> docHeap s' = docHeap s \<and> emitted s' = emitted s @ left"
proof -
  let ?s2 = "removeFromRoom socket roomId ra s"
  have u: "users (roomHeap ?s2 ra) = roster"
    by (simp add: removeFromRoom_users roster_def)
  have e: "emitted ?s2 = emitted s @ left"
    by (simp add: removeFromRoom_emitted left_def)
  have s': "s' = (if roster = [] then cleanUpRoom eng roomId ra ?s2 else ?s2)"
    unfolding path leave_resident [OF joined resident] u ..
  show "users (roomHeap s' ra) = roster"
    by (simp add: s' cleanUpRoom_facts u)
  show "socketToRoom s' = (socketToRoom s)(sock_id socket := None)"
    by (simp add: s' cleanUpRoom_facts removeFromRoom_keeps)
  show "roster = [] \<Longrightarrow> rooms s' = (rooms s)(roomId := None)"
    by (simp add: s' cleanUpRoom_facts removeFromRoom_keeps)
  show "roster = [] \<Longrightarrow> documentStore s' = (documentStore s)(documentId r := None)"
    by (simp add: s' cleanUpRoom_facts removeFromRoom_keeps r_def)
  show "roster = [] \<Longrightarrow> timers s' = filter (\<lambda>(i, tm). Some i \<noteq> saveTimeout r) (timers s)"
    by (simp add: s' cleanUpRoom_facts removeFromRoom_keeps r_def)
  show "roster = [] \<Longrightarrow> documents (db s) (documentId r) = None \<Longrightarrow>
           db s' = db s \<and> emitted s' = emitted s @ left"
    by (simp add: s' cleanUpRoom_facts saveDocument_def removeFromRoom_keeps r_def e)
  show "roster = [] \<Longrightarrow> documents (db s) (documentId r) = Some row \<Longrightarrow>
           documents (db s') = (documents (db s))(documentId r \<mapsto>
             row\<lparr>content := Some (getState eng (docHeap s (document r))),
                 version := version row + 1, updatedAt := now s\<rparr>)
         \<and> operations (db s') = operations (db s) @
             [\<lparr>op_documentId = documentId r, op_userId = ''system'',
               op_data = getState eng (docHeap s (document r)),
               op_version = version row + 1, op_createdAt = now s\<rparr>]
         \<and> emitted s' = emitted s @ left @
             [(ToRoom (''doc:'' @ documentId r), DOCUMENT_SAVED (documentId r) (now s))]"
    by (simp add: s' cleanUpRoom_facts saveDocument_documents saveDocument_operations
        saveDocument_emitted removeFromRoom_keeps r_def e)
  show "roster \<noteq> [] \<Longrightarrow>
           rooms s' = rooms s \<and> documentStore s' = documentStore s \<and> timers s' = timers s
         \<and> db s' = db s \<and> docHeap s' = docHeap s \<and> emitted s' = emitted s @ left"
    by (simp add: s' removeFromRoom_keeps e)
qed


lemma userSocketsInRoom_empty:
  "(userSocketsInRoom s socket roomId = []) =
     (\<not> (\<exists>sid sockets. userSockets s (sock_userId socket) = Some sockets \<and> sid \<in> set sockets
            \<and> sid \<noteq> sock_id socket \<and> socketToRoom s sid = Some roomId))"
  by (auto simp add: userSocketsInRoom_def filter_empty_conv split: option.split)


text \<open>
  Claim C2.  A socket mapped to a resident room leaves it, by \<open>handleLeaveRoom\<close> or by
  \<open>handleDisconnect\<close>.  The user's entry stays in the roster exactly when \<open>userSockets\<close>
  tracks, for this user, a socket other than the leaving one that \<open>socketToRoom\<close> maps to
  this same room; a tracked socket that is in no room, or in another room, does not keep
  the entry.  Otherwise the entry is deleted and \<open>USER_LEFT\<close> goes to the others.  If the
  roster is then empty, the handler returns with the room out of the registry, the document
  out of the store, the room's timer no longer pending, and the document saved once: the
  row holds the encoding of the room's document and a version one higher, one operation
  record has been appended, and \<open>DOCUMENT_SAVED\<close> is the handler's last event (when the row
  is gone the save has failed and nothing is written).  If the roster is not empty, room,
  store, timers, database and documents are untouched.
\<close>

theorem leave_room_lifecycle:
  fixes s :: "'d Server" and ra :: nat and socket :: Socket and roomId :: roomId and eng :: "'d Engine"
  defines "r \<equiv> roomHeap s ra"
  defines "another \<equiv> (\<exists>sid sockets. userSockets s (sock_userId socket) = Some sockets
                         \<and> sid \<in> set sockets \<and> sid \<noteq> sock_id socket
                         \<and> socketToRoom s sid = Some roomId)"
  defines "roster \<equiv> (if another then users (roomHeap s ra)
                       else AList.delete (sock_userId socket) (users (roomHeap s ra)))"
  defines "left \<equiv> (if another then []
                     else [(ToOthers roomId (sock_id socket), USER_LEFT (sock_userId socket))])"
  assumes joined: "roomOf s (sock_id socket) = Some roomId"
    and resident: "rooms s roomId = Some ra"
    and path: "s' = handleLeaveRoom eng socket s \<or> s' = handleDisconnect eng socket s"
  shows "users (roomHeap s' ra) = roster
       \<and> socketToRoom s' = (socketToRoom s)(sock_id socket := None)
       \<and> (if roster = [] then
            rooms s' = (rooms s)(roomId := None)
          \<and> documentStore s' = (documentStore s)(documentId r := None)
          \<and> timers s' = filter (\<lambda>(i, tm). Some i \<noteq> saveTimeout r) (timers s)
          \<and> (case documents (db s) (documentId r) of
                None \<Rightarrow> db s' = db s \<and> emitted s' = emitted s @ left
              | Some row \<Rightarrow>
                  documents (db s') = (documents (db s))(documentId r \<mapsto>
                    row\<lparr>content := Some (getState eng (docHeap s (document r))),
                        version := version row + 1, updatedAt := now s\<rparr>)
                \<and> operations (db s') = operations (db s) @
                    [\<lparr>op_documentId = documentId r, op_userId = ''system'',
                      op_data = getState eng (docHeap s (document r)),
                      op_version = version row + 1, op_createdAt = now s\<rparr>]
                \<and> emitted s' = emitted s @ left @
                    [(ToRoom (''doc:'' @ documentId r), DOCUMENT_SAVED (documentId r) (now s))])
          else
            rooms s' = rooms s \<and> documentStore s' = documentStore s \<and> timers s' = timers s
          \<and> db s' = db s \<and> docHeap s' = docHeap s \<and> emitted s' = emitted s @ left)"
proof -
  obtain s0 where s0: "s' = handleLeaveRoom eng socket s0"
    and same: "roomHeap s0 = roomHeap s" "socketToRoom s0 = socketToRoom s" "rooms s0 = rooms s"
      "documentStore s0 = documentStore s" "timers s0 = timers s" "db s0 = db s"
      "docHeap s0 = docHeap s" "emitted s0 = emitted s" "now s0 = now s"
      "userSocketsInRoom s0 socket roomId = userSocketsInRoom s socket roomId"
      "roomOf s0 (sock_id socket) = roomOf s (sock_id socket)"
  proof (rule disjE [OF path])
    assume "s' = handleLeaveRoom eng socket s"
    then show thesis by (rule that) simp_all
  next
    assume "s' = handleDisconnect eng socket s"
    then have "s' = handleLeaveRoom eng socket
                      (untrackUserSocket (sock_userId socket) (sock_id socket) s)"
      by (simp add: handleDisconnect_def)
    then show thesis
      by (rule that) (simp_all add: untrackUserSocket_keeps userSocketsInRoom_untrack roomOf_untrack)
  qed
  have j0: "roomOf s0 (sock_id socket) = Some roomId" using joined same by simp
  have r0: "rooms s0 roomId = Some ra" using resident same by simp
  have none: "(userSocketsInRoom s socket roomId = []) = (\<not> another)"
    unfolding another_def by (rule userSocketsInRoom_empty)
  have roster: "(if userSocketsInRoom s socket roomId = []
                 then AList.delete (sock_userId socket) (users (roomHeap s ra))
                 else users (roomHeap s ra)) = roster"
    unfolding none roster_def by simp
  have left: "(if userSocketsInRoom s socket roomId = []
               then [(ToOthers roomId (sock_id socket), USER_LEFT (sock_userId socket))]
               else []) = left"
    unfolding none left_def by simp
  note f = leave_facts [OF j0 r0 s0, unfolded same roster left, folded r_def]
  show ?thesis
  proof (cases "roster = []")
    case True
    show ?thesis
    proof (cases "documents (db s) (documentId r)")
      case None
      with True f(1-6) show ?thesis by simp
    next
      case (Some row)
      with True f(1-5) f(7) [OF True Some] show ?thesis by simp
    qed
  next
    case False
    with f(1,2) f(8) [OF False] show ?thesis by simp
  qed
qed


theorem leave_room_lifecycle_witness:
  "users (roomHeap (handleLeaveRoom demoEngine aliceTab1 demoServer) 0) =
     [(''u1'', member alice OWNER), (''u2'', member bob VIEWER)]
   \<and> rooms (handleLeaveRoom demoEngine aliceTab1 demoServer) ''doc:d1'' = Some 0
   \<and> emitted (handleLeaveRoom demoEngine aliceTab1 demoServer) = []
   \<and> users (roomHeap (handleDisconnect demoEngine bobTab demoServer) 0) = [(''u1'', member alice OWNER)]
   \<and> emitted (handleDisconnect demoEngine bobTab demoServer) = [(ToOthers ''doc:d1'' ''s3'', USER_LEFT ''u2'')]
   \<and> db (handleDisconnect demoEngine bobTab demoServer) = demoDb
   \<and> rooms (handleLeaveRoom demoEngine aliceTab1 soloServer) ''doc:d1'' = None
   \<and> documentStore (handleLeaveRoom demoEngine aliceTab1 soloServer) ''d1'' = None
   \<and> timers (handleLeaveRoom demoEngine aliceTab1 soloServer) = []
   \<and> map_option version (documents (db (handleLeaveRoom demoEngine aliceTab1 soloServer)) ''d1'') = Some 4
   \<and> map_option content (documents (db (handleLeaveRoom demoEngine aliceTab1 soloServer)) ''d1'')
        = Some (Some [1, 2, 7])
   \<and> length (operations (db (handleLeaveRoom demoEngine aliceTab1 soloServer))) = 1
   \<and> emitted (handleLeaveRoom demoEngine aliceTab1 soloServer) =
        [(ToOthers ''doc:d1'' ''s1'', USER_LEFT ''u1''), (ToRoom ''doc:d1'', DOCUMENT_SAVED ''d1'' 5000)]
   \<and> userSockets awayServer ''u1'' = Some [''s1'', ''s2'']
   \<and> socketToRoom awayServer ''s2'' = None
   \<and> users (roomHeap (handleLeaveRoom demoEngine aliceTab1 awayServer) 0) = []
   \<and> rooms (handleLeaveRoom demoEngine aliceTab1 awayServer) ''doc:d1'' = None
   \<and> emitted (handleLeaveRoom demoEngine aliceTab1 awayServer) =
        [(ToOthers ''doc:d1'' ''s1'', USER_LEFT ''u1''), (ToRoom ''doc:d1'', DOCUMENT_SAVED ''d1'' 5000)]"
proof -
  have a1: "roomOf demoServer (sock_id aliceTab1) = Some ''doc:d1''"
    by (simp add: roomOf_def demoServer_def aliceTab1_def)
  have a2: "rooms demoServer ''doc:d1'' = Some 0"
    by (simp add: demoServer_def)
  have a3: "\<exists>sid sockets. userSockets demoServer (sock_userId aliceTab1) = Some sockets
              \<and> sid \<in> set sockets \<and> sid \<noteq> sock_id aliceTab1
              \<and> socketToRoom demoServer sid = Some ''doc:d1''"
    by (rule exI [where x = "''s2''"], rule exI [where x = "[''s1'', ''s2'']"])
       (simp add: demoServer_def aliceTab1_def)
  have a: "users (roomHeap (handleLeaveRoom demoEngine aliceTab1 demoServer) 0) =
             [(''u1'', member alice OWNER), (''u2'', member bob VIEWER)]
         \<and> rooms (handleLeaveRoom demoEngine aliceTab1 demoServer) ''doc:d1'' = Some 0
         \<and> emitted (handleLeaveRoom demoEngine aliceTab1 demoServer) = []"
    using leave_room_lifecycle [OF a1 a2 disjI1 [OF refl], of demoEngine]
    unfolding if_P [OF a3] by (simp add: demoServer_def)
  have b1: "roomOf demoServer (sock_id bobTab) = Some ''doc:d1''"
    by (simp add: roomOf_def demoServer_def bobTab_def)
  have b3: "\<not> (\<exists>sid sockets. userSockets demoServer (sock_userId bobTab) = Some sockets
              \<and> sid \<in> set sockets \<and> sid \<noteq> sock_id bobTab
              \<and> socketToRoom demoServer sid = Some ''doc:d1'')"
    by (simp add: demoServer_def bobTab_def)
  have b4: "AList.delete (sock_userId bobTab) (users (roomHeap demoServer 0)) = [(''u1'', member alice OWNER)]"
    by (simp add: demoServer_def bobTab_def AList.delete_eq)
  have b5: "rooms demoServer = [''doc:d1'' \<mapsto> 0]" "documentStore demoServer = [''d1'' \<mapsto> 0]"
    "timers demoServer = [(0, \<lparr>deadline = 6000, target = 0\<rparr>)]" "db demoServer = demoDb"
    "emitted demoServer = []" "sock_id bobTab = ''s3''" "sock_userId bobTab = ''u2''"
    by (simp_all add: demoServer_def bobTab_def)
  have b: "users (roomHeap (handleDisconnect demoEngine bobTab demoServer) 0) = [(''u1'', member alice OWNER)]
         \<and> emitted (handleDisconnect demoEngine bobTab demoServer) = [(ToOthers ''doc:d1'' ''s3'', USER_LEFT ''u2'')]
         \<and> db (handleDisconnect demoEngine bobTab demoServer) = demoDb"
    using leave_room_lifecycle [OF b1 a2 disjI2 [OF refl], of demoEngine]
    unfolding if_not_P [OF b3] b4 by (simp add: b5)
  have c1: "roomOf soloServer (sock_id aliceTab1) = Some ''doc:d1''"
    by (simp add: roomOf_def soloServer_def demoServer_def aliceTab1_def)
  have c2: "rooms soloServer ''doc:d1'' = Some 0"
    by (simp add: soloServer_def demoServer_def)
  have c3: "\<not> (\<exists>sid sockets. userSockets soloServer (sock_userId aliceTab1) = Some sockets
              \<and> sid \<in> set sockets \<and> sid \<noteq> sock_id aliceTab1
              \<and> socketToRoom soloServer sid = Some ''doc:d1'')"
    by (simp add: soloServer_def demoServer_def aliceTab1_def)
  have c4: "AList.delete (sock_userId aliceTab1) (users (roomHeap soloServer 0)) = []"
    by (simp add: soloServer_def demoServer_def aliceTab1_def AList.delete_eq)
  have c5: "documentId (roomHeap soloServer 0) = ''d1''" "saveTimeout (roomHeap soloServer 0) = Some 0"
    "documents (db soloServer) ''d1'' = Some \<lparr>title = ''Notes'', content = Some [1, 2], ownerId = ''u1'',
       isPublic = False, version = 3, updatedAt = 1000\<rparr>"
    "timers soloServer = [(0, \<lparr>deadline = 6000, target = 0\<rparr>)]"
    "getState demoEngine (docHeap soloServer (document (roomHeap soloServer 0))) = [1, 2, 7]"
    "operations (db soloServer) = []" "emitted soloServer = []" "now soloServer = 5000"
    "sock_id aliceTab1 = ''s1''" "sock_userId aliceTab1 = ''u1''"
    by (simp_all add: soloServer_def demoServer_def demoDb_def getState_def demoEngine_def aliceTab1_def)
  have c: "rooms (handleLeaveRoom demoEngine aliceTab1 soloServer) ''doc:d1'' = None
   \<and> documentStore (handleLeaveRoom demoEngine aliceTab1 soloServer) ''d1'' = None
   \<and> timers (handleLeaveRoom demoEngine aliceTab1 soloServer) = []
   \<and> map_option version (documents (db (handleLeaveRoom demoEngine aliceTab1 soloServer)) ''d1'') = Some 4
   \<and> map_option content (documents (db (handleLeaveRoom demoEngine aliceTab1 soloServer)) ''d1'')
        = Some (Some [1, 2, 7])
   \<and> length (operations (db (handleLeaveRoom demoEngine aliceTab1 soloServer))) = 1
   \<and> emitted (handleLeaveRoom demoEngine aliceTab1 soloServer) =
        [(ToOthers ''doc:d1'' ''s1'', USER_LEFT ''u1''), (ToRoom ''doc:d1'', DOCUMENT_SAVED ''d1'' 5000)]"
    using leave_room_lifecycle [OF c1 c2 disjI1 [OF refl], of demoEngine]
    unfolding if_not_P [OF c3] c4 by (simp add: c5)
  have d0: "userSockets awayServer ''u1'' = Some [''s1'', ''s2'']"
    "socketToRoom awayServer ''s2'' = None"
    by (simp_all add: awayServer_def soloServer_def demoServer_def)
  have d1: "roomOf awayServer (sock_id aliceTab1) = Some ''doc:d1''"
    by (simp add: roomOf_def awayServer_def soloServer_def demoServer_def aliceTab1_def)
  have d2: "rooms awayServer ''doc:d1'' = Some 0"
    by (simp add: awayServer_def soloServer_def demoServer_def)
  have d3: "\<not> (\<exists>sid sockets. userSockets awayServer (sock_userId aliceTab1) = Some sockets
              \<and> sid \<in> set sockets \<and> sid \<noteq> sock_id aliceTab1
              \<and> socketToRoom awayServer sid = Some ''doc:d1'')"
    by (auto simp add: awayServer_def soloServer_def demoServer_def aliceTab1_def)
  have d4: "AList.delete (sock_userId aliceTab1) (users (roomHeap awayServer 0)) = []"
    by (simp add: awayServer_def soloServer_def demoServer_def aliceTab1_def AList.delete_eq)
  have d5: "documentId (roomHeap awayServer 0) = ''d1''"
    "documents (db awayServer) ''d1'' = Some \<lparr>title = ''Notes'', content = Some [1, 2], ownerId = ''u1'',
       isPublic = False, version = 3, updatedAt = 1000\<rparr>"
    "rooms awayServer = [''doc:d1'' \<mapsto> 0]"
    "emitted awayServer = []" "now awayServer = 5000"
    "sock_id aliceTab1 = ''s1''" "sock_userId aliceTab1 = ''u1''"
    by (simp_all add: awayServer_def soloServer_def demoServer_def demoDb_def aliceTab1_def)
  have d: "users (roomHeap (handleLeaveRoom demoEngine aliceTab1 awayServer) 0) = []
   \<and> rooms (handleLeaveRoom demoEngine aliceTab1 awayServer) ''doc:d1'' = None
   \<and> emitted (handleLeaveRoom demoEngine aliceTab1 awayServer) =
        [(ToOthers ''doc:d1'' ''s1'', USER_LEFT ''u1''), (ToRoom ''doc:d1'', DOCUMENT_SAVED ''d1'' 5000)]"
    using leave_room_lifecycle [OF d1 d2 disjI1 [OF refl], of demoEngine]
    unfolding if_not_P [OF d3] d4 by (simp add: d5)
  from a b c d d0 show ?thesis by simp
qed

subsection \<open>Joining a room\<close>

lemma enterRoom_keeps:
  "rooms (enterRoom eng socket did r ra s) = rooms s"
  "socketToRoom (enterRoom eng socket did r ra s) = socketToRoom s"
  "userSockets (enterRoom eng socket did r ra s) = userSockets s"
  "documentStore (enterRoom eng socket did r ra s) = documentStore s"
  "docHeap (enterRoom eng socket did r ra s) = docHeap s"
  "db (enterRoom eng socket did r ra s) = db s"
  "timers (enterRoom eng socket did r ra s) = timers s"
  "nextRoom (enterRoom eng socket did r ra s) = nextRoom s"
  "nextDoc (enterRoom eng socket did r ra s) = nextDoc s"
  "now (enterRoom eng socket did r ra s) = now s"
  "ioRooms (enterRoom eng socket did r ra s) = ioRooms s"
  by (simp_all add: enterRoom_def Let_def emit_def split: option.split)

lemma enterRoom_room:
  "roomHeap (enterRoom eng socket did r ra s) =
     (roomHeap s)(ra := (roomHeap s ra)\<lparr>users :=
        AList.update (sock_userId socket)
          \<lparr>ru_id = sock_userId socket, ru_name = su_name (sock_user socket),
           ru_color = su_color (sock_user socket), ru_avatar = su_avatar (sock_user socket),
           ru_role = r, ru_cursor = None, ru_isOnline = True\<rparr>
          (users (roomHeap s ra))\<rparr>)"
  by (simp add: enterRoom_def Let_def emit_def split: option.split)

lemma enterRoom_emitted:
  "emitted (enterRoom eng socket did r ra s) = emitted s @
     (case documents (db s) did of
        None \<Rightarrow> [(ToSocket (sock_id socket), ERROR ''Failed to join room'')]
      | Some info \<Rightarrow>
          [(ToSocket (sock_id socket),
            ROOM_JOINED
              \<lparr>rj_documentId = did,
               rj_document = \<lparr>di_id = did, di_title = title info, di_version = version info\<rparr>,
               rj_state = getStateArray eng (docHeap s (document (roomHeap s ra))),
               rj_users = map snd (AList.update (sock_userId socket)
                 \<lparr>ru_id = sock_userId socket, ru_name = su_name (sock_user socket),
                  ru_color = su_color (sock_user socket), ru_avatar = su_avatar (sock_user socket),
                  ru_role = r, ru_cursor = None, ru_isOnline = True\<rparr>
                 (users (roomHeap s ra))),
               rj_role = r\<rparr>),
           (ToOthers (''doc:'' @ did) (sock_id socket),
            USER_JOINED
              \<lparr>ru_id = sock_userId socket, ru_name = su_name (sock_user socket),
               ru_color = su_color (sock_user socket), ru_avatar = su_avatar (sock_user socket),
               ru_role = r, ru_cursor = None, ru_isOnline = True\<rparr>)])"
  by (simp add: enterRoom_def Let_def emit_def split: option.split)

lemma handleLeaveRoom_emitted:
  "\<exists>evs. emitted (handleLeaveRoom eng socket s) = emitted s @ evs
         \<and> \<not> list_ex (isRoomJoinedFor x) evs"
proof (cases "roomOf s (sock_id socket)")
  case None
  then show ?thesis by (simp add: handleLeaveRoom_def)
next
  case (Some roomId)
  show ?thesis
  proof (cases "rooms s roomId")
    case None
    with Some show ?thesis by (simp add: handleLeaveRoom_def)
  next
    case (Some ra)
    note f = leave_facts [where eng = eng, OF \<open>roomOf s (sock_id socket) = Some roomId\<close> Some refl]
    let ?roster = "if userSocketsInRoom s socket roomId = []
                   then AList.delete (sock_userId socket) (users (roomHeap s ra))
                   else users (roomHeap s ra)"
    show ?thesis
    proof (cases "?roster = []")
      case True
      show ?thesis
      proof (cases "documents (db s) (documentId (roomHeap s ra))")
        case None
        from f(6) [OF True None] show ?thesis by (simp add: isRoomJoinedFor_def)
      next
        case (Some row)
        from f(7) [OF True Some] show ?thesis by (simp add: isRoomJoinedFor_def)
      qed
    next
      case False
      from f(8) [OF False] show ?thesis by (simp add: isRoomJoinedFor_def)
    qed
  qed
qed

lemma handleLeaveRoom_userSockets:
  "userSockets (handleLeaveRoom eng socket s) = userSockets s"
  by (simp add: handleLeaveRoom_def Let_def cleanUpRoom_def remove_doc_def clearTimeout_def
      saveDocument_keeps removeFromRoom_keeps split: option.split)

lemma handleLeaveRoom_row:
  "documents (db s) did \<noteq> None \<Longrightarrow> documents (db (handleLeaveRoom eng socket s)) did \<noteq> None"
  by (simp add: handleLeaveRoom_def Let_def cleanUpRoom_facts saveDocument_documents
      removeFromRoom_keeps split: option.split)

lemma handleLeaveRoom_socketToRoom:
  "x \<noteq> sock_id socket \<Longrightarrow> socketToRoom (handleLeaveRoom eng socket s) x = socketToRoom s x"
  by (simp add: handleLeaveRoom_def Let_def cleanUpRoom_facts removeFromRoom_keeps split: option.split)

lemma checkDocumentAccess_row:
  "checkDocumentAccess d uid did = (True, r) \<Longrightarrow> documents d did \<noteq> None"
  by (auto simp add: checkDocumentAccess_def split: option.splits)


lemma getOrCreate_keeps:
  assumes "getOrCreate eng did st s = Some (a, s3)"
  shows "rooms s3 = rooms s" "socketToRoom s3 = socketToRoom s" "userSockets s3 = userSockets s"
    "roomHeap s3 = roomHeap s" "db s3 = db s" "emitted s3 = emitted s" "nextRoom s3 = nextRoom s"
    "timers s3 = timers s" "now s3 = now s"
  using assms by (auto simp add: getOrCreate_def split: option.splits)

lemma error_is_no_join:
  assumes "emitted s' = emitted s @ evs @ [(t, ERROR m)]" and "\<not> list_ex (isRoomJoinedFor x) evs"
  shows "\<not> list_ex (isRoomJoinedFor x) (drop (length (emitted s)) (emitted s'))"
  using assms by (simp add: isRoomJoinedFor_def split: Target.split)

text \<open>A join that went through ended in \<open>enterRoom\<close>, on a state that has the room.\<close>

lemma join_succeeded:
  fixes s :: "'d Server" and eng :: "'d Engine" and socket :: Socket and payload :: JoinRoomPayload
  defines "did \<equiv> jp_documentId payload"
  defines "roomId \<equiv> ''doc:'' @ jp_documentId payload"
  defines "sL \<equiv> handleLeaveRoom eng socket s"
  assumes ok: "joinSucceeded s socket (handleJoinRoom eng socket payload s)"
  shows "\<exists>r ra sx.
           checkDocumentAccess (db s) (sock_userId socket) did = (True, Some r)
         \<and> handleJoinRoom eng socket payload s = enterRoom eng socket did r ra sx
         \<and> rooms sx roomId = Some ra
         \<and> socketToRoom sx = (socketToRoom sL)(sock_id socket \<mapsto> roomId)
         \<and> userSockets sx = userSockets s
         \<and> (rooms sL roomId = Some ra \<and> rooms sx = rooms sL \<and> roomHeap sx = roomHeap sL
            \<or> rooms sL roomId = None \<and> ra = nextRoom sL \<and> rooms sx = (rooms sL)(roomId \<mapsto> ra)
              \<and> (\<exists>fresh. users fresh = [] \<and> roomHeap sx = (roomHeap sL)(ra := fresh)))"
proof -
  let ?sid = "sock_id socket"
  let ?s' = "handleJoinRoom eng socket payload s"
  obtain hasAccess role where acc:
    "checkDocumentAccess (db s) (sock_userId socket) did = (hasAccess, role)"
    by (cases "checkDocumentAccess (db s) (sock_userId socket) did") auto
  have nj: "\<not> list_ex (isRoomJoinedFor ?sid) (drop (length (emitted s)) (emitted ?s'))"
    if "emitted ?s' = emitted s @ evs @ [(t, ERROR m)]" "\<not> list_ex (isRoomJoinedFor ?sid) evs"
    for evs t m
    using that by (rule error_is_no_join)
  have granted: "hasAccess \<and> role \<noteq> None"
  proof (rule ccontr)
    assume "\<not> (hasAccess \<and> role \<noteq> None)"
    then have "emitted ?s' = emitted s @ [] @
        [(ToSocket ?sid, ERROR ''Access denied to this document'')]"
      using acc by (auto simp add: handleJoinRoom_def did_def emit_def Let_def split: option.split)
    from nj [OF this] ok show False by (simp add: joinSucceeded_def)
  qed
  then obtain r where r: "role = Some r" and ha: hasAccess by auto
  obtain evs where evs: "emitted sL = emitted s @ evs" "\<not> list_ex (isRoomJoinedFor ?sid) evs"
    unfolding sL_def using handleLeaveRoom_emitted [of eng socket s ?sid] by blast
  define s2 where "s2 = sL\<lparr>ioRooms := (ioRooms sL)(roomId := insert ?sid (ioRooms sL roomId)),
                            socketToRoom := (socketToRoom sL)(?sid \<mapsto> roomId)\<rparr>"
  have s2_fields: "rooms s2 = rooms sL" "emitted s2 = emitted sL" "db s2 = db sL"
    "userSockets s2 = userSockets sL" "roomHeap s2 = roomHeap sL"
    "socketToRoom s2 = (socketToRoom sL)(?sid \<mapsto> roomId)"
    by (simp_all add: s2_def)
  have unfold: "?s' =
    (case rooms s2 roomId of
       Some ra \<Rightarrow> enterRoom eng socket did r ra s2
     | None \<Rightarrow>
         (case documents (db s2) did of
            None \<Rightarrow> emit (ToSocket ?sid) (ERROR ''Document not found'') s2
          | Some row \<Rightarrow>
              (case getOrCreate eng did (content row) s2 of
                 None \<Rightarrow> emit (ToSocket ?sid) (ERROR ''Failed to join room'') s2
               | Some (a, s3) \<Rightarrow>
                   enterRoom eng socket did r (nextRoom s3)
                     (s3\<lparr>roomHeap := (roomHeap s3)(nextRoom s3 :=
                           \<lparr>documentId = did, users = [], document = a,
                            lastSaveTime = now s3, saveTimeout = None\<rparr>),
                         nextRoom := Suc (nextRoom s3),
                         rooms := (rooms s3)(roomId \<mapsto> nextRoom s3)\<rparr>))))"
    using acc r ha
    unfolding handleJoinRoom_def Let_def did_def roomId_def sL_def s2_def
    by simp
  have us: "userSockets sL = userSockets s"
    by (simp add: sL_def handleLeaveRoom_userSockets)
  show ?thesis
  proof (cases "rooms s2 roomId")
    case (Some ra)
    with unfold have "?s' = enterRoom eng socket did r ra s2" by simp
    with Some acc r ha s2_fields us show ?thesis by auto
  next
    case None
    note noroom = this
    show ?thesis
    proof (cases "documents (db s2) did")
      case None
      with noroom unfold have "emitted ?s' = emitted s @ evs @
          [(ToSocket ?sid, ERROR ''Document not found'')]"
        by (simp add: emit_def s2_fields evs)
      from nj [OF this evs(2)] ok show ?thesis by (simp add: joinSucceeded_def)
    next
      case (Some row)
      note row = this
      show ?thesis
      proof (cases "getOrCreate eng did (content row) s2")
        case None
        with noroom row unfold have "emitted ?s' = emitted s @ evs @
            [(ToSocket ?sid, ERROR ''Failed to join room'')]"
          by (simp add: emit_def s2_fields evs)
        from nj [OF this evs(2)] ok show ?thesis by (simp add: joinSucceeded_def)
      next
        case (Some p)
        obtain a s3 where p: "p = (a, s3)" by (cases p)
        note k = getOrCreate_keeps [OF Some [unfolded p]]
        let ?sx = "s3\<lparr>roomHeap := (roomHeap s3)(nextRoom s3 :=
                           \<lparr>documentId = did, users = [], document = a,
                            lastSaveTime = now s3, saveTimeout = None\<rparr>),
                         nextRoom := Suc (nextRoom s3),
                         rooms := (rooms s3)(roomId \<mapsto> nextRoom s3)\<rparr>"
        have 1: "?s' = enterRoom eng socket did r (nextRoom s3) ?sx"
          using unfold noroom row Some p by simp
        have 2: "rooms ?sx roomId = Some (nextRoom s3)" by simp
        have 3: "socketToRoom ?sx = (socketToRoom sL)(?sid \<mapsto> roomId)"
          by (simp add: k s2_fields)
        have 4: "userSockets ?sx = userSockets s" by (simp add: k s2_fields us)
        have 5: "rooms sL roomId = None" using noroom s2_fields by simp
        have 7: "rooms sL roomId = None \<and> nextRoom s3 = nextRoom sL
              \<and> rooms ?sx = (rooms sL)(roomId \<mapsto> nextRoom s3)
              \<and> (\<exists>fresh. users fresh = [] \<and> roomHeap ?sx = (roomHeap sL)(nextRoom s3 := fresh))"
          by (intro conjI exI [of _ "\<lparr>documentId = did, users = [], document = a,
                            lastSaveTime = now s3, saveTimeout = None\<rparr>"])
             (simp_all add: k s2_def 5)
        have 6: "checkDocumentAccess (db s) (sock_userId socket) did = (True, Some r)"
          using acc r ha by simp
        show ?thesis
          apply (rule exI [where x = r])
          apply (rule exI [where x = "nextRoom s3"])
          apply (rule exI [where x = ?sx])
          apply (intro conjI)
               apply (rule 6)
              apply (rule 1)
             apply (rule 2)
            apply (rule 3)
           apply (rule 4)
          apply (rule disjI2)
          apply (rule 7)
          done
      qed
    qed
  qed
qed

lemma removeFromRoom_other_users:
  "a \<noteq> ra \<Longrightarrow> users (roomHeap (removeFromRoom socket roomId ra s) a) = users (roomHeap s a)"
  by (simp add: removeFromRoom_def Let_def emit_def)

lemma handleLeaveRoom_other_users:
  assumes "roomOf s (sock_id socket) = Some rid" and "rooms s rid = Some ra'" and "a \<noteq> ra'"
  shows "users (roomHeap (handleLeaveRoom eng socket s) a) = users (roomHeap s a)"
  using assms(3)
  by (simp add: leave_resident [OF assms(1,2)] cleanUpRoom_facts removeFromRoom_other_users)

lemma cleanUpRoom_nextRoom: "nextRoom (cleanUpRoom eng roomId ra s) = nextRoom s"
  by (simp add: cleanUpRoom_def Let_def remove_doc_def clearTimeout_def saveDocument_keeps
      split: option.split)

lemma removeFromRoom_nextRoom: "nextRoom (removeFromRoom socket roomId ra s) = nextRoom s"
  by (simp add: removeFromRoom_def Let_def emit_def)

lemma handleLeaveRoom_nextRoom: "nextRoom (handleLeaveRoom eng socket s) = nextRoom s"
  by (simp add: handleLeaveRoom_def Let_def cleanUpRoom_nextRoom removeFromRoom_nextRoom
      split: option.split)

lemma handleLeaveRoom_rooms:
  "rooms (handleLeaveRoom eng socket s) rid = rooms s rid
   \<or> rooms (handleLeaveRoom eng socket s) rid = None"
  by (simp add: handleLeaveRoom_def Let_def cleanUpRoom_facts removeFromRoom_keeps
      split: option.split)

lemma handleLeaveRoom_distinct:
  assumes "\<And>a. distinct (map fst (users (roomHeap s a)))"
  shows "distinct (map fst (users (roomHeap (handleLeaveRoom eng socket s) a)))"
proof (cases "roomOf s (sock_id socket)")
  case None
  then show ?thesis using assms by (simp add: handleLeaveRoom_def)
next
  case (Some rid)
  show ?thesis
  proof (cases "rooms s rid")
    case None
    with Some show ?thesis using assms by (simp add: handleLeaveRoom_def)
  next
    case (Some ra')
    show ?thesis
    proof (cases "a = ra'")
      case True
      have "users (roomHeap (handleLeaveRoom eng socket s) ra') =
              (if userSocketsInRoom s socket rid = []
               then AList.delete (sock_userId socket) (users (roomHeap s ra'))
               else users (roomHeap s ra'))"
        by (rule leave_facts(1) [OF \<open>roomOf s (sock_id socket) = Some rid\<close> Some refl])
      with True assms [of ra'] show ?thesis by (simp add: AList.distinct_delete)
    next
      case False
      from handleLeaveRoom_other_users [OF \<open>roomOf s (sock_id socket) = Some rid\<close> Some False]
      show ?thesis using assms [of a] by simp
    qed
  qed
qed

text \<open>A user's other tab in the room keeps the room and its roster through a leave.\<close>

lemma leave_keeps_shared_room:
  assumes room: "rooms s roomId = Some ra"
    and tracked: "userSockets s (sock_userId socket) = Some sockets" "sid1 \<in> set sockets"
    and other: "sid1 \<noteq> sock_id socket" "socketToRoom s sid1 = Some roomId"
    and present: "users (roomHeap s ra) \<noteq> []"
    and inj: "inj_on (rooms s) (dom (rooms s))"
  shows "rooms (handleLeaveRoom eng socket s) roomId = Some ra
       \<and> users (roomHeap (handleLeaveRoom eng socket s) ra) = users (roomHeap s ra)"
proof (cases "roomOf s (sock_id socket)")
  case None
  then show ?thesis using room by (simp add: handleLeaveRoom_def)
next
  case (Some rid)
  note joined = this
  show ?thesis
  proof (cases "rooms s rid")
    case None
    with Some show ?thesis using room by (simp add: handleLeaveRoom_def)
  next
    case (Some ra')
    show ?thesis
    proof (cases "rid = roomId")
      case True
      with Some room have ra': "ra' = ra" by simp
      have ne: "userSocketsInRoom s socket roomId \<noteq> []"
        using tracked other by (auto simp add: userSocketsInRoom_def filter_empty_conv)
      note f = leave_facts [where eng = eng, OF joined Some refl, unfolded True ra']
      from ne present f(1) f(8) room show ?thesis by simp
    next
      case False
      have "rooms s rid \<noteq> rooms s roomId"
        using inj False Some room by (auto simp add: inj_on_def dom_def)
      with Some room have neq: "ra \<noteq> ra'" by auto
      have u: "users (roomHeap (handleLeaveRoom eng socket s) ra) = users (roomHeap s ra)"
        by (rule handleLeaveRoom_other_users [OF joined Some neq])
      note f = leave_facts [where eng = eng, OF joined Some refl]
      have "rooms (handleLeaveRoom eng socket s) roomId = rooms s roomId"
        using f(3) f(8) False by (cases "(if userSocketsInRoom s socket rid = []
                       then AList.delete (sock_userId socket) (users (roomHeap s ra'))
                       else users (roomHeap s ra')) = []") auto
      with u room show ?thesis by simp
    qed
  qed
qed

lemma one_entry:
  "distinct (map fst xs) \<Longrightarrow> k \<in> fst ` set xs \<Longrightarrow> length (filter (\<lambda>e. fst e = k) xs) = 1"
  by (induction xs) (auto simp add: filter_empty_conv image_iff)


lemma inj_on_shrunk:
  assumes "inj_on m (dom m)" and "\<And>k. m' k = m k \<or> m' k = None"
  shows "inj_on m' (dom m')"
proof (rule inj_onI)
  fix x y assume "x \<in> dom m'" "y \<in> dom m'" "m' x = m' y"
  with assms(2) [of x] assms(2) [of y] have "x \<in> dom m" "y \<in> dom m" "m x = m y"
    by auto
  with assms(1) show "x = y" by (auto dest: inj_onD)
qed

lemma update_key_in: "k \<in> fst ` set (AList.update k v xs)"
  by (induction xs) auto

lemma inj_on_fresh:
  fixes n :: nat
  assumes "inj_on m (dom m)" and "\<And>k a. m k = Some a \<Longrightarrow> a < n"
  shows "inj_on (m(k \<mapsto> n)) (dom (m(k \<mapsto> n)))"
proof (rule inj_onI)
  fix x y
  assume "x \<in> dom (m(k \<mapsto> n))" "y \<in> dom (m(k \<mapsto> n))" "(m(k \<mapsto> n)) x = (m(k \<mapsto> n)) y"
  then show "x = y"
    using assms(1) assms(2) [of x] assms(2) [of y]
    by (auto simp add: inj_on_def dom_def split: if_splits)
qed

text \<open>
  A socket of a user joins a document and the join goes through; later a second socket of
  the user joins the same document, from a server \<open>c\<close> that has the rooms, the rosters and
  the socket map the first join left and tracks the first socket, and this join goes
  through too.  Then the room has one roster entry under the user's id, both sockets are
  mapped to the room, and the user's tracked sockets are what they were in \<open>c\<close>.
\<close>

lemma two_joins_one_entry:
  fixes s c :: "'d Server" and eng :: "'d Engine" and tab1 tab2 :: Socket and payload :: JoinRoomPayload
  defines "roomId \<equiv> ''doc:'' @ jp_documentId payload"
  defines "s1 \<equiv> handleJoinRoom eng tab1 payload s"
  defines "s2 \<equiv> handleJoinRoom eng tab2 payload c"
  assumes same: "sock_userId tab2 = sock_userId tab1"
    and diff: "sock_id tab1 \<noteq> sock_id tab2"
    and tracked: "userSockets c (sock_userId tab1) = Some sockets" "sock_id tab1 \<in> set sockets"
    and agree: "rooms c = rooms s1" "roomHeap c = roomHeap s1" "socketToRoom c = socketToRoom s1"
    and maps: "\<forall>a. distinct (map fst (users (roomHeap s a)))"
    and inj: "inj_on (rooms s) (dom (rooms s))"
    and bound: "\<forall>rid a. rooms s rid = Some a \<longrightarrow> a < nextRoom s"
    and ok1: "joinSucceeded s tab1 s1"
    and ok2: "joinSucceeded c tab2 s2"
  shows "\<exists>ra. rooms s2 roomId = Some ra
            \<and> length (filter (\<lambda>e. fst e = sock_userId tab1) (users (roomHeap s2 ra))) = 1
            \<and> map fst (users (roomHeap s2 ra)) = map fst (users (roomHeap s1 ra))
            \<and> socketToRoom s2 (sock_id tab1) = Some roomId
            \<and> socketToRoom s2 (sock_id tab2) = Some roomId
            \<and> userSockets s2 (sock_userId tab1) = Some sockets"
proof -
  let ?did = "jp_documentId payload"
  let ?uid = "sock_userId tab1"
  define sL1 where "sL1 = handleLeaveRoom eng tab1 s"
  define sL2 where "sL2 = handleLeaveRoom eng tab2 c"
  \<comment> \<open>the first join\<close>
  from join_succeeded [OF ok1 [unfolded s1_def]]
  obtain r1 ra sx1 where j1: "s1 = enterRoom eng tab1 ?did r1 ra sx1"
    and rooms1: "rooms sx1 roomId = Some ra"
    and map1: "socketToRoom sx1 = (socketToRoom sL1)(sock_id tab1 \<mapsto> roomId)"
    and d1: "rooms sL1 roomId = Some ra \<and> rooms sx1 = rooms sL1 \<and> roomHeap sx1 = roomHeap sL1
            \<or> rooms sL1 roomId = None \<and> ra = nextRoom sL1 \<and> rooms sx1 = (rooms sL1)(roomId \<mapsto> ra)
              \<and> (\<exists>fresh. users fresh = [] \<and> roomHeap sx1 = (roomHeap sL1)(ra := fresh))"
    unfolding s1_def roomId_def sL1_def by blast
  have injL1: "inj_on (rooms sL1) (dom (rooms sL1))"
    unfolding sL1_def by (rule inj_on_shrunk [OF inj]) (rule handleLeaveRoom_rooms)
  have boundL1: "a < nextRoom sL1" if "rooms sL1 rid = Some a" for rid a
    using that bound handleLeaveRoom_rooms [of eng tab1 s rid]
    by (auto simp add: sL1_def handleLeaveRoom_nextRoom)
  have distL1: "distinct (map fst (users (roomHeap sL1 a)))" for a
    unfolding sL1_def using maps by (intro handleLeaveRoom_distinct) simp
  have inj1: "inj_on (rooms s1) (dom (rooms s1))"
  proof -
    have "inj_on (rooms sx1) (dom (rooms sx1))"
      using d1
    proof
      assume "rooms sL1 roomId = Some ra \<and> rooms sx1 = rooms sL1 \<and> roomHeap sx1 = roomHeap sL1"
      with injL1 show ?thesis by simp
    next
      assume "rooms sL1 roomId = None \<and> ra = nextRoom sL1 \<and> rooms sx1 = (rooms sL1)(roomId \<mapsto> ra)
              \<and> (\<exists>fresh. users fresh = [] \<and> roomHeap sx1 = (roomHeap sL1)(ra := fresh))"
      then have "rooms sx1 = (rooms sL1)(roomId \<mapsto> nextRoom sL1)" by simp
      moreover have "inj_on ((rooms sL1)(roomId \<mapsto> nextRoom sL1))
                       (dom ((rooms sL1)(roomId \<mapsto> nextRoom sL1)))"
        by (rule inj_on_fresh [OF injL1]) (rule boundL1)
      ultimately show ?thesis by simp
    qed
    then show ?thesis by (simp add: j1 enterRoom_keeps)
  qed
  have distx1: "distinct (map fst (users (roomHeap sx1 ra)))"
    using d1 distL1 [of ra] by auto
  let ?m1 = "\<lparr>ru_id = sock_userId tab1, ru_name = su_name (sock_user tab1),
             ru_color = su_color (sock_user tab1), ru_avatar = su_avatar (sock_user tab1),
             ru_role = r1, ru_cursor = None, ru_isOnline = True\<rparr>"
  have users1: "users (roomHeap s1 ra) = AList.update ?uid ?m1 (users (roomHeap sx1 ra))"
    by (simp add: j1 enterRoom_room)
  have dist1: "distinct (map fst (users (roomHeap s1 ra)))"
    unfolding users1 by (rule AList.distinct_update [OF distx1])
  have in1: "?uid \<in> fst ` set (users (roomHeap s1 ra))"
    unfolding users1 by (rule update_key_in)
  have room1: "rooms s1 roomId = Some ra" by (simp add: j1 enterRoom_keeps rooms1)
  have sock1: "socketToRoom s1 (sock_id tab1) = Some roomId"
    by (simp add: j1 enterRoom_keeps map1)
  \<comment> \<open>the server the second join starts from\<close>
  have roomc: "rooms c roomId = Some ra" by (simp add: agree room1)
  have sockc: "socketToRoom c (sock_id tab1) = Some roomId" by (simp add: agree sock1)
  have nec: "users (roomHeap c ra) \<noteq> []" using in1 by (auto simp add: agree)
  have injc: "inj_on (rooms c) (dom (rooms c))" using inj1 by (simp add: agree)
  have trackedc: "userSockets c (sock_userId tab2) = Some sockets" using tracked(1) same by simp
  \<comment> \<open>the second join\<close>
  from leave_keeps_shared_room [where eng = eng and socket = tab2,
      OF roomc trackedc tracked(2) diff sockc nec injc]
  have keep: "rooms sL2 roomId = Some ra" "users (roomHeap sL2 ra) = users (roomHeap s1 ra)"
    by (simp_all add: sL2_def agree)
  from join_succeeded [OF ok2 [unfolded s2_def]]
  obtain r2 ra2 sx2 where j2: "s2 = enterRoom eng tab2 ?did r2 ra2 sx2"
    and rooms2: "rooms sx2 roomId = Some ra2"
    and map2: "socketToRoom sx2 = (socketToRoom sL2)(sock_id tab2 \<mapsto> roomId)"
    and us2: "userSockets sx2 = userSockets c"
    and d2: "rooms sL2 roomId = Some ra2 \<and> rooms sx2 = rooms sL2 \<and> roomHeap sx2 = roomHeap sL2
            \<or> rooms sL2 roomId = None \<and> ra2 = nextRoom sL2 \<and> rooms sx2 = (rooms sL2)(roomId \<mapsto> ra2)
              \<and> (\<exists>fresh. users fresh = [] \<and> roomHeap sx2 = (roomHeap sL2)(ra2 := fresh))"
    unfolding s2_def roomId_def sL2_def by blast
  from d2 keep(1) have same_room: "ra2 = ra" "roomHeap sx2 = roomHeap sL2" by auto
  let ?m2 = "\<lparr>ru_id = sock_userId tab2, ru_name = su_name (sock_user tab2),
             ru_color = su_color (sock_user tab2), ru_avatar = su_avatar (sock_user tab2),
             ru_role = r2, ru_cursor = None, ru_isOnline = True\<rparr>"
  have users2: "users (roomHeap s2 ra) = AList.update ?uid ?m2 (users (roomHeap s1 ra))"
    by (simp add: j2 enterRoom_room same_room keep(2) same)
  have keys2: "map fst (users (roomHeap s2 ra)) = map fst (users (roomHeap s1 ra))"
    unfolding users2 using in1 by (simp add: AList.update_keys)
  have one: "length (filter (\<lambda>e. fst e = ?uid) (users (roomHeap s2 ra))) = 1"
  proof (rule one_entry)
    show "distinct (map fst (users (roomHeap s2 ra)))" using dist1 by (simp add: keys2)
    have "fst ` set (users (roomHeap s2 ra)) = fst ` set (users (roomHeap s1 ra))"
      using keys2 by (metis list.set_map)
    with in1 show "?uid \<in> fst ` set (users (roomHeap s2 ra))" by simp
  qed
  have "rooms s2 roomId = Some ra" by (simp add: j2 enterRoom_keeps rooms2 same_room)
  moreover have "socketToRoom s2 (sock_id tab2) = Some roomId"
    by (simp add: j2 enterRoom_keeps map2)
  moreover have "socketToRoom s2 (sock_id tab1) = Some roomId"
    using diff sockc
    by (simp add: j2 enterRoom_keeps map2 sL2_def handleLeaveRoom_socketToRoom)
  moreover have "userSockets s2 ?uid = Some sockets"
    by (simp add: j2 enterRoom_keeps us2 tracked(1))
  ultimately show ?thesis using one keys2 by blast
qed


lemmas join_eval = handleJoinRoom_def handleLeaveRoom_def roomOf_def checkDocumentAccess_def
  getOrCreate_def CRDTDocument_new_def enterRoom_def emit_def Let_def removeFromRoom_def
  userSocketsInRoom_def cleanUpRoom_def saveDocument_def

subsection \<open>Connecting\<close>

lemma trackUserSocket_keeps:
  "rooms (trackUserSocket uid sid s) = rooms s"
  "roomHeap (trackUserSocket uid sid s) = roomHeap s"
  "nextRoom (trackUserSocket uid sid s) = nextRoom s"
  "socketToRoom (trackUserSocket uid sid s) = socketToRoom s"
  "db (trackUserSocket uid sid s) = db s"
  "emitted (trackUserSocket uid sid s) = emitted s"
  by (simp_all add: trackUserSocket_def Let_def)

lemma trackUserSocket_tracks:
  "\<exists>sockets. userSockets (trackUserSocket uid sid s) uid = Some sockets \<and> sid \<in> set sockets
      \<and> (\<forall>old. userSockets s uid = Some old \<longrightarrow> set old \<subseteq> set sockets)"
  by (auto simp add: trackUserSocket_def Let_def split: option.split)

text \<open>Tracking a socket that is tracked already changes nothing.\<close>

lemma handleConnection_again:
  assumes "userSockets s (sock_userId socket) = Some sockets" and "sock_id socket \<in> set sockets"
  shows "handleConnection socket s = s"
  using assms by (simp add: handleConnection_def trackUserSocket_def map_upd_triv)

text \<open>A join that goes through leaves \<open>userSockets\<close> alone.\<close>

lemma join_keeps_userSockets:
  assumes "joinSucceeded s socket (handleJoinRoom eng socket payload s)"
  shows "userSockets (handleJoinRoom eng socket payload s) = userSockets s"
proof -
  from join_succeeded [OF assms]
  obtain r ra sx where
    "handleJoinRoom eng socket payload s = enterRoom eng socket (jp_documentId payload) r ra sx"
    "userSockets sx = userSockets s"
    by blast
  then show ?thesis by (simp add: enterRoom_keeps)
qed


text \<open>
  Claim C7.  A socket of a user connects, so that the \<open>connection\<close> callback runs
  \<open>trackUserSocket\<close> for it, and joins a document; then a second socket of the same user
  connects and joins the same document; both joins go through.  Then the room of the
  document has exactly one roster entry under the user's id: the second join rewrote the
  entry of the first and added none.  Both sockets are mapped to the room by
  \<open>socketToRoom\<close>, and \<open>userSockets\<close> lists both under the user's id, whatever it held before
  the first connected.  The server the first connects to is any well-formed one: no roster
  holds a key twice (they are \<open>Map\<close>s), and distinct room ids name distinct \<open>RoomState\<close>
  objects, all allocated.  The second socket may be tracked there already; connecting is
  then no change, so that the order in which the two connect does not matter.
\<close>

theorem two_tabs_one_member:
  fixes s :: "'d Server" and eng :: "'d Engine" and tab1 tab2 :: Socket and payload :: JoinRoomPayload
  defines "roomId \<equiv> ''doc:'' @ jp_documentId payload"
  defines "c1 \<equiv> handleConnection tab1 s"
  defines "s1 \<equiv> handleJoinRoom eng tab1 payload (handleConnection tab1 s)"
  defines "c2 \<equiv> handleConnection tab2 (handleJoinRoom eng tab1 payload (handleConnection tab1 s))"
  defines "s2 \<equiv> handleJoinRoom eng tab2 payload
                   (handleConnection tab2 (handleJoinRoom eng tab1 payload (handleConnection tab1 s)))"
  assumes same: "sock_userId tab2 = sock_userId tab1"
    and diff: "sock_id tab1 \<noteq> sock_id tab2"
    and maps: "\<forall>a. distinct (map fst (users (roomHeap s a)))"
    and inj: "inj_on (rooms s) (dom (rooms s))"
    and bound: "\<forall>rid a. rooms s rid = Some a \<longrightarrow> a < nextRoom s"
    and ok1: "joinSucceeded c1 tab1 s1"
    and ok2: "joinSucceeded c2 tab2 s2"
  shows "\<exists>ra sockets. rooms s2 roomId = Some ra
            \<and> length (filter (\<lambda>e. fst e = sock_userId tab1) (users (roomHeap s2 ra))) = 1
            \<and> map fst (users (roomHeap s2 ra)) = map fst (users (roomHeap s1 ra))
            \<and> socketToRoom s2 (sock_id tab1) = Some roomId
            \<and> socketToRoom s2 (sock_id tab2) = Some roomId
            \<and> userSockets s2 (sock_userId tab1) = Some sockets
            \<and> sock_id tab1 \<in> set sockets \<and> sock_id tab2 \<in> set sockets"
proof -
  let ?uid = "sock_userId tab1"
  have s1_def': "s1 = handleJoinRoom eng tab1 payload c1" by (simp add: s1_def c1_def)
  have c2_def': "c2 = trackUserSocket ?uid (sock_id tab2) s1"
    by (simp add: c2_def s1_def handleConnection_def same)
  have s2_def': "s2 = handleJoinRoom eng tab2 payload c2" by (simp add: s2_def c2_def)
  from trackUserSocket_tracks [of ?uid "sock_id tab1" s]
  obtain xs where xs: "userSockets c1 ?uid = Some xs" "sock_id tab1 \<in> set xs"
    unfolding c1_def handleConnection_def by blast
  have "userSockets s1 = userSockets c1"
    unfolding s1_def' by (rule join_keeps_userSockets) (rule ok1 [unfolded s1_def'])
  with xs have xs1: "userSockets s1 ?uid = Some xs" by simp
  from trackUserSocket_tracks [of ?uid "sock_id tab2" s1]
  obtain sockets where t: "userSockets c2 ?uid = Some sockets" "sock_id tab2 \<in> set sockets"
    and sub: "\<forall>old. userSockets s1 ?uid = Some old \<longrightarrow> set old \<subseteq> set sockets"
    unfolding c2_def' by blast
  from sub xs1 xs(2) have t1: "sock_id tab1 \<in> set sockets" by auto
  have agree: "rooms c2 = rooms (handleJoinRoom eng tab1 payload c1)"
    "roomHeap c2 = roomHeap (handleJoinRoom eng tab1 payload c1)"
    "socketToRoom c2 = socketToRoom (handleJoinRoom eng tab1 payload c1)"
    by (simp_all add: c2_def' s1_def' trackUserSocket_keeps)
  have kept: "roomHeap c1 = roomHeap s" "rooms c1 = rooms s" "nextRoom c1 = nextRoom s"
    by (simp_all add: c1_def handleConnection_def trackUserSocket_keeps)
  have m: "\<forall>a. distinct (map fst (users (roomHeap c1 a)))" using maps by (simp add: kept)
  have i: "inj_on (rooms c1) (dom (rooms c1))" using inj by (simp add: kept)
  have b: "\<forall>rid a. rooms c1 rid = Some a \<longrightarrow> a < nextRoom c1" using bound by (simp add: kept)
  have o1: "joinSucceeded c1 tab1 (handleJoinRoom eng tab1 payload c1)"
    using ok1 by (simp add: s1_def')
  have o2: "joinSucceeded c2 tab2 (handleJoinRoom eng tab2 payload c2)"
    using ok2 by (simp add: s2_def')
  from two_joins_one_entry [OF same diff t(1) t1 agree m i b o1 o2]
  obtain ra where "rooms s2 roomId = Some ra"
    "length (filter (\<lambda>e. fst e = ?uid) (users (roomHeap s2 ra))) = 1"
    "map fst (users (roomHeap s2 ra)) = map fst (users (roomHeap s1 ra))"
    "socketToRoom s2 (sock_id tab1) = Some roomId"
    "socketToRoom s2 (sock_id tab2) = Some roomId"
    "userSockets s2 ?uid = Some sockets"
    unfolding s1_def' s2_def' roomId_def by blast
  with t1 t(2) show ?thesis by blast
qed


theorem two_tabs_one_member_witness:
  "userSockets freshServer (sock_userId aliceTab1) = None
   \<and> (\<exists>ra sockets.
        rooms (handleJoinRoom demoEngine aliceTab2 joinD1
                 (handleConnection aliceTab2
                    (handleJoinRoom demoEngine aliceTab1 joinD1 (handleConnection aliceTab1 freshServer))))
            (''doc:'' @ jp_documentId joinD1) = Some ra
      \<and> length (filter (\<lambda>e. fst e = sock_userId aliceTab1)
           (users (roomHeap (handleJoinRoom demoEngine aliceTab2 joinD1
                 (handleConnection aliceTab2
                    (handleJoinRoom demoEngine aliceTab1 joinD1 (handleConnection aliceTab1 freshServer))))
              ra))) = 1
      \<and> map fst (users (roomHeap (handleJoinRoom demoEngine aliceTab2 joinD1
                 (handleConnection aliceTab2
                    (handleJoinRoom demoEngine aliceTab1 joinD1 (handleConnection aliceTab1 freshServer))))
              ra))
        = map fst (users (roomHeap
              (handleJoinRoom demoEngine aliceTab1 joinD1 (handleConnection aliceTab1 freshServer)) ra))
      \<and> socketToRoom (handleJoinRoom demoEngine aliceTab2 joinD1
                 (handleConnection aliceTab2
                    (handleJoinRoom demoEngine aliceTab1 joinD1 (handleConnection aliceTab1 freshServer))))
            (sock_id aliceTab1)
        = Some (''doc:'' @ jp_documentId joinD1)
      \<and> socketToRoom (handleJoinRoom demoEngine aliceTab2 joinD1
                 (handleConnection aliceTab2
                    (handleJoinRoom demoEngine aliceTab1 joinD1 (handleConnection aliceTab1 freshServer))))
            (sock_id aliceTab2)
        = Some (''doc:'' @ jp_documentId joinD1)
      \<and> userSockets (handleJoinRoom demoEngine aliceTab2 joinD1
                 (handleConnection aliceTab2
                    (handleJoinRoom demoEngine aliceTab1 joinD1 (handleConnection aliceTab1 freshServer))))
            (sock_userId aliceTab1)
        = Some sockets
      \<and> sock_id aliceTab1 \<in> set sockets \<and> sock_id aliceTab2 \<in> set sockets)"
proof -
  have 0: "userSockets freshServer (sock_userId aliceTab1) = None"
    by (simp add: freshServer_def)
  have 1: "sock_userId aliceTab2 = sock_userId aliceTab1" "sock_id aliceTab1 \<noteq> sock_id aliceTab2"
    by (simp_all add: aliceTab1_def aliceTab2_def)
  have 3: "\<forall>a. distinct (map fst (users (roomHeap freshServer a)))"
    "inj_on (rooms freshServer) (dom (rooms freshServer))"
    "\<forall>rid a. rooms freshServer rid = Some a \<longrightarrow> a < nextRoom freshServer"
    by (simp_all add: freshServer_def lobbyServer_def noRoom_def)
  have 4: "joinSucceeded (handleConnection aliceTab1 freshServer) aliceTab1
             (handleJoinRoom demoEngine aliceTab1 joinD1 (handleConnection aliceTab1 freshServer))"
    by (simp add: joinSucceeded_def join_eval handleConnection_def trackUserSocket_def
        freshServer_def lobbyServer_def aliceTab1_def aliceTab2_def joinD1_def
        demoDb_def demoEngine_def isRoomJoinedFor_def)
  have 5: "joinSucceeded
             (handleConnection aliceTab2
                (handleJoinRoom demoEngine aliceTab1 joinD1 (handleConnection aliceTab1 freshServer)))
             aliceTab2
             (handleJoinRoom demoEngine aliceTab2 joinD1
                (handleConnection aliceTab2
                   (handleJoinRoom demoEngine aliceTab1 joinD1 (handleConnection aliceTab1 freshServer))))"
    by (simp add: joinSucceeded_def join_eval handleConnection_def trackUserSocket_def
        freshServer_def lobbyServer_def aliceTab1_def aliceTab2_def joinD1_def
        demoDb_def demoEngine_def isRoomJoinedFor_def)
  show ?thesis
    by (rule conjI [OF 0 two_tabs_one_member [OF 1 3 4 5]])
qed

subsection \<open>Joining the room one is in\<close>

text \<open>\<open>handleJoinRoom\<close> past the access check.\<close>

lemma handleJoinRoom_granted:
  fixes s :: "'d Server" and eng :: "'d Engine" and socket :: Socket and payload :: JoinRoomPayload
  defines "did \<equiv> jp_documentId payload"
  defines "roomId \<equiv> ''doc:'' @ jp_documentId payload"
  defines "s2 \<equiv> (handleLeaveRoom eng socket s)
      \<lparr>ioRooms := (ioRooms (handleLeaveRoom eng socket s))
          (''doc:'' @ jp_documentId payload :=
             insert (sock_id socket) (ioRooms (handleLeaveRoom eng socket s) (''doc:'' @ jp_documentId payload))),
        socketToRoom := (socketToRoom (handleLeaveRoom eng socket s))
          (sock_id socket \<mapsto> ''doc:'' @ jp_documentId payload)\<rparr>"
  assumes acc: "checkDocumentAccess (db s) (sock_userId socket) (jp_documentId payload) = (True, Some r)"
  shows "handleJoinRoom eng socket payload s =
    (case rooms s2 roomId of
       Some ra \<Rightarrow> enterRoom eng socket did r ra s2
     | None \<Rightarrow>
         (case documents (db s2) did of
            None \<Rightarrow> emit (ToSocket (sock_id socket)) (ERROR ''Document not found'') s2
          | Some row \<Rightarrow>
              (case getOrCreate eng did (content row) s2 of
                 None \<Rightarrow> emit (ToSocket (sock_id socket)) (ERROR ''Failed to join room'') s2
               | Some (a, s3) \<Rightarrow>
                   enterRoom eng socket did r (nextRoom s3)
                     (s3\<lparr>roomHeap := (roomHeap s3)(nextRoom s3 :=
                           \<lparr>documentId = did, users = [], document = a,
                            lastSaveTime = now s3, saveTimeout = None\<rparr>),
                         nextRoom := Suc (nextRoom s3),
                         rooms := (rooms s3)(roomId \<mapsto> nextRoom s3)\<rparr>))))"
  using acc unfolding handleJoinRoom_def Let_def did_def roomId_def s2_def by simp

lemma handleJoinRoom_denied:
  assumes "\<not> (fst (checkDocumentAccess (db s) (sock_userId socket) (jp_documentId payload))
            \<and> snd (checkDocumentAccess (db s) (sock_userId socket) (jp_documentId payload)) \<noteq> None)"
  shows "handleJoinRoom eng socket payload s =
           emit (ToSocket (sock_id socket)) (ERROR ''Access denied to this document'') s"
  using assms
  by (cases "checkDocumentAccess (db s) (sock_userId socket) (jp_documentId payload)")
     (auto simp add: handleJoinRoom_def Let_def split: option.split)

lemma getOrCreate_fresh:
  assumes "documentStore s did = None" and "CRDTDocument_new eng did st = Some c"
  shows "getOrCreate eng did st s =
           Some (nextDoc s,
                 s\<lparr>docHeap := (docHeap s)(nextDoc s := c),
                   nextDoc := Suc (nextDoc s),
                   documentStore := (documentStore s)(did \<mapsto> nextDoc s)\<rparr>)"
  using assms by (simp add: getOrCreate_def)

lemma cleanUpRoom_more:
  "nextDoc (cleanUpRoom eng roomId ra s) = nextDoc s"
  "now (cleanUpRoom eng roomId ra s) = now s"
  "userSockets (cleanUpRoom eng roomId ra s) = userSockets s"
  by (simp_all add: cleanUpRoom_def Let_def remove_doc_def clearTimeout_def saveDocument_keeps
      split: option.split)

lemma removeFromRoom_nextDoc: "nextDoc (removeFromRoom socket roomId ra s) = nextDoc s"
  by (simp add: removeFromRoom_def Let_def emit_def)


text \<open>
  Claim C9.  \<open>handleJoinRoom\<close> calls \<open>handleLeaveRoom\<close> whatever room the socket is in.  When
  the socket is mapped to the room of the very document it joins, no other socket of its
  user is mapped to it and the user is the only roster entry, the join first saves the room's
  document (the row gets its encoding and a version one higher, one operation record is
  appended), clears the room's timer, and removes document and room; then, the engine
  accepting the bytes just stored, it builds a new \<open>CRDTDocument\<close> from the row and a new
  \<open>RoomState\<close> at fresh addresses, with the user as its one member, no timer, and
  \<open>lastSaveTime\<close> the time of the join.  The events, in order: \<open>USER_LEFT\<close>, \<open>DOCUMENT_SAVED\<close>,
  \<open>ROOM_JOINED\<close> with the reloaded state, \<open>USER_JOINED\<close>.
\<close>

theorem rejoin_rebuilds_room:
  fixes s :: "'d Server" and eng :: "'d Engine" and socket :: Socket and payload :: JoinRoomPayload
    and ra :: nat and r :: Role
  defines "did \<equiv> jp_documentId payload"
  defines "roomId \<equiv> ''doc:'' @ jp_documentId payload"
  defines "uid \<equiv> sock_userId socket"
  defines "bytes \<equiv> getState eng (docHeap s (document (roomHeap s ra)))"
  defines "me \<equiv> \<lparr>ru_id = sock_userId socket, ru_name = su_name (sock_user socket),
                  ru_color = su_color (sock_user socket), ru_avatar = su_avatar (sock_user socket),
                  ru_role = r, ru_cursor = None, ru_isOnline = True\<rparr>"
  defines "s' \<equiv> handleJoinRoom eng socket payload s"
  assumes joined: "roomOf s (sock_id socket) = Some roomId"
    and resident: "rooms s roomId = Some ra"
    and roomdoc: "documentId (roomHeap s ra) = did"
    and access: "checkDocumentAccess (db s) uid did = (True, Some r)"
    and row: "documents (db s) did = Some row"
    and only: "userSocketsInRoom s socket roomId = []"
    and sole: "AList.delete uid (users (roomHeap s ra)) = []"
    and reload: "CRDTDocument_new eng did (Some bytes) = Some c"
  shows "documents (db s') = (documents (db s))(did \<mapsto>
           row\<lparr>content := Some bytes, version := version row + 1, updatedAt := now s\<rparr>)
       \<and> operations (db s') = operations (db s) @
           [\<lparr>op_documentId = did, op_userId = ''system'', op_data = bytes,
             op_version = version row + 1, op_createdAt = now s\<rparr>]
       \<and> timers s' = filter (\<lambda>(i, tm). Some i \<noteq> saveTimeout (roomHeap s ra)) (timers s)
       \<and> rooms s' = (rooms s)(roomId \<mapsto> nextRoom s)
       \<and> roomHeap s' (nextRoom s) =
           \<lparr>documentId = did, users = [(uid, me)], document = nextDoc s,
            lastSaveTime = now s, saveTimeout = None\<rparr>
       \<and> documentStore s' = (documentStore s)(did \<mapsto> nextDoc s)
       \<and> docHeap s' (nextDoc s) = c
       \<and> socketToRoom s' = socketToRoom s
       \<and> emitted s' = emitted s @
           [(ToOthers roomId (sock_id socket), USER_LEFT uid),
            (ToRoom roomId, DOCUMENT_SAVED did (now s)),
            (ToSocket (sock_id socket),
             ROOM_JOINED
               \<lparr>rj_documentId = did,
                rj_document = \<lparr>di_id = did, di_title = title row, di_version = version row + 1\<rparr>,
                rj_state = getStateArray eng c,
                rj_users = [me],
                rj_role = r\<rparr>),
            (ToOthers roomId (sock_id socket), USER_JOINED me)]"
proof -
  let ?sid = "sock_id socket"
  have rid: "roomId = ''doc:'' @ did" by (simp add: roomId_def did_def)
  define sR where "sR = removeFromRoom socket roomId ra s"
  define sL where "sL = handleLeaveRoom eng socket s"
  have empty: "users (roomHeap sR ra) = []"
    using only sole by (simp add: sR_def removeFromRoom_users uid_def)
  have sL: "sL = cleanUpRoom eng roomId ra sR"
    unfolding sL_def sR_def using empty [unfolded sR_def]
    by (simp add: leave_resident [OF joined resident])
  have sR: "db sR = db s" "docHeap sR = docHeap s" "now sR = now s" "timers sR = timers s"
    "rooms sR = rooms s" "documentStore sR = documentStore s" "nextRoom sR = nextRoom s"
    "nextDoc sR = nextDoc s" "documentId (roomHeap sR ra) = did"
    "document (roomHeap sR ra) = document (roomHeap s ra)"
    "saveTimeout (roomHeap sR ra) = saveTimeout (roomHeap s ra)"
    "socketToRoom sR = (socketToRoom s)(?sid := None)"
    "emitted sR = emitted s @ [(ToOthers roomId ?sid, USER_LEFT uid)]"
    by (simp_all add: sR_def removeFromRoom_keeps removeFromRoom_nextRoom removeFromRoom_nextDoc
        removeFromRoom_emitted only roomdoc uid_def)
  let ?row' = "row\<lparr>content := Some bytes, version := version row + 1, updatedAt := now s\<rparr>"
  have L_docs: "documents (db sL) = (documents (db s))(did \<mapsto> ?row')"
    by (simp add: sL cleanUpRoom_facts saveDocument_documents sR row bytes_def)
  have L_ops: "operations (db sL) = operations (db s) @
           [\<lparr>op_documentId = did, op_userId = ''system'', op_data = bytes,
             op_version = version row + 1, op_createdAt = now s\<rparr>]"
    by (simp add: sL cleanUpRoom_facts saveDocument_operations sR row bytes_def)
  have L_emitted: "emitted sL = emitted s @
      [(ToOthers roomId ?sid, USER_LEFT uid), (ToRoom roomId, DOCUMENT_SAVED did (now s))]"
    by (simp add: sL cleanUpRoom_facts saveDocument_emitted sR row rid)
  have L: "rooms sL = (rooms s)(roomId := None)"
    "documentStore sL = (documentStore s)(did := None)"
    "timers sL = filter (\<lambda>(i, tm). Some i \<noteq> saveTimeout (roomHeap s ra)) (timers s)"
    "socketToRoom sL = (socketToRoom s)(?sid := None)"
    "nextRoom sL = nextRoom s" "nextDoc sL = nextDoc s" "now sL = now s"
    by (simp_all add: sL cleanUpRoom_facts cleanUpRoom_nextRoom cleanUpRoom_more sR)
  define s2 where "s2 = sL\<lparr>ioRooms := (ioRooms sL)(roomId := insert ?sid (ioRooms sL roomId)),
                            socketToRoom := (socketToRoom sL)(?sid \<mapsto> roomId)\<rparr>"
  define s3 where "s3 = s2\<lparr>docHeap := (docHeap s2)(nextDoc s2 := c),
                   nextDoc := Suc (nextDoc s2),
                   documentStore := (documentStore s2)(did \<mapsto> nextDoc s2)\<rparr>"
  define s4 where "s4 = s3\<lparr>roomHeap := (roomHeap s3)(nextRoom s3 :=
                           \<lparr>documentId = did, users = [], document = nextDoc s2,
                            lastSaveTime = now s3, saveTimeout = None\<rparr>),
                         nextRoom := Suc (nextRoom s3),
                         rooms := (rooms s3)(roomId \<mapsto> nextRoom s3)\<rparr>"
  have noroom: "rooms s2 roomId = None" by (simp add: s2_def L)
  have row2: "documents (db s2) did = Some ?row'" by (simp add: s2_def L_docs)
  have goc: "getOrCreate eng did (content ?row') s2 = Some (nextDoc s2, s3)"
    unfolding s3_def by (rule getOrCreate_fresh) (simp_all add: s2_def L reload)
  have s': "s' = enterRoom eng socket did r (nextRoom s3) s4"
    unfolding s'_def
    using handleJoinRoom_granted [OF access [unfolded uid_def did_def], of eng]
      noroom row2 goc
    by (simp add: did_def roomId_def s2_def sL_def s4_def)
  have n: "nextRoom s3 = nextRoom s" "nextDoc s2 = nextDoc s" "now s3 = now s"
    by (simp_all add: s3_def s2_def L)
  have mapped: "socketToRoom s ?sid = Some roomId"
    using joined by (auto simp add: roomOf_def split: option.splits if_splits)
  have "(socketToRoom s)(?sid \<mapsto> roomId) = socketToRoom s"
    using mapped by (auto simp add: fun_eq_iff)
  then have sock: "socketToRoom s4 = socketToRoom s"
    by (simp add: s4_def s3_def s2_def L)
  have e4: "emitted s4 = emitted sL" "documents (db s4) did = Some ?row'"
    "db s4 = db sL" "users (roomHeap s4 (nextRoom s)) = []"
    "docHeap s4 (document (roomHeap s4 (nextRoom s))) = c"
    by (simp_all add: s4_def s3_def s2_def L_docs L)
  have c1: "documents (db s') = (documents (db s))(did \<mapsto> ?row')"
    by (simp add: s' enterRoom_keeps e4 L_docs)
  have c2: "operations (db s') = operations (db s) @
           [\<lparr>op_documentId = did, op_userId = ''system'', op_data = bytes,
             op_version = version row + 1, op_createdAt = now s\<rparr>]"
    by (simp add: s' enterRoom_keeps e4 L_ops)
  have c3: "timers s' = filter (\<lambda>(i, tm). Some i \<noteq> saveTimeout (roomHeap s ra)) (timers s)"
    by (simp add: s' enterRoom_keeps s4_def s3_def s2_def L)
  have c4: "rooms s' = (rooms s)(roomId \<mapsto> nextRoom s)"
    by (simp add: s' enterRoom_keeps s4_def s3_def s2_def L)
  have c5: "roomHeap s' (nextRoom s) =
           \<lparr>documentId = did, users = [(uid, me)], document = nextDoc s,
            lastSaveTime = now s, saveTimeout = None\<rparr>"
    by (simp add: s' enterRoom_room s4_def s3_def s2_def L uid_def me_def)
  have c6: "documentStore s' = (documentStore s)(did \<mapsto> nextDoc s)"
    by (simp add: s' enterRoom_keeps s4_def s3_def s2_def L)
  have c7: "docHeap s' (nextDoc s) = c"
    by (simp add: s' enterRoom_keeps s4_def s3_def s2_def L)
  have c8: "socketToRoom s' = socketToRoom s"
    by (simp add: s' enterRoom_keeps sock)
  have c9: "emitted s' = emitted s @
           [(ToOthers roomId (sock_id socket), USER_LEFT uid),
            (ToRoom roomId, DOCUMENT_SAVED did (now s)),
            (ToSocket (sock_id socket),
             ROOM_JOINED
               \<lparr>rj_documentId = did,
                rj_document = \<lparr>di_id = did, di_title = title row, di_version = version row + 1\<rparr>,
                rj_state = getStateArray eng c,
                rj_users = [me],
                rj_role = r\<rparr>),
            (ToOthers roomId (sock_id socket), USER_JOINED me)]"
    by (simp add: s' enterRoom_emitted n e4 L_docs L_emitted uid_def me_def rid)
  show ?thesis
    by (intro conjI) (rule c1 c2 c3 c4 c5 c6 c7 c8 c9)+
qed


theorem rejoin_rebuilds_room_witness:
  "documents (db (handleJoinRoom demoEngine aliceTab1 joinD1 soloServer)) ''d1'' =
     Some \<lparr>title = ''Notes'', content = Some [1, 2, 7], ownerId = ''u1'', isPublic = False,
           version = 4, updatedAt = 5000\<rparr>
   \<and> length (operations (db (handleJoinRoom demoEngine aliceTab1 joinD1 soloServer))) = 1
   \<and> timers (handleJoinRoom demoEngine aliceTab1 joinD1 soloServer) = []
   \<and> rooms soloServer ''doc:d1'' = Some 0
   \<and> rooms (handleJoinRoom demoEngine aliceTab1 joinD1 soloServer) ''doc:d1'' = Some 1
   \<and> roomHeap (handleJoinRoom demoEngine aliceTab1 joinD1 soloServer) 1 =
       \<lparr>documentId = ''d1'', users = [(''u1'', member alice OWNER)], document = 1,
        lastSaveTime = 5000, saveTimeout = None\<rparr>
   \<and> documentStore (handleJoinRoom demoEngine aliceTab1 joinD1 soloServer) ''d1'' = Some 1
   \<and> docHeap (handleJoinRoom demoEngine aliceTab1 joinD1 soloServer) 1 =
       \<lparr>doc = [[1, 2, 7]], crdt_documentId = ''d1'', destroyed = False\<rparr>"
proof -
  have 1: "roomOf soloServer (sock_id aliceTab1) = Some (''doc:'' @ jp_documentId joinD1)"
    by (simp add: roomOf_def soloServer_def demoServer_def aliceTab1_def joinD1_def)
  have 2: "rooms soloServer (''doc:'' @ jp_documentId joinD1) = Some 0"
    by (simp add: soloServer_def demoServer_def joinD1_def)
  have 3: "documentId (roomHeap soloServer 0) = jp_documentId joinD1"
    by (simp add: soloServer_def demoServer_def joinD1_def)
  have 4: "checkDocumentAccess (db soloServer) (sock_userId aliceTab1) (jp_documentId joinD1) =
             (True, Some OWNER)"
    by (simp add: checkDocumentAccess_def soloServer_def demoServer_def demoDb_def aliceTab1_def
        joinD1_def)
  have 5: "documents (db soloServer) (jp_documentId joinD1) =
             Some \<lparr>title = ''Notes'', content = Some [1, 2], ownerId = ''u1'', isPublic = False,
                   version = 3, updatedAt = 1000\<rparr>"
    by (simp add: soloServer_def demoServer_def demoDb_def joinD1_def)
  have 6: "userSocketsInRoom soloServer aliceTab1 (''doc:'' @ jp_documentId joinD1) = []"
    by (simp add: userSocketsInRoom_def soloServer_def demoServer_def aliceTab1_def joinD1_def)
  have 7: "AList.delete (sock_userId aliceTab1) (users (roomHeap soloServer 0)) = []"
    by (simp add: soloServer_def demoServer_def aliceTab1_def AList.delete_eq)
  have 8: "CRDTDocument_new demoEngine (jp_documentId joinD1)
             (Some (getState demoEngine (docHeap soloServer (document (roomHeap soloServer 0))))) =
           Some \<lparr>doc = [[1, 2, 7]], crdt_documentId = ''d1'', destroyed = False\<rparr>"
    by (simp add: CRDTDocument_new_def getState_def demoEngine_def soloServer_def demoServer_def
        joinD1_def)
  have e: "jp_documentId joinD1 = ''d1''" "now soloServer = 5000" "operations (db soloServer) = []"
    "timers soloServer = [(0, \<lparr>deadline = 6000, target = 0\<rparr>)]"
    "saveTimeout (roomHeap soloServer 0) = Some 0" "nextRoom soloServer = 1" "nextDoc soloServer = 1"
    "getState demoEngine (docHeap soloServer (document (roomHeap soloServer 0))) = [1, 2, 7]"
    "sock_userId aliceTab1 = ''u1''" "sock_user aliceTab1 = alice"
    by (simp_all add: joinD1_def soloServer_def demoServer_def demoDb_def getState_def demoEngine_def
        aliceTab1_def)
  have r: "rooms soloServer ''doc:d1'' = Some 0" by (simp add: soloServer_def demoServer_def)
  from rejoin_rebuilds_room [OF 1 2 3 4 5 6 7 8] r
  show ?thesis by (simp add: e member_def alice_def)
qed


subsection \<open>Joins that fail\<close>

lemma enterRoom_succeeds:
  assumes "documents (db sx) did = Some info" and "emitted sx = emitted s @ evs"
  shows "joinSucceeded s socket (enterRoom eng socket did r ra sx)"
  using assms by (simp add: joinSucceeded_def enterRoom_emitted isRoomJoinedFor_def)

text \<open>
  Claim C3, as the code has it.  A join that does not go through and was denied access
  changes nothing: the state returned is the state given with the access error appended
  for the caller.  A join that passed the access check and then did not go through (the
  document could not be loaded) has run \<open>handleLeaveRoom\<close>: registry, rooms, document store,
  documents, database and timers are exactly those the leave returned, the tracked sockets
  are unchanged, and the caller gets one error.
\<close>

theorem failed_join_effects:
  fixes s :: "'d Server" and eng :: "'d Engine" and socket :: Socket and payload :: JoinRoomPayload
  defines "acc \<equiv> checkDocumentAccess (db s) (sock_userId socket) (jp_documentId payload)"
  defines "sL \<equiv> handleLeaveRoom eng socket s"
  defines "s' \<equiv> handleJoinRoom eng socket payload s"
  assumes failed: "\<not> joinSucceeded s socket (handleJoinRoom eng socket payload s)"
  shows "if fst acc \<and> snd acc \<noteq> None then
           rooms s' = rooms sL \<and> roomHeap s' = roomHeap sL \<and> documentStore s' = documentStore sL
         \<and> docHeap s' = docHeap sL \<and> db s' = db sL \<and> timers s' = timers sL
         \<and> userSockets s' = userSockets s
         \<and> (\<exists>m. emitted s' = emitted sL @ [(ToSocket (sock_id socket), ERROR m)])
         else s' = emit (ToSocket (sock_id socket)) (ERROR ''Access denied to this document'') s"
proof (cases "fst acc \<and> snd acc \<noteq> None")
  case False
  have "s' = emit (ToSocket (sock_id socket)) (ERROR ''Access denied to this document'') s"
    unfolding s'_def using False [unfolded acc_def] by (rule handleJoinRoom_denied)
  then show ?thesis by (subst if_not_P [OF False])
next
  case True
  let ?sid = "sock_id socket"
  let ?did = "jp_documentId payload"
  let ?roomId = "''doc:'' @ jp_documentId payload"
  from True obtain r where acc: "checkDocumentAccess (db s) (sock_userId socket) ?did = (True, Some r)"
    unfolding acc_def
    by (cases "checkDocumentAccess (db s) (sock_userId socket) ?did") auto
  define s2 where "s2 = sL\<lparr>ioRooms := (ioRooms sL)(?roomId := insert ?sid (ioRooms sL ?roomId)),
                            socketToRoom := (socketToRoom sL)(?sid \<mapsto> ?roomId)\<rparr>"
  note unfold = handleJoinRoom_granted [OF acc, of eng, folded sL_def, folded s2_def, folded s'_def]
  obtain evs where evs: "emitted sL = emitted s @ evs"
    unfolding sL_def using handleLeaveRoom_emitted [of eng socket s ?sid] by blast
  have rowL: "documents (db sL) ?did \<noteq> None"
    unfolding sL_def by (rule handleLeaveRoom_row) (rule checkDocumentAccess_row [OF acc])
  then obtain info where infoL: "documents (db sL) ?did = Some info"
    by auto
  then have info: "documents (db s2) ?did = Some info"
    by (simp add: s2_def)
  have us: "userSockets sL = userSockets s"
    by (simp add: sL_def handleLeaveRoom_userSockets)
  have failed': "\<not> joinSucceeded s socket s'" using failed by (simp add: s'_def)
  have goal: "rooms s' = rooms sL \<and> roomHeap s' = roomHeap sL \<and> documentStore s' = documentStore sL
         \<and> docHeap s' = docHeap sL \<and> db s' = db sL \<and> timers s' = timers sL
         \<and> userSockets s' = userSockets s
         \<and> (\<exists>m. emitted s' = emitted sL @ [(ToSocket ?sid, ERROR m)])"
    if "s' = emit (ToSocket ?sid) (ERROR m) s2" for m
    using that by (simp add: emit_def s2_def us)
  have ?thesis if "rooms s' = rooms sL \<and> roomHeap s' = roomHeap sL \<and> documentStore s' = documentStore sL
         \<and> docHeap s' = docHeap sL \<and> db s' = db sL \<and> timers s' = timers sL
         \<and> userSockets s' = userSockets s
         \<and> (\<exists>m. emitted s' = emitted sL @ [(ToSocket ?sid, ERROR m)])"
    by (subst if_P [OF True]) (rule that)
  moreover have "rooms s' = rooms sL \<and> roomHeap s' = roomHeap sL \<and> documentStore s' = documentStore sL
         \<and> docHeap s' = docHeap sL \<and> db s' = db sL \<and> timers s' = timers sL
         \<and> userSockets s' = userSockets s
         \<and> (\<exists>m. emitted s' = emitted sL @ [(ToSocket ?sid, ERROR m)])"
  proof (cases "rooms s2 ?roomId")
    case (Some ra)
    with unfold have "s' = enterRoom eng socket ?did r ra s2" by simp
    moreover have "joinSucceeded s socket (enterRoom eng socket ?did r ra s2)"
      by (rule enterRoom_succeeds [OF info]) (simp add: s2_def evs)
    ultimately show ?thesis using failed' by simp
  next
    case None
    show ?thesis
    proof (cases "getOrCreate eng ?did (content info) s2")
      case None
      with \<open>rooms s2 ?roomId = None\<close> info unfold
      have "s' = emit (ToSocket ?sid) (ERROR ''Failed to join room'') s2" by simp
      then show ?thesis by (rule goal)
    next
      case (Some p)
      obtain a s3 where p: "p = (a, s3)" by (cases p)
      note k = getOrCreate_keeps [OF Some [unfolded p]]
      let ?sx = "s3\<lparr>roomHeap := (roomHeap s3)(nextRoom s3 :=
                           \<lparr>documentId = ?did, users = [], document = a,
                            lastSaveTime = now s3, saveTimeout = None\<rparr>),
                         nextRoom := Suc (nextRoom s3),
                         rooms := (rooms s3)(?roomId \<mapsto> nextRoom s3)\<rparr>"
      have "s' = enterRoom eng socket ?did r (nextRoom s3) ?sx"
        using unfold \<open>rooms s2 ?roomId = None\<close> info Some p by simp
      moreover have "joinSucceeded s socket (enterRoom eng socket ?did r (nextRoom s3) ?sx)"
        by (rule enterRoom_succeeds [where info = info and evs = evs])
           (simp_all add: k infoL s2_def evs)
      ultimately show ?thesis using failed' by simp
    qed
  qed
  ultimately show ?thesis .
qed


lemmas leave_eval = clearTimeout_def remove_doc_def getState_def getDocumentVersion_def
  SNAPSHOT_INTERVAL_MS_def

theorem failed_join_effects_witness:
  "handleJoinRoom demoEngine bobTab joinD2 demoServer =
     emit (ToSocket (sock_id bobTab)) (ERROR ''Access denied to this document'') demoServer
   \<and> rooms (handleJoinRoom demoEngine aliceTab1 joinD2 soloServer) =
       rooms (handleLeaveRoom demoEngine aliceTab1 soloServer)
   \<and> roomHeap (handleJoinRoom demoEngine aliceTab1 joinD2 soloServer) =
       roomHeap (handleLeaveRoom demoEngine aliceTab1 soloServer)
   \<and> documentStore (handleJoinRoom demoEngine aliceTab1 joinD2 soloServer) =
       documentStore (handleLeaveRoom demoEngine aliceTab1 soloServer)
   \<and> db (handleJoinRoom demoEngine aliceTab1 joinD2 soloServer) =
       db (handleLeaveRoom demoEngine aliceTab1 soloServer)
   \<and> timers (handleJoinRoom demoEngine aliceTab1 joinD2 soloServer) =
       timers (handleLeaveRoom demoEngine aliceTab1 soloServer)"
proof -
  have a1: "\<not> joinSucceeded demoServer bobTab (handleJoinRoom demoEngine bobTab joinD2 demoServer)"
    by (simp add: joinSucceeded_def join_eval demoServer_def bobTab_def joinD2_def demoDb_def
        isRoomJoinedFor_def)
  have a2: "checkDocumentAccess (db demoServer) (sock_userId bobTab) (jp_documentId joinD2) = (False, None)"
    by (simp add: checkDocumentAccess_def demoServer_def bobTab_def joinD2_def demoDb_def)
  have b1: "\<not> joinSucceeded soloServer aliceTab1 (handleJoinRoom demoEngine aliceTab1 joinD2 soloServer)"
    by (simp add: joinSucceeded_def join_eval leave_eval soloServer_def demoServer_def aliceTab1_def
        joinD2_def demoDb_def demoEngine_def isRoomJoinedFor_def)
  have b2: "checkDocumentAccess (db soloServer) (sock_userId aliceTab1) (jp_documentId joinD2) =
              (True, Some EDITOR)"
    by (simp add: checkDocumentAccess_def soloServer_def demoServer_def aliceTab1_def joinD2_def
        demoDb_def)
  from failed_join_effects [OF a1] failed_join_effects [OF b1]
  show ?thesis by (simp add: a2 b2)
qed

text \<open>
  Claim C3 as stated does not hold of a join that fails after the access check.  Alice,
  alone in the room of \<open>d1\<close>, joins \<open>d2\<close>, whose stored content the engine rejects: the join
  reports "Failed to join room", and by then the room of \<open>d1\<close> has been saved and removed
  with her roster entry and its document, and her socket is mapped to the room of \<open>d2\<close>,
  which does not exist.
\<close>

theorem failed_join_counterexample:
  "\<not> joinSucceeded soloServer aliceTab1 (handleJoinRoom demoEngine aliceTab1 joinD2 soloServer)
   \<and> emitted (handleJoinRoom demoEngine aliceTab1 joinD2 soloServer) =
       [(ToOthers ''doc:d1'' ''s1'', USER_LEFT ''u1''),
        (ToRoom ''doc:d1'', DOCUMENT_SAVED ''d1'' 5000),
        (ToSocket ''s1'', ERROR ''Failed to join room'')]
   \<and> rooms soloServer ''doc:d1'' = Some 0
   \<and> rooms (handleJoinRoom demoEngine aliceTab1 joinD2 soloServer) ''doc:d1'' = None
   \<and> users (roomHeap soloServer 0) = [(''u1'', member alice OWNER)]
   \<and> users (roomHeap (handleJoinRoom demoEngine aliceTab1 joinD2 soloServer) 0) = []
   \<and> documentStore soloServer ''d1'' = Some 0
   \<and> documentStore (handleJoinRoom demoEngine aliceTab1 joinD2 soloServer) ''d1'' = None
   \<and> socketToRoom soloServer ''s1'' = Some ''doc:d1''
   \<and> socketToRoom (handleJoinRoom demoEngine aliceTab1 joinD2 soloServer) ''s1'' = Some ''doc:d2''
   \<and> rooms (handleJoinRoom demoEngine aliceTab1 joinD2 soloServer) ''doc:d2'' = None"
  by (simp add: joinSucceeded_def join_eval leave_eval soloServer_def demoServer_def aliceTab1_def
      joinD2_def demoDb_def demoEngine_def isRoomJoinedFor_def AList.delete_eq)

subsection \<open>Snapshots\<close>

text \<open>
  What \<open>saveDocument\<close> does about snapshots: one is written exactly when the row is there
  and more than \<open>SNAPSHOT_INTERVAL_MS\<close> has elapsed since the room's \<open>lastSaveTime\<close>, and
  every save that writes the row sets \<open>lastSaveTime\<close> to the time of the save.
\<close>

lemma saveDocument_snapshots:
  "snapshots (db (saveDocument eng ra s)) =
     (case documents (db s) (documentId (roomHeap s ra)) of
        None \<Rightarrow> snapshots (db s)
      | Some row \<Rightarrow>
          if now s - lastSaveTime (roomHeap s ra) > SNAPSHOT_INTERVAL_MS
          then snapshots (db s) @
                 [\<lparr>sn_documentId = documentId (roomHeap s ra),
                   sn_data = getState eng (docHeap s (document (roomHeap s ra))),
                   sn_version = version row + 1, sn_createdAt = now s\<rparr>]
          else snapshots (db s))
   \<and> lastSaveTime (roomHeap (saveDocument eng ra s) ra) =
     (case documents (db s) (documentId (roomHeap s ra)) of
        None \<Rightarrow> lastSaveTime (roomHeap s ra)
      | Some row \<Rightarrow> now s)"
  by (simp add: saveDocument_def Let_def emit_def getDocumentVersion_def split: option.split)

lemmas save_eval = saveDocument_def Let_def emit_def getDocumentVersion_def getState_def
  SNAPSHOT_INTERVAL_MS_def

text \<open>
  Claim C4.  A save writes a snapshot if and only if more than the snapshot interval has
  elapsed since the last snapshot was written, measured from that snapshot and not from
  the last save.  \<open>saveDocument\<close> does not do this: it measures from \<open>lastSaveTime\<close>, which
  every save resets.  The room of \<open>d1\<close>, last saved at 1000, is saved at 70000, 120000 and
  170000.  The first save writes a snapshot, the only one of the document.  At the third,
  100000 have elapsed since that snapshot, more than the interval of 60000, so a snapshot
  is due; the save writes the row and no snapshot, because the second save was 50000
  before.
\<close>

theorem snapshot_overdue_not_written:
  "lastSaveTime (roomHeap demoServer 0) = 1000
   \<and> map sn_createdAt (snapshots (db snapRun1)) = [70000]
   \<and> lastSnapshotAt (db snapRun2) ''d1'' = Some 70000
   \<and> lastSaveTime (roomHeap snapRun2 0) = 120000
   \<and> snapshotDue_spec 70000 170000
   \<and> snapRun3 = saveDocument demoEngine 0 (snapRun2\<lparr>now := 170000\<rparr>)
   \<and> documents (db snapRun3) ''d1'' \<noteq> documents (db snapRun2) ''d1''
   \<and> map_option updatedAt (documents (db snapRun3) ''d1'') = Some 170000
   \<and> snapshots (db snapRun3) = snapshots (db snapRun2)
   \<and> map sn_createdAt (snapshots (db snapRun3)) = [70000]"
  by (simp add: snapRun3_def snapRun2_def snapRun1_def save_eval demoServer_def demoDb_def demoEngine_def
      lastSnapshotAt_def snapshotDue_spec_def)

subsection \<open>Debounced saving\<close>

text \<open>A timer on another document's room: its save leaves this document alone.\<close>

lemma fire_other:
  assumes "documentId (roomHeap s (target (snd e))) \<noteq> did"
  shows "documents (db (fire eng e s)) did = documents (db s) did"
    and "operationsOn (db (fire eng e s)) did = operationsOn (db s) did"
    and "documentId (roomHeap s ra) = did \<Longrightarrow> roomHeap (fire eng e s) ra = roomHeap s ra"
  using assms
  by (auto simp add: fire_def saveDocument_def Let_def emit_def operationsOn_def split: option.split)

lemma fold_fire_other:
  assumes "\<forall>e \<in> set es. documentId (roomHeap s (target (snd e))) \<noteq> did"
  shows "documents (db (fold (fire eng) es s)) did = documents (db s) did
       \<and> operationsOn (db (fold (fire eng) es s)) did = operationsOn (db s) did
       \<and> (documentId (roomHeap s ra) = did \<longrightarrow> roomHeap (fold (fire eng) es s) ra = roomHeap s ra)"
  using assms
proof (induction es arbitrary: s)
  case Nil
  then show ?case by simp
next
  case (Cons e es)
  have e: "documentId (roomHeap s (target (snd e))) \<noteq> did" using Cons.prems by simp
  have rest: "\<forall>x \<in> set es. documentId (roomHeap (fire eng e s) (target (snd x))) \<noteq> did"
    using Cons.prems by (simp add: fire_keeps)
  from Cons.IH [OF rest] fire_other [where eng = eng, OF e] show ?case
    by (simp add: fire_keeps)
qed

text \<open>The timer of the room fires: one save of the document, whatever else is due.\<close>

lemma fire_own:
  assumes "documentId (roomHeap s ra) = did" and "documents (db s) did = Some row"
    and "target (snd e) = ra"
  shows "map_option version (documents (db (fire eng e s)) did) = Some (version row + 1)"
    and "map_option content (documents (db (fire eng e s)) did) =
           Some (Some (getState eng (docHeap s (document (roomHeap s ra)))))"
    and "length (operationsOn (db (fire eng e s)) did) = Suc (length (operationsOn (db s) did))"
  using assms
  by (simp_all add: fire_def saveDocument_def Let_def emit_def operationsOn_def)

lemma fold_fire_one:
  assumes "filter (\<lambda>e. documentId (roomHeap s (target (snd e))) = did) es = [(h, tm)]"
    and "target tm = ra" and "documents (db s) did = Some row"
  shows "map_option version (documents (db (fold (fire eng) es s)) did) = Some (version row + 1)
       \<and> map_option content (documents (db (fold (fire eng) es s)) did) =
           Some (Some (getState eng (docHeap s (document (roomHeap s ra)))))
       \<and> length (operationsOn (db (fold (fire eng) es s)) did) = Suc (length (operationsOn (db s) did))"
  using assms
proof (induction es arbitrary: s)
  case Nil
  then show ?case by simp
next
  case (Cons e es)
  show ?case
  proof (cases "documentId (roomHeap s (target (snd e))) = did")
    case True
    with Cons.prems(1) have e: "e = (h, tm)"
      and rest: "filter (\<lambda>e. documentId (roomHeap s (target (snd e))) = did) es = []"
      by simp_all
    have own: "documentId (roomHeap s ra) = did" using True e Cons.prems(2) by simp
    have tgt: "target (snd e) = ra" using e Cons.prems(2) by simp
    have others: "\<forall>x \<in> set es. documentId (roomHeap (fire eng e s) (target (snd x))) \<noteq> did"
      using rest by (simp add: fire_keeps filter_empty_conv)
    from fold_fire_other [where eng = eng, OF others] fire_own [where eng = eng, OF own Cons.prems(3) tgt]
    show ?thesis by simp
  next
    case False
    with Cons.prems(1)
    have rest: "filter (\<lambda>x. documentId (roomHeap (fire eng e s) (target (snd x))) = did) es = [(h, tm)]"
      by (simp add: fire_keeps)
    have row: "documents (db (fire eng e s)) did = Some row"
      using fire_other(1) [where eng = eng, OF False] Cons.prems(3) by simp
    from Cons.IH [OF rest Cons.prems(2) row] fire_other(2) [where eng = eng, OF False]
    show ?thesis by (simp add: fire_keeps)
  qed
qed


lemma fold_fire_now:
  assumes "\<forall>e \<in> set es. deadline (snd e) \<le> t"
  shows "max (now (fold (fire eng) es s)) t = max (now s) t"
  using assms
proof (induction es arbitrary: s)
  case Nil
  then show ?case by simp
next
  case (Cons e es)
  then have "max (now (fold (fire eng) es (fire eng e s))) t = max (now (fire eng e s)) t"
    by simp
  also have "now (fire eng e s) = max (now s) (deadline (snd e))"
    by (simp add: fire_def saveDocument_keeps)
  finally show ?case using Cons.prems by (simp add: max_def)
qed

lemma advance_now: "now (advance eng t s) = max (now s) t"
proof -
  have "\<forall>e \<in> set (sort_key (\<lambda>e. deadline (snd e)) (filter (\<lambda>e. deadline (snd e) \<le> t) (timers s))).
          deadline (snd e) \<le> t"
    by simp
  from fold_fire_now [where eng = eng
      and s = "s\<lparr>timers := filter (\<lambda>e. \<not> deadline (snd e) \<le> t) (timers s)\<rparr>", OF this]
  show ?thesis
    by (simp add: advance_def Let_def)
qed

lemma advance_timers:
  "timers (advance eng t s) = filter (\<lambda>e. \<not> deadline (snd e) \<le> t) (timers s)"
  by (simp add: advance_def Let_def fold_fire_keeps)

lemma timersOn_advance:
  "timersOn (advance eng t s) did = filter (\<lambda>e. \<not> deadline (snd e) \<le> t) (timersOn s did)"
  by (simp add: timersOn_def advance_timers advance_keeps conj_commute)

text \<open>
  The timers due by \<open>t\<close> that are on a given document, in the order they fire.
\<close>

lemma due_on:
  "filter (\<lambda>e. documentId (roomHeap s (target (snd e))) = did)
     (sort_key (\<lambda>e. deadline (snd e)) (filter (\<lambda>e. deadline (snd e) \<le> t) (timers s)))
   = sort_key (\<lambda>e. deadline (snd e)) (filter (\<lambda>e. deadline (snd e) \<le> t) (timersOn s did))"
  by (simp add: filter_sort timersOn_def conj_commute)

lemma advance_before:
  assumes armed: "armed s ra D" and early: "t < D"
  shows "armed (advance eng t s) ra D
       \<and> documents (db (advance eng t s)) (documentId (roomHeap s ra)) =
           documents (db s) (documentId (roomHeap s ra))
       \<and> operationsOn (db (advance eng t s)) (documentId (roomHeap s ra)) =
           operationsOn (db s) (documentId (roomHeap s ra))"
proof -
  let ?did = "documentId (roomHeap s ra)"
  let ?due = "sort_key (\<lambda>e. deadline (snd e)) (filter (\<lambda>e. deadline (snd e) \<le> t) (timers s))"
  let ?s1 = "s\<lparr>timers := filter (\<lambda>e. \<not> deadline (snd e) \<le> t) (timers s)\<rparr>"
  from armed obtain h where h: "saveTimeout (roomHeap s ra) = Some h"
    and on: "timersOn s ?did = [(h, \<lparr>deadline = D, target = ra\<rparr>)]"
    by (auto simp add: armed_def split: option.splits)
  have "filter (\<lambda>e. documentId (roomHeap s (target (snd e))) = ?did) ?due = []"
    using early by (simp add: due_on on)
  then have others: "\<forall>e \<in> set ?due. documentId (roomHeap ?s1 (target (snd e))) \<noteq> ?did"
    by (simp add: filter_empty_conv)
  from fold_fire_other [where eng = eng and ra = ra, OF others]
  have keep: "documents (db (advance eng t s)) ?did = documents (db s) ?did"
    "operationsOn (db (advance eng t s)) ?did = operationsOn (db s) ?did"
    by (simp_all add: advance_def Let_def)
  have "armed (advance eng t s) ra D"
    using early by (simp add: armed_def advance_keeps timersOn_advance h on)
  with keep show ?thesis by simp
qed

lemma advance_fires:
  assumes armed: "armed s ra D" and late: "D \<le> t"
    and row: "documents (db s) (documentId (roomHeap s ra)) = Some row"
  shows "map_option version (documents (db (advance eng t s)) (documentId (roomHeap s ra))) =
           Some (version row + 1)
       \<and> map_option content (documents (db (advance eng t s)) (documentId (roomHeap s ra))) =
           Some (Some (getState eng (docHeap s (document (roomHeap s ra)))))
       \<and> length (operationsOn (db (advance eng t s)) (documentId (roomHeap s ra))) =
           Suc (length (operationsOn (db s) (documentId (roomHeap s ra))))
       \<and> timersOn (advance eng t s) (documentId (roomHeap s ra)) = []"
proof -
  let ?did = "documentId (roomHeap s ra)"
  let ?due = "sort_key (\<lambda>e. deadline (snd e)) (filter (\<lambda>e. deadline (snd e) \<le> t) (timers s))"
  let ?s1 = "s\<lparr>timers := filter (\<lambda>e. \<not> deadline (snd e) \<le> t) (timers s)\<rparr>"
  from armed obtain h where h: "saveTimeout (roomHeap s ra) = Some h"
    and on: "timersOn s ?did = [(h, \<lparr>deadline = D, target = ra\<rparr>)]"
    by (auto simp add: armed_def split: option.splits)
  have "filter (\<lambda>e. documentId (roomHeap s (target (snd e))) = ?did) ?due
          = [(h, \<lparr>deadline = D, target = ra\<rparr>)]"
    using late by (simp add: due_on on)
  then have one: "filter (\<lambda>e. documentId (roomHeap ?s1 (target (snd e))) = ?did) ?due
          = [(h, \<lparr>deadline = D, target = ra\<rparr>)]"
    by simp
  have row1: "documents (db ?s1) ?did = Some row" using row by simp
  from fold_fire_one [where eng = eng, OF one _ row1]
  have "map_option version (documents (db (advance eng t s)) ?did) = Some (version row + 1)
       \<and> map_option content (documents (db (advance eng t s)) ?did) =
           Some (Some (getState eng (docHeap s (document (roomHeap s ra)))))
       \<and> length (operationsOn (db (advance eng t s)) ?did) = Suc (length (operationsOn (db s) ?did))"
    by (simp add: advance_def Let_def)
  moreover have "timersOn (advance eng t s) ?did = []"
    using late by (simp add: timersOn_advance on)
  ultimately show ?thesis by simp
qed


lemma armed_own:
  "armed s ra D \<Longrightarrow>
   \<forall>e \<in> set (timersOn s (documentId (roomHeap s ra))). saveTimeout (roomHeap s ra) = Some (fst e)"
  by (auto simp add: armed_def split: option.splits)

text \<open>\<open>scheduleSave\<close> leaves exactly one timer on the room's document: the one it arms.\<close>

lemma scheduleSave_timers:
  "timers (scheduleSave ra s) =
     (case saveTimeout (roomHeap s ra) of
        None \<Rightarrow> timers s
      | Some h \<Rightarrow> filter (\<lambda>e. fst e \<noteq> h) (timers s))
     @ [(nextTimer s, \<lparr>deadline = now s + SAVE_DEBOUNCE_MS, target = ra\<rparr>)]"
  "saveTimeout (roomHeap (scheduleSave ra s) ra) = Some (nextTimer s)"
  by (simp_all add: scheduleSave_def setTimeout_def clearTimeout_def case_prod_unfold
      split: option.split)

lemma timersOn_scheduleSave:
  "timersOn (scheduleSave ra s) did =
     filter (\<lambda>e. documentId (roomHeap s (target (snd e))) = did) (timers (scheduleSave ra s))"
  by (simp add: timersOn_def scheduleSave_keeps)

lemma scheduleSave_armed:
  assumes own: "\<forall>e \<in> set (timersOn s (documentId (roomHeap s ra))). saveTimeout (roomHeap s ra) = Some (fst e)"
  shows "armed (scheduleSave ra s) ra (now s + SAVE_DEBOUNCE_MS)"
proof -
  let ?did = "documentId (roomHeap s ra)"
  have "filter (\<lambda>e. documentId (roomHeap s (target (snd e))) = ?did)
          (case saveTimeout (roomHeap s ra) of
             None \<Rightarrow> timers s
           | Some h \<Rightarrow> filter (\<lambda>e. fst e \<noteq> h) (timers s)) = []"
  proof (cases "saveTimeout (roomHeap s ra)")
    case None
    with own have "timersOn s ?did = []"
      by (cases "timersOn s ?did") auto
    with None show ?thesis by (simp add: timersOn_def)
  next
    case (Some h)
    with own have "filter (\<lambda>e. fst e \<noteq> h) (timersOn s ?did) = []"
      by (auto simp add: filter_empty_conv)
    with Some show ?thesis by (simp add: timersOn_def conj_commute)
  qed
  then have "timersOn (scheduleSave ra s) ?did =
               [(nextTimer s, \<lparr>deadline = now s + SAVE_DEBOUNCE_MS, target = ra\<rparr>)]"
    by (simp add: timersOn_scheduleSave scheduleSave_timers(1))
  then show ?thesis
    by (simp add: armed_def scheduleSave_timers(2) scheduleSave_keeps)
qed

lemma scheduleSave_now: "now (scheduleSave ra s) = now s"
  by (simp add: scheduleSave_def setTimeout_def clearTimeout_def Let_def split: option.split)

lemma update_arms:
  fixes s :: "'d Server" and eng :: "'d Engine" and socket :: Socket
    and payload :: UpdateOperationPayload
  defines "s' \<equiv> handleUpdateOperation eng socket payload s"
  assumes joined: "roomOf s (sock_id socket) = Some roomId" and room: "rooms s roomId = Some ra"
    and role: "map_option ru_role (map_of (users (roomHeap s ra)) (sock_userId socket)) \<noteq> Some VIEWER"
    and ok: "Y_applyUpdate eng (doc (docHeap s (document (roomHeap s ra))))
               (arrayToUint8Array eng (uo_update payload)) = Ok d'"
    and own: "\<forall>e \<in> set (timersOn s (documentId (roomHeap s ra))). saveTimeout (roomHeap s ra) = Some (fst e)"
  shows "armed s' ra (now s + SAVE_DEBOUNCE_MS)"
    and "db s' = db s" and "now s' = now s"
    and "doc (docHeap s' (document (roomHeap s' ra))) = d'"
    and "rooms s' = rooms s" and "socketToRoom s' = socketToRoom s"
    and "users (roomHeap s' ra) = users (roomHeap s ra)"
    and "documentId (roomHeap s' ra) = documentId (roomHeap s ra)"
proof -
  let ?s0 = "emit (ToOthers roomId (sock_id socket)) (UPDATE_OPERATION payload (sock_userId socket))
                (s\<lparr>docHeap := (docHeap s)(document (roomHeap s ra) :=
                      (docHeap s (document (roomHeap s ra)))\<lparr>doc := d'\<rparr>)\<rparr>)"
  have s': "s' = scheduleSave ra ?s0"
    unfolding s'_def by (rule handleUpdateOperation_accepted [OF joined room role ok])
  have own0: "\<forall>e \<in> set (timersOn ?s0 (documentId (roomHeap ?s0 ra))).
                saveTimeout (roomHeap ?s0 ra) = Some (fst e)"
    using own by (simp add: timersOn_def emit_def)
  from scheduleSave_armed [OF own0] show "armed s' ra (now s + SAVE_DEBOUNCE_MS)"
    by (simp add: s' emit_def)
  show "db s' = db s" by (simp add: s' scheduleSave_keeps emit_def)
  show "now s' = now s" by (simp add: s' scheduleSave_now emit_def)
  show "doc (docHeap s' (document (roomHeap s' ra))) = d'"
    by (simp add: s' scheduleSave_keeps emit_def)
  show "rooms s' = rooms s" by (simp add: s' scheduleSave_keeps emit_def)
  show "socketToRoom s' = socketToRoom s" by (simp add: s' scheduleSave_keeps emit_def)
  show "users (roomHeap s' ra) = users (roomHeap s ra)" by (simp add: s' scheduleSave_keeps emit_def)
  show "documentId (roomHeap s' ra) = documentId (roomHeap s ra)"
    by (simp add: s' scheduleSave_keeps emit_def)
qed


text \<open>Through a burst the room stays armed, for the window after its latest update.\<close>

lemma burst_armed:
  assumes "armed s ra (now s + SAVE_DEBOUNCE_MS)"
    and "rooms s roomId = Some ra"
    and "\<forall>(dt, sock, p) \<in> set us.
           0 \<le> dt \<and> dt < SAVE_DEBOUNCE_MS \<and> roomOf s (sock_id sock) = Some roomId
         \<and> map_option ru_role (map_of (users (roomHeap s ra)) (sock_userId sock)) \<noteq> Some VIEWER"
    and "merged eng (doc (docHeap s (document (roomHeap s ra))))
           (map (\<lambda>(dt, sock, p). uo_update p) us) = Ok dN"
  shows "armed (burst eng us s) ra (now (burst eng us s) + SAVE_DEBOUNCE_MS)
       \<and> documents (db (burst eng us s)) (documentId (roomHeap s ra)) =
           documents (db s) (documentId (roomHeap s ra))
       \<and> operationsOn (db (burst eng us s)) (documentId (roomHeap s ra)) =
           operationsOn (db s) (documentId (roomHeap s ra))
       \<and> doc (docHeap (burst eng us s) (document (roomHeap (burst eng us s) ra))) = dN
       \<and> documentId (roomHeap (burst eng us s) ra) = documentId (roomHeap s ra)"
  using assms
proof (induction us arbitrary: s)
  case Nil
  then show ?case by simp
next
  case (Cons u us)
  obtain dt sock p where u: "u = (dt, sock, p)" by (cases u)
  let ?did = "documentId (roomHeap s ra)"
  define sA where "sA = advance eng (now s + dt) s"
  define sU where "sU = handleUpdateOperation eng sock p sA"
  from Cons.prems(3) u have dt: "0 \<le> dt" "dt < SAVE_DEBOUNCE_MS"
    and joined: "roomOf s (sock_id sock) = Some roomId"
    and role: "map_option ru_role (map_of (users (roomHeap s ra)) (sock_userId sock)) \<noteq> Some VIEWER"
    by auto
  from Cons.prems(4) u obtain d' where
    ok: "Y_applyUpdate eng (doc (docHeap s (document (roomHeap s ra))))
           (arrayToUint8Array eng (uo_update p)) = Ok d'"
    and rest: "merged eng d' (map (\<lambda>(dt, sock, p). uo_update p) us) = Ok dN"
    by (auto split: applied.splits)
  have early: "now s + dt < now s + SAVE_DEBOUNCE_MS" using dt by simp
  from advance_before [where eng = eng, OF Cons.prems(1) early]
  have A: "armed sA ra (now s + SAVE_DEBOUNCE_MS)"
    "documents (db sA) ?did = documents (db s) ?did"
    "operationsOn (db sA) ?did = operationsOn (db s) ?did"
    by (simp_all add: sA_def)
  have A': "now sA = now s + dt" "rooms sA = rooms s" "docHeap sA = docHeap s"
    "users (roomHeap sA ra) = users (roomHeap s ra)"
    "document (roomHeap sA ra) = document (roomHeap s ra)"
    "documentId (roomHeap sA ra) = ?did"
    "\<And>x. roomOf sA x = roomOf s x"
    using dt by (simp_all add: sA_def advance_now advance_keeps roomOf_advance)
  have joinedA: "roomOf sA (sock_id sock) = Some roomId" using joined by (simp add: A')
  have roomA: "rooms sA roomId = Some ra" using Cons.prems(2) by (simp add: A')
  have roleA: "map_option ru_role (map_of (users (roomHeap sA ra)) (sock_userId sock)) \<noteq> Some VIEWER"
    using role by (simp add: A')
  have okA: "Y_applyUpdate eng (doc (docHeap sA (document (roomHeap sA ra))))
           (arrayToUint8Array eng (uo_update p)) = Ok d'"
    using ok by (simp add: A')
  note U = update_arms [where eng = eng, OF joinedA roomA roleA okA armed_own [OF A(1)],
      folded sU_def]
  have roomOfU: "roomOf sU x = roomOf s x" for x
  proof -
    have "roomOf sU x = roomOf sA x" by (rule roomOf_cong) (rule U(6))
    then show ?thesis by (simp add: A')
  qed
  have armedU: "armed sU ra (now sU + SAVE_DEBOUNCE_MS)"
    using U(1) by (simp add: U(3))
  have roomU: "rooms sU roomId = Some ra" using roomA by (simp add: U(5))
  have membersU: "\<forall>(dt, sock, p) \<in> set us.
           0 \<le> dt \<and> dt < SAVE_DEBOUNCE_MS \<and> roomOf sU (sock_id sock) = Some roomId
         \<and> map_option ru_role (map_of (users (roomHeap sU ra)) (sock_userId sock)) \<noteq> Some VIEWER"
    using Cons.prems(3) by (simp add: roomOfU U(7) A')
  have mergedU: "merged eng (doc (docHeap sU (document (roomHeap sU ra))))
           (map (\<lambda>(dt, sock, p). uo_update p) us) = Ok dN"
    using rest by (simp add: U(4))
  have didU: "documentId (roomHeap sU ra) = ?did" by (simp add: U(8) A')
  from Cons.IH [OF armedU roomU membersU mergedU]
  show ?case
    by (simp add: u sA_def [symmetric] sU_def [symmetric] didU U(2) A)
qed

text \<open>
  Claim C5.  A burst is an accepted update followed by any number of accepted updates of
  the same room, each less than \<open>SAVE_DEBOUNCE_MS\<close> after the one before; every one of them
  clears the timer the room holds and arms a new one, so that after the last of them the
  room is armed for one window later, with no other timer on its document.  While less
  than the window has elapsed since the last update, the document's row and its operation
  records are those of before the burst.  Once the window has elapsed, the row holds the encoding of the
  document with all the updates merged and a version exactly one higher, exactly one
  operation record has been added, and no timer on the document is pending: one save for
  the whole burst.  The timers pending on the document when the burst starts are the
  room's own, under the handle it holds.
\<close>

theorem burst_saves_once:
  fixes s :: "'d Server" and eng :: "'d Engine" and socket :: Socket
    and payload :: UpdateOperationPayload and ra :: nat
    and rest :: "(int \<times> Socket \<times> UpdateOperationPayload) list"
  defines "did \<equiv> documentId (roomHeap s ra)"
  defines "s1 \<equiv> burst eng rest (handleUpdateOperation eng socket payload s)"
  assumes room: "rooms s roomId = Some ra"
    and members: "\<forall>(dt, sock, p) \<in> set ((0, socket, payload) # rest).
           roomOf s (sock_id sock) = Some roomId
         \<and> map_option ru_role (map_of (users (roomHeap s ra)) (sock_userId sock)) \<noteq> Some VIEWER"
    and gaps: "\<forall>(dt, sock, p) \<in> set rest. 0 \<le> dt \<and> dt < SAVE_DEBOUNCE_MS"
    and engine: "merged eng (doc (docHeap s (document (roomHeap s ra))))
           (map (\<lambda>(dt, sock, p). uo_update p) ((0, socket, payload) # rest)) = Ok dN"
    and row: "documents (db s) did = Some row"
    and own: "\<forall>e \<in> set (timersOn s did). saveTimeout (roomHeap s ra) = Some (fst e)"
    and early: "early < SAVE_DEBOUNCE_MS"
    and quiet: "SAVE_DEBOUNCE_MS \<le> quiet"
  shows "armed s1 ra (now s1 + SAVE_DEBOUNCE_MS)
       \<and> documents (db (advance eng (now s1 + early) s1)) did = Some row
       \<and> operationsOn (db (advance eng (now s1 + early) s1)) did = operationsOn (db s) did
       \<and> map_option version (documents (db (advance eng (now s1 + quiet) s1)) did) =
           Some (version row + 1)
       \<and> map_option content (documents (db (advance eng (now s1 + quiet) s1)) did) =
           Some (Some (Y_encodeStateAsUpdate eng dN))
       \<and> length (operationsOn (db (advance eng (now s1 + quiet) s1)) did) =
           Suc (length (operationsOn (db s) did))
       \<and> timersOn (advance eng (now s1 + quiet) s1) did = []"
proof -
  define sU where "sU = handleUpdateOperation eng socket payload s"
  from members have joined: "roomOf s (sock_id socket) = Some roomId"
    and role: "map_option ru_role (map_of (users (roomHeap s ra)) (sock_userId socket)) \<noteq> Some VIEWER"
    and others: "\<forall>(dt, sock, p) \<in> set rest.
           roomOf s (sock_id sock) = Some roomId
         \<and> map_option ru_role (map_of (users (roomHeap s ra)) (sock_userId sock)) \<noteq> Some VIEWER"
    by auto
  from engine obtain d' where
    ok: "Y_applyUpdate eng (doc (docHeap s (document (roomHeap s ra))))
           (arrayToUint8Array eng (uo_update payload)) = Ok d'"
    and more: "merged eng d' (map (\<lambda>(dt, sock, p). uo_update p) rest) = Ok dN"
    by (auto split: applied.splits)
  note U = update_arms [where eng = eng, OF joined room role ok own [unfolded did_def],
      folded sU_def]
  have roomOfU: "roomOf sU x = roomOf s x" for x
    by (rule roomOf_cong) (rule U(6))
  have armedU: "armed sU ra (now sU + SAVE_DEBOUNCE_MS)" using U(1) by (simp add: U(3))
  have roomU: "rooms sU roomId = Some ra" using room by (simp add: U(5))
  have membersU: "\<forall>(dt, sock, p) \<in> set rest.
           0 \<le> dt \<and> dt < SAVE_DEBOUNCE_MS \<and> roomOf sU (sock_id sock) = Some roomId
         \<and> map_option ru_role (map_of (users (roomHeap sU ra)) (sock_userId sock)) \<noteq> Some VIEWER"
    using others gaps by (auto simp add: roomOfU U(7))
  have mergedU: "merged eng (doc (docHeap sU (document (roomHeap sU ra))))
           (map (\<lambda>(dt, sock, p). uo_update p) rest) = Ok dN"
    using more by (simp add: U(4))
  have s1: "s1 = burst eng rest sU" by (simp add: s1_def sU_def)
  from burst_armed [OF armedU roomU membersU mergedU]
  have B: "armed s1 ra (now s1 + SAVE_DEBOUNCE_MS)"
    "documents (db s1) did = Some row"
    "operationsOn (db s1) did = operationsOn (db s) did"
    "doc (docHeap s1 (document (roomHeap s1 ra))) = dN"
    "documentId (roomHeap s1 ra) = did"
    by (simp_all add: s1 U(2) U(8) did_def [symmetric] row)
  have e: "now s1 + early < now s1 + SAVE_DEBOUNCE_MS" using early by simp
  have q: "now s1 + SAVE_DEBOUNCE_MS \<le> now s1 + quiet" using quiet by simp
  from advance_before [where eng = eng, OF B(1) e]
  have before: "documents (db (advance eng (now s1 + early) s1)) did = Some row"
    "operationsOn (db (advance eng (now s1 + early) s1)) did = operationsOn (db s) did"
    by (simp_all add: B)
  from advance_fires [where eng = eng, OF B(1) q B(2) [folded B(5)]]
  have after: "map_option version (documents (db (advance eng (now s1 + quiet) s1)) did) =
           Some (version row + 1)"
    "map_option content (documents (db (advance eng (now s1 + quiet) s1)) did) =
           Some (Some (Y_encodeStateAsUpdate eng dN))"
    "length (operationsOn (db (advance eng (now s1 + quiet) s1)) did) =
           Suc (length (operationsOn (db s) did))"
    "timersOn (advance eng (now s1 + quiet) s1) did = []"
    by (simp_all add: B getState_def)
  from B(1) before after show ?thesis by simp
qed


theorem burst_saves_once_witness:
  "map_option version (documents (db (advance demoEngine
      (now (burst demoEngine demoBurst (handleUpdateOperation demoEngine aliceTab1 demoUpdate demoServer)) + 1999)
      (burst demoEngine demoBurst (handleUpdateOperation demoEngine aliceTab1 demoUpdate demoServer)))) ''d1'')
     = Some 3
   \<and> map_option version (documents (db (advance demoEngine
      (now (burst demoEngine demoBurst (handleUpdateOperation demoEngine aliceTab1 demoUpdate demoServer)) + 2000)
      (burst demoEngine demoBurst (handleUpdateOperation demoEngine aliceTab1 demoUpdate demoServer)))) ''d1'')
     = Some 4
   \<and> map_option content (documents (db (advance demoEngine
      (now (burst demoEngine demoBurst (handleUpdateOperation demoEngine aliceTab1 demoUpdate demoServer)) + 2000)
      (burst demoEngine demoBurst (handleUpdateOperation demoEngine aliceTab1 demoUpdate demoServer)))) ''d1'')
     = Some (Some [1, 2, 7, 9, 9, 8, 5, 6])
   \<and> length (operationsOn (db (advance demoEngine
      (now (burst demoEngine demoBurst (handleUpdateOperation demoEngine aliceTab1 demoUpdate demoServer)) + 2000)
      (burst demoEngine demoBurst (handleUpdateOperation demoEngine aliceTab1 demoUpdate demoServer)))) ''d1'')
     = 1
   \<and> timersOn (advance demoEngine
      (now (burst demoEngine demoBurst (handleUpdateOperation demoEngine aliceTab1 demoUpdate demoServer)) + 2000)
      (burst demoEngine demoBurst (handleUpdateOperation demoEngine aliceTab1 demoUpdate demoServer))) ''d1''
     = []"
proof -
  have d: "documentId (roomHeap demoServer 0) = ''d1''" by (simp add: demoServer_def)
  have 1: "rooms demoServer ''doc:d1'' = Some 0" by (simp add: demoServer_def)
  have 2: "\<forall>(dt, sock, p) \<in> set ((0, aliceTab1, demoUpdate) # demoBurst).
           roomOf demoServer (sock_id sock) = Some ''doc:d1''
         \<and> map_option ru_role (map_of (users (roomHeap demoServer 0)) (sock_userId sock)) \<noteq> Some VIEWER"
    by (simp add: demoBurst_def roomOf_def demoServer_def aliceTab1_def aliceTab2_def member_def)
  have 3: "\<forall>(dt, sock, p) \<in> set demoBurst. 0 \<le> dt \<and> dt < SAVE_DEBOUNCE_MS"
    by (simp add: demoBurst_def SAVE_DEBOUNCE_MS_def)
  have 4: "merged demoEngine (doc (docHeap demoServer (document (roomHeap demoServer 0))))
           (map (\<lambda>(dt, sock, p). uo_update p) ((0, aliceTab1, demoUpdate) # demoBurst))
           = Ok [[1, 2], [7], [9, 9], [8], [5, 6]]"
    by (simp add: demoBurst_def demoServer_def demoEngine_def demoUpdate_def demoUpdate2_def
        demoUpdate3_def)
  have 5: "documents (db demoServer) (documentId (roomHeap demoServer 0)) =
             Some \<lparr>title = ''Notes'', content = Some [1, 2], ownerId = ''u1'', isPublic = False,
                   version = 3, updatedAt = 1000\<rparr>"
    by (simp add: demoServer_def demoDb_def)
  have 6: "\<forall>e \<in> set (timersOn demoServer (documentId (roomHeap demoServer 0))).
             saveTimeout (roomHeap demoServer 0) = Some (fst e)"
    by (simp add: timersOn_def demoServer_def)
  have 7: "(1999::int) < SAVE_DEBOUNCE_MS" "SAVE_DEBOUNCE_MS \<le> (2000::int)"
    by (simp_all add: SAVE_DEBOUNCE_MS_def)
  have e: "Y_encodeStateAsUpdate demoEngine [[1, 2], [7], [9, 9], [8], [5, 6]] = [1, 2, 7, 9, 9, 8, 5, 6]"
    "operationsOn (db demoServer) ''d1'' = []"
    by (simp_all add: demoEngine_def operationsOn_def demoServer_def demoDb_def)
  from burst_saves_once [OF 1 2 3 4 5 6 7]
  show ?thesis by (simp add: d e)
qed

end
